theory Spec2Isabelle
  imports Main "HOL-Library.Word" "HOL-Library.AList"
begin

section \<open>The Janus core (janus.c): sessions, requests and the Janus API\<close>

text \<open>
  A shallow embedding of the session registry, the timeout watchdog and the Janus API
  request handler of \<^verbatim>\<open>janus.c\<close>. The model is sequential: one call runs to its end before
  the next one starts, so mutexes and reference counters are left out. Hash tables are
  association lists with distinct keys; the order of a list stands for the (unspecified)
  order in which \<^verbatim>\<open>GHashTableIter\<close> visits the table. Every call the core makes to a
  collaborator (transport, plugin, ICE stack, SDP parser, event handlers) is appended to
  the \<open>calls\<close> field of the state, and what a collaborator returns is read from the
  environment record \<open>janus_env\<close>.
\<close>

subsection \<open>Basic types\<close>

type_synonym guint64 = "64 word"
type_synonym gint64 = int

definition G_USEC_PER_SEC :: int where
  "G_USEC_PER_SEC = 1000000"

text \<open>Jansson values. An object keeps its members in insertion order.\<close>

datatype json =
    JSON_OBJECT "(string \<times> json) list"
  | JSON_ARRAY "json list"
  | JSON_STRING string
  | JSON_INTEGER int
  | JSON_REAL int int
  | JSON_TRUE
  | JSON_FALSE
  | JSON_NULL

datatype json_type =
    T_JSON_OBJECT | T_JSON_ARRAY | T_JSON_STRING | T_JSON_INTEGER | T_JSON_REAL
  | T_JSON_TRUE | T_JSON_FALSE | T_JSON_NULL

fun json_typeof :: "json \<Rightarrow> json_type" where
  "json_typeof (JSON_OBJECT _) = T_JSON_OBJECT"
| "json_typeof (JSON_ARRAY _) = T_JSON_ARRAY"
| "json_typeof (JSON_STRING _) = T_JSON_STRING"
| "json_typeof (JSON_INTEGER _) = T_JSON_INTEGER"
| "json_typeof (JSON_REAL _ _) = T_JSON_REAL"
| "json_typeof JSON_TRUE = T_JSON_TRUE"
| "json_typeof JSON_FALSE = T_JSON_FALSE"
| "json_typeof JSON_NULL = T_JSON_NULL"

text \<open>\<^verbatim>\<open>json_object_get\<close>: NULL (here \<open>None\<close>) for a NULL or non-object value and for a
  missing key.\<close>

fun json_object_get :: "json option \<Rightarrow> string \<Rightarrow> json option" where
  "json_object_get (Some (JSON_OBJECT members)) key = map_of members key"
| "json_object_get _ key = None"

fun json_is_integer :: "json \<Rightarrow> bool" where
  "json_is_integer (JSON_INTEGER _) = True"
| "json_is_integer _ = False"

fun json_is_string :: "json \<Rightarrow> bool" where
  "json_is_string (JSON_STRING _) = True"
| "json_is_string _ = False"

fun json_is_object :: "json \<Rightarrow> bool" where
  "json_is_object (JSON_OBJECT _) = True"
| "json_is_object _ = False"

fun json_is_array :: "json \<Rightarrow> bool" where
  "json_is_array (JSON_ARRAY _) = True"
| "json_is_array _ = False"

fun json_is_true :: "json \<Rightarrow> bool" where
  "json_is_true JSON_TRUE = True"
| "json_is_true _ = False"

text \<open>\<^verbatim>\<open>json_integer_value\<close> is 0 for anything but an integer, \<^verbatim>\<open>json_string_value\<close> is NULL
  for anything but a string, \<^verbatim>\<open>json_array_size\<close> is 0 for anything but an array.\<close>

fun json_integer_value :: "json option \<Rightarrow> int" where
  "json_integer_value (Some (JSON_INTEGER i)) = i"
| "json_integer_value _ = 0"

fun json_string_value :: "json option \<Rightarrow> string option" where
  "json_string_value (Some (JSON_STRING s)) = Some s"
| "json_string_value _ = None"

fun json_array_elements :: "json \<Rightarrow> json list" where
  "json_array_elements (JSON_ARRAY xs) = xs"
| "json_array_elements _ = []"

text \<open>\<^verbatim>\<open>strcasecmp\<close>, of which the code only ever tests the result against 0.\<close>

definition tolower :: "char \<Rightarrow> char" where
  "tolower c =
     (case map_of (zip ''ABCDEFGHIJKLMNOPQRSTUVWXYZ'' ''abcdefghijklmnopqrstuvwxyz'') c of
        Some l \<Rightarrow> l
      | None \<Rightarrow> c)"

definition strcasecmp :: "string \<Rightarrow> string \<Rightarrow> int" where
  "strcasecmp a b = (if map tolower a = map tolower b then 0 else 1)"

text \<open>\<^verbatim>\<open>g_atomic_int_compare_and_exchange (&x, oldval, newval)\<close>: whether the exchange took
  place, and the value of \<open>x\<close> afterwards.\<close>

definition g_atomic_int_compare_and_exchange :: "int \<Rightarrow> int \<Rightarrow> int \<Rightarrow> bool \<times> int" where
  "g_atomic_int_compare_and_exchange x oldval newval =
     (if x = oldval then (True, newval) else (False, x))"

subsection \<open>Requests, replies and the calls made to collaborators\<close>

text \<open>A transport is known by its package name, a transport instance by its address.\<close>

record janus_request =
  transport :: string
  instance_ptr :: nat
  request_id :: "nat option"
  admin :: bool
  message :: "json option"

datatype api_error =
    JANUS_ERROR_UNKNOWN
  | JANUS_ERROR_UNAUTHORIZED
  | JANUS_ERROR_UNAUTHORIZED_PLUGIN
  | JANUS_ERROR_UNKNOWN_REQUEST
  | JANUS_ERROR_INVALID_JSON
  | JANUS_ERROR_INVALID_JSON_OBJECT
  | JANUS_ERROR_MISSING_MANDATORY_ELEMENT
  | JANUS_ERROR_INVALID_REQUEST_PATH
  | JANUS_ERROR_SESSION_NOT_FOUND
  | JANUS_ERROR_HANDLE_NOT_FOUND
  | JANUS_ERROR_PLUGIN_NOT_FOUND
  | JANUS_ERROR_PLUGIN_ATTACH
  | JANUS_ERROR_PLUGIN_MESSAGE
  | JANUS_ERROR_PLUGIN_DETACH
  | JANUS_ERROR_JSEP_UNKNOWN_TYPE
  | JANUS_ERROR_JSEP_INVALID_SDP
  | JANUS_ERROR_INVALID_ELEMENT_TYPE
  | JANUS_ERROR_SESSION_CONFLICT
  | JANUS_ERROR_UNEXPECTED_ANSWER
  | JANUS_ERROR_WEBRTC_STATE
  | Trickle_error int

text \<open>The format argument of \<^verbatim>\<open>janus_process_error\<close> with its variable arguments: NULL, or a
  \<^verbatim>\<open>printf\<close> format. The conversions janus.c uses are \<^verbatim>\<open>%s\<close>, \<^verbatim>\<open>%d\<close> and \<^verbatim>\<open>%"SCNu64"\<close>, which
  is \<^verbatim>\<open>%lu\<close> where \<^verbatim>\<open>long\<close> has 64 bits.\<close>

datatype fmt_arg = Arg_s string | Arg_u64 guint64 | Arg_d int

datatype printf_format =
    NULL_format
  | Format string "fmt_arg list"

text \<open>The \<^verbatim>\<open>reason\<close> of an error reply: the default text of the code
  (\<^verbatim>\<open>janus_get_api_error\<close>, apierror.c), a string, or what the validation macros of utils.h
  print for a missing element (format and name) and for an element of the wrong type
  (format, name and expected type).\<close>

datatype error_reason =
    Api_error_string
  | Cause string
  | Missing_element string string
  | Invalid_element string string json_type

text \<open>The decimal digits of a number, and the text \<^verbatim>\<open>printf\<close> writes for an argument.\<close>

function decimal :: "nat \<Rightarrow> string" where
  "decimal n =
     (if n < 10 then [''0123456789'' ! n]
      else decimal (n div 10) @ [''0123456789'' ! (n mod 10)])"
  by pat_completeness auto
termination
  by (relation "measure id") auto

declare decimal.simps [simp del]

fun arg_text :: "fmt_arg \<Rightarrow> string" where
  "arg_text (Arg_s s) = s"
| "arg_text (Arg_u64 n) = decimal (unat n)"
| "arg_text (Arg_d i) = (if i < 0 then CHR ''-'' # decimal (nat (- i)) else decimal (nat i))"

text \<open>
  \<open>printf_text in_conversion format ap\<close>: the text a format prints. A \<^verbatim>\<open>%\<close> starts a
  conversion specification, which ends at its conversion letter (\<^verbatim>\<open>s\<close>, \<^verbatim>\<open>d\<close> or \<^verbatim>\<open>u\<close>; what
  stands before the letter is a length modifier) and prints the next argument. janus.c
  gives every conversion its argument, of the type the letter asks for.
  \<^verbatim>\<open>g_vsnprintf\<close> writes at most \<open>n - 1\<close> characters of the text (and the final NUL) to a
  buffer of \<open>n\<close> bytes.
\<close>

fun printf_text :: "bool \<Rightarrow> string \<Rightarrow> fmt_arg list \<Rightarrow> string" where
  "printf_text in_conversion [] ap = []"
| "printf_text False (c # cs) ap =
     (if c = CHR ''%'' then printf_text True cs ap else c # printf_text False cs ap)"
| "printf_text True (c # cs) ap =
     (if c = CHR ''s'' \<or> c = CHR ''d'' \<or> c = CHR ''u''
      then (case ap of
              [] \<Rightarrow> printf_text False cs []
            | a # ap \<Rightarrow> arg_text a @ printf_text False cs ap)
      else printf_text True cs ap)"

definition g_vsnprintf :: "nat \<Rightarrow> string \<Rightarrow> fmt_arg list \<Rightarrow> string" where
  "g_vsnprintf n format ap = take (n - 1) (printf_text False format ap)"

text \<open>What a reply carries besides \<^verbatim>\<open>janus\<close>, \<^verbatim>\<open>session_id\<close> and \<^verbatim>\<open>transaction\<close>.\<close>

datatype reply_extra =
    Nothing_more
  | Error_object api_error error_reason
  | Data_id guint64
  | Plugin_data guint64 string json
  | Hint string
  | Server_info

record janus_reply =
  r_janus :: string
  r_session_id :: "guint64 option"
  r_transaction :: "string option"
  r_extra :: reply_extra

datatype janus_sdp = Parsed_sdp string

datatype event =
    Send_message string nat "nat option" bool janus_reply
  | Session_created string nat guint64
  | Session_over string nat guint64 bool
  | Events_notify_session guint64 string
  | Events_notify_jsep guint64 guint64 "string option" string string string
  | Ice_handle_destroy guint64 guint64
  | Plugin_create_session string guint64
  | Ice_webrtc_hangup guint64 string
  | Ice_setup_local guint64 int int int int bool
  | Sdp_process guint64 janus_sdp bool
  | Ice_trickle_parse guint64 json
  | Ice_setup_remote_candidates guint64 nat nat
  | Nice_agent_set_remote_credentials guint64 nat string string
  | Ice_restart guint64
  | Dtls_srtp_create_sctp guint64
  | Plugin_handle_message string "nat option" "string option" "json option" "json option"

subsection \<open>Handles and sessions\<close>

datatype janus_flag =
    JANUS_ICE_HANDLE_WEBRTC_PROCESSING_OFFER
  | JANUS_ICE_HANDLE_WEBRTC_START
  | JANUS_ICE_HANDLE_WEBRTC_READY
  | JANUS_ICE_HANDLE_WEBRTC_STOP
  | JANUS_ICE_HANDLE_WEBRTC_ALERT
  | JANUS_ICE_HANDLE_WEBRTC_TRICKLE
  | JANUS_ICE_HANDLE_WEBRTC_ALL_TRICKLES
  | JANUS_ICE_HANDLE_WEBRTC_TRICKLE_SYNCED
  | JANUS_ICE_HANDLE_WEBRTC_DATA_CHANNELS
  | JANUS_ICE_HANDLE_WEBRTC_CLEANING
  | JANUS_ICE_HANDLE_WEBRTC_HAS_AUDIO
  | JANUS_ICE_HANDLE_WEBRTC_HAS_VIDEO
  | JANUS_ICE_HANDLE_WEBRTC_GOT_OFFER
  | JANUS_ICE_HANDLE_WEBRTC_GOT_ANSWER
  | JANUS_ICE_HANDLE_WEBRTC_ICE_RESTART
  | JANUS_ICE_HANDLE_WEBRTC_RESEND_TRICKLES
  | JANUS_ICE_HANDLE_WEBRTC_RFC4588_RTX

text \<open>Modelled from the spec: \<^verbatim>\<open>janus_flags_set\<close>, \<^verbatim>\<open>janus_flags_clear\<close> and
  \<^verbatim>\<open>janus_flags_is_set\<close> (utils.c) are not in the source at hand; the spec calls the flags
  bits that are independently settable.\<close>

definition janus_flags_set :: "janus_flag set \<Rightarrow> janus_flag \<Rightarrow> janus_flag set" where
  "janus_flags_set flags f = insert f flags"

definition janus_flags_clear :: "janus_flag set \<Rightarrow> janus_flag \<Rightarrow> janus_flag set" where
  "janus_flags_clear flags f = flags - {f}"

definition janus_flags_is_set :: "janus_flag set \<Rightarrow> janus_flag \<Rightarrow> bool" where
  "janus_flags_is_set flags f = (f \<in> flags)"

text \<open>A queued trickle: the transaction, the candidate (or array of candidates) and the
  monotonic time at which it was received. A list cell may hold NULL, and so may the
  candidate.\<close>

record janus_ice_trickle =
  trickle_transaction :: "string option"
  candidate :: "json option"
  received :: gint64

record janus_dtls_srtp =
  sctp :: bool

record janus_ice_component =
  dtls :: "janus_dtls_srtp option"

record janus_ice_stream =
  s_stream_id :: nat
  ruser :: string
  rpass :: string
  do_transport_wide_cc :: bool
  transport_wide_cc_ext_id :: int
  video_ssrc_peer :: "32 word \<times> 32 word \<times> 32 word"
  component :: "janus_ice_component option"

text \<open>A plugin is known by its package name; \<open>app_handle\<close> is the address of the plugin
  session, \<open>agent\<close> the address of the ICE agent.\<close>

record janus_ice_handle =
  handle_id :: guint64
  opaque_id :: "string option"
  app :: "string option"
  app_handle :: "nat option"
  webrtc_flags :: "janus_flag set"
  pending_trickles :: "janus_ice_trickle option list"
  agent :: "nat option"
  stream_id :: nat
  stream :: "janus_ice_stream option"
  remote_sdp :: "string option"

text \<open>\<open>destroyed\<close> and \<open>timeout\<close> are the \<^verbatim>\<open>volatile gint\<close> fields the code reads and
  writes with GLib's atomic operations.\<close>

record janus_session =
  session_id :: guint64
  source :: "janus_request option"
  destroyed :: int
  timeout :: int
  last_activity :: gint64
  ice_handles :: "(guint64 \<times> janus_ice_handle) list option"

subsection \<open>The environment and the state\<close>

datatype janus_plugin_result_type = JANUS_PLUGIN_ERROR | JANUS_PLUGIN_OK | JANUS_PLUGIN_OK_WAIT

record janus_plugin_result =
  result_type :: janus_plugin_result_type
  result_text :: "string option"
  result_content :: "json option"

text \<open>
  The configuration of the running server and the answers of its collaborators:
  \<^item> \<open>api_secret\<close>, \<open>session_timeout\<close>, \<open>plugins\<close>: the static variables of janus.c;
  \<^item> \<open>janus_auth_*\<close>, \<open>janus_events_is_enabled\<close>: auth.c and events.c;
  \<^item> \<open>monotonic_time k\<close>: what the \<open>k\<close>-th call of \<^verbatim>\<open>janus_get_monotonic_time\<close> returns;
  \<^item> \<open>send_message_result\<close>: what the transport's \<^verbatim>\<open>send_message\<close> returns;
  \<^item> the others: the plugin hooks and the ICE, DTLS and SDP functions the core calls.
\<close>

record janus_env =
  api_secret :: "string option"
  session_timeout :: "32 word"
  plugins :: "(string \<times> string) list"
  janus_auth_is_enabled :: bool
  janus_auth_check_token :: "string \<Rightarrow> bool"
  janus_auth_check_plugin :: "string \<Rightarrow> string \<Rightarrow> bool"
  janus_events_is_enabled :: bool
  monotonic_time :: "nat \<Rightarrow> gint64"
  send_message_result :: "string \<Rightarrow> nat \<Rightarrow> janus_reply \<Rightarrow> int"
  ice_handle_destroy_result :: "guint64 \<Rightarrow> int"
  plugin_create_session_result :: "string \<Rightarrow> guint64 \<Rightarrow> int"
  plugin_session_is_alive :: "nat \<Rightarrow> bool"
  plugin_handle_message :: "string \<Rightarrow> nat option \<Rightarrow> json option \<Rightarrow> json option \<Rightarrow> janus_plugin_result option"
  still_cleaning :: "guint64 \<Rightarrow> nat \<Rightarrow> bool"
  janus_sdp_preparse :: "string \<Rightarrow> (janus_sdp \<times> int \<times> int \<times> int) option \<times> string"
  janus_ice_setup_local :: "janus_ice_handle \<Rightarrow> int \<Rightarrow> int \<Rightarrow> int \<Rightarrow> int \<Rightarrow> bool \<Rightarrow> int \<times> janus_ice_handle"
  janus_sdp_process :: "janus_ice_handle \<Rightarrow> janus_sdp \<Rightarrow> bool \<Rightarrow> int \<times> janus_ice_handle"
  janus_ice_trickle_parse :: "janus_ice_handle \<Rightarrow> json \<Rightarrow> int \<times> string"
  janus_rtp_header_extension_get_id :: "string \<Rightarrow> int"
  janus_ice_is_full_trickle_enabled :: bool
  have_sctp :: bool
  janus_sdp_anonymize :: "janus_sdp \<Rightarrow> int \<times> janus_sdp"
  janus_sdp_write :: "janus_sdp \<Rightarrow> string"

text \<open>
  The state:
  \<^item> \<open>sessions\<close>: the registry (the static hash table \<^verbatim>\<open>sessions\<close>);
  \<^item> \<open>unlinked\<close>: session objects taken out of the registry, which live on until their
    last reference is dropped;
  \<^item> \<open>calls\<close>: the calls made to collaborators so far, oldest first;
  \<^item> \<open>clock_reads\<close>: how often the monotonic clock has been read;
  \<^item> \<open>random_supply\<close>: the values \<^verbatim>\<open>janus_random_uint64\<close> is going to return.
\<close>

record janus_state =
  sessions :: "(guint64 \<times> janus_session) list"
  unlinked :: "janus_session list"
  calls :: "event list"
  clock_reads :: nat
  random_supply :: "guint64 list"

definition call :: "event \<Rightarrow> janus_state \<Rightarrow> janus_state" where
  "call e st = st\<lparr>calls := calls st @ [e]\<rparr>"

definition janus_get_monotonic_time :: "janus_env \<Rightarrow> janus_state \<Rightarrow> gint64 \<times> janus_state" where
  "janus_get_monotonic_time env st =
     (monotonic_time env (clock_reads st), st\<lparr>clock_reads := Suc (clock_reads st)\<rparr>)"

text \<open>The three operations of GLib's hash table the registry and the handle maps use.\<close>

definition g_hash_table_lookup :: "('k \<times> 'v) list \<Rightarrow> 'k \<Rightarrow> 'v option" where
  "g_hash_table_lookup table k = map_of table k"

definition g_hash_table_insert :: "('k \<times> 'v) list \<Rightarrow> 'k \<Rightarrow> 'v \<Rightarrow> ('k \<times> 'v) list" where
  "g_hash_table_insert table k v = AList.update k v table"

definition g_hash_table_remove :: "('k \<times> 'v) list \<Rightarrow> 'k \<Rightarrow> ('k \<times> 'v) list" where
  "g_hash_table_remove table k = AList.delete k table"

text \<open>A session found in the registry and a handle found in a session's map are pointers
  to the objects the tables hold: what the code writes through the pointer is written to
  the entry under which the object was found, if the table still has that key.\<close>

definition write_through :: "'k \<Rightarrow> 'v \<Rightarrow> ('k \<times> 'v) list \<Rightarrow> ('k \<times> 'v) list" where
  "write_through k v table = map (\<lambda>(k', v'). if k' = k then (k', v) else (k', v')) table"

definition put_handle :: "guint64 \<Rightarrow> janus_ice_handle \<Rightarrow> janus_session \<Rightarrow> janus_session" where
  "put_handle hid handle session =
     session\<lparr>ice_handles := map_option (write_through hid handle) (ice_handles session)\<rparr>"

definition put_session :: "guint64 \<Rightarrow> janus_session \<Rightarrow> janus_state \<Rightarrow> janus_state" where
  "put_session sid session st = st\<lparr>sessions := write_through sid session (sessions st)\<rparr>"

subsection \<open>Replies\<close>

definition janus_create_message :: "string \<Rightarrow> guint64 \<Rightarrow> string option \<Rightarrow> janus_reply" where
  "janus_create_message status sid transaction_text =
     \<lparr>r_janus = status,
      r_session_id = (if 0 < sid then Some sid else None),
      r_transaction = transaction_text,
      r_extra = Nothing_more\<rparr>"

text \<open>\<^verbatim>\<open>janus_process_success\<close>, \<^verbatim>\<open>janus_process_error_string\<close> and \<^verbatim>\<open>janus_process_error\<close> hand
  the reply to the transport the request came from and return what its
  \<^verbatim>\<open>send_message\<close> returns.\<close>

definition janus_process_success :: "janus_env \<Rightarrow> janus_request \<Rightarrow> janus_reply \<Rightarrow> janus_state \<Rightarrow> int \<times> janus_state" where
  "janus_process_success env request payload st =
     (send_message_result env (transport request) (instance_ptr request) payload,
      call (Send_message (transport request) (instance_ptr request) (request_id request)
              (admin request) payload) st)"

definition janus_process_error_string ::
  "janus_env \<Rightarrow> janus_request \<Rightarrow> guint64 \<Rightarrow> string option \<Rightarrow> api_error \<Rightarrow> error_reason \<Rightarrow> janus_state \<Rightarrow> int \<times> janus_state" where
  "janus_process_error_string env request sid transaction_text error error_string st =
     (let reply = (janus_create_message ''error'' sid transaction_text)
                    \<lparr>r_extra := Error_object error error_string\<rparr>
      in (send_message_result env (transport request) (instance_ptr request) reply,
          call (Send_message (transport request) (instance_ptr request) (request_id request)
                  (admin request) reply) st))"

text \<open>\<^verbatim>\<open>janus_process_error\<close> prints the format into \<^verbatim>\<open>gchar error_buf[512]\<close>; a NULL format
  stands for the default text of the code.\<close>

definition janus_process_error ::
  "janus_env \<Rightarrow> janus_request \<Rightarrow> guint64 \<Rightarrow> string option \<Rightarrow> api_error \<Rightarrow> printf_format \<Rightarrow> janus_state \<Rightarrow> int \<times> janus_state" where
  "janus_process_error env request sid transaction_text error format st =
     (let error_string =
            (case format of
               NULL_format \<Rightarrow> Api_error_string
             | Format text ap \<Rightarrow> Cause (g_vsnprintf 512 text ap))
      in janus_process_error_string env request sid transaction_text error error_string st)"

subsection \<open>The session registry\<close>

text \<open>\<^verbatim>\<open>janus_session_handles_clear\<close>: every handle of the session is destroyed (a call to
  \<^verbatim>\<open>janus_ice_handle_destroy\<close> of ice.c) and taken out of the map.\<close>

definition janus_session_handles_clear :: "janus_session \<Rightarrow> janus_state \<Rightarrow> janus_session \<times> janus_state" where
  "janus_session_handles_clear session st =
     (case ice_handles session of
        None \<Rightarrow> (session, st)
      | Some handles \<Rightarrow>
          if 0 < length handles
          then (session\<lparr>ice_handles := Some []\<rparr>,
                st\<lparr>calls := calls st @
                   map (\<lambda>(k, handle). Ice_handle_destroy (session_id session) (handle_id handle)) handles\<rparr>)
          else (session, st))"

text \<open>\<^verbatim>\<open>janus_session_destroy\<close> ("Destroys a session but does not remove it from the sessions
  hash table"): only the caller that flips \<open>destroyed\<close> from 0 to 1 clears the handles.\<close>

definition janus_session_destroy :: "janus_session \<Rightarrow> janus_state \<Rightarrow> janus_session \<times> janus_state" where
  "janus_session_destroy session st =
     (let (exchanged, d) = g_atomic_int_compare_and_exchange (destroyed session) 0 1;
          session = session\<lparr>destroyed := d\<rparr>
      in if \<not> exchanged then (session, st)
         else janus_session_handles_clear session st)"

definition janus_session_find :: "janus_state \<Rightarrow> guint64 \<Rightarrow> janus_session option" where
  "janus_session_find st sid = g_hash_table_lookup (sessions st) sid"

text \<open>\<^verbatim>\<open>janus_session_create\<close>. With \<open>sid = 0\<close> the code draws random numbers until one is
  neither 0 nor in the registry; the loop ends with \<open>None\<close> when the supply of the model
  runs out, which stands for a loop that does not end.\<close>

fun random_session_id :: "(guint64 \<times> janus_session) list \<Rightarrow> guint64 list \<Rightarrow> (guint64 \<times> guint64 list) option" where
  "random_session_id table [] = None"
| "random_session_id table (r # rs) =
     (if r = 0 then random_session_id table rs
      else if g_hash_table_lookup table r \<noteq> None then random_session_id table rs
      else Some (r, rs))"

definition janus_session_create :: "janus_env \<Rightarrow> guint64 \<Rightarrow> janus_state \<Rightarrow> (janus_session \<times> janus_state) option" where
  "janus_session_create env sid st =
     (case (if sid = 0 then random_session_id (sessions st) (random_supply st)
            else Some (sid, random_supply st)) of
        None \<Rightarrow> None
      | Some (sid, supply) \<Rightarrow>
          let st = st\<lparr>random_supply := supply\<rparr>;
              (now, st) = janus_get_monotonic_time env st;
              session = \<lparr>session_id = sid, source = None, destroyed = 0, timeout = 0,
                         last_activity = now, ice_handles = None\<rparr>
          in Some (session, st\<lparr>sessions := g_hash_table_insert (sessions st) sid session\<rparr>))"

subsection \<open>The timeout watchdog\<close>

text \<open>
  The body of the loop of \<^verbatim>\<open>janus_check_sessions\<close> for the session found under key \<open>k\<close>.
  The condition of the code is
  \<^verbatim>\<open>now - session->last_activity >= (gint64)session_timeout * G_USEC_PER_SEC &&
  !g_atomic_int_compare_and_exchange(&session->timeout, 0, 1)\<close>:
  the exchange is only tried once the session is idle for long enough, and the body runs
  when the exchange did \<^emph>\<open>not\<close> take place.
\<close>

definition check_session :: "janus_env \<Rightarrow> guint64 \<Rightarrow> janus_state \<Rightarrow> janus_state" where
  "check_session env k st =
     (case g_hash_table_lookup (sessions st) k of
        None \<Rightarrow> st
      | Some session \<Rightarrow>
          if destroyed session \<noteq> 0 then st
          else
            let (now, st) = janus_get_monotonic_time env st in
            if now - last_activity session \<ge> uint (session_timeout env) * G_USEC_PER_SEC
            then
              let (exchanged, t) = g_atomic_int_compare_and_exchange (timeout session) 0 1;
                  session = session\<lparr>timeout := t\<rparr>
              in if \<not> exchanged
                 then
                   let (session, st) = janus_session_handles_clear session st;
                       st = (case source session of
                               None \<Rightarrow> st
                             | Some src \<Rightarrow>
                                 call (Session_over (transport src) (instance_ptr src) (session_id session) True)
                                   (call (Send_message (transport src) (instance_ptr src) None False
                                            (janus_create_message ''timeout'' (session_id session) None)) st));
                       st = (if janus_events_is_enabled env
                             then call (Events_notify_session (session_id session) ''timeout'') st
                             else st);
                       st = st\<lparr>sessions := g_hash_table_remove (sessions st) k\<rparr>;
                       (session, st) = janus_session_destroy session st
                   in st\<lparr>unlinked := unlinked st @ [session]\<rparr>
                 else put_session k session st
            else st)"

fun check_sessions_loop :: "janus_env \<Rightarrow> guint64 list \<Rightarrow> janus_state \<Rightarrow> janus_state" where
  "check_sessions_loop env [] st = st"
| "check_sessions_loop env (k # ks) st = check_sessions_loop env ks (check_session env k st)"

definition janus_check_sessions :: "janus_env \<Rightarrow> janus_state \<Rightarrow> janus_state" where
  "janus_check_sessions env st =
     (if session_timeout env < 1 then st
      else check_sessions_loop env (map fst (sessions st)) st)"

subsection \<open>Authorization\<close>

text \<open>Modelled from the spec: \<^verbatim>\<open>janus_strcmp_const_time\<close> (utils.c) is not in the source at
  hand; the spec has the request's value equal the configured string under a
  constant-time comparison.\<close>

definition janus_strcmp_const_time :: "string \<Rightarrow> string \<Rightarrow> bool" where
  "janus_strcmp_const_time str1 str2 = (str1 = str2)"

text \<open>\<^verbatim>\<open>janus_request_check_secret\<close>. When neither the secret nor the token authorizes the
  request, the function returns what \<^verbatim>\<open>janus_process_error\<close> returns, which is what the
  transport's \<^verbatim>\<open>send_message\<close> returned for the error reply.\<close>

definition janus_request_check_secret ::
  "janus_env \<Rightarrow> janus_request \<Rightarrow> guint64 \<Rightarrow> string option \<Rightarrow> janus_state \<Rightarrow> int \<times> janus_state" where
  "janus_request_check_secret env request sid transaction_text st =
     (if api_secret env = None \<and> \<not> janus_auth_is_enabled env then (0, st)
      else
        let root = message request;
            secret_authorized =
              (case api_secret env of
                 None \<Rightarrow> False
               | Some configured \<Rightarrow>
                   (case json_object_get root ''apisecret'' of
                      Some (JSON_STRING secret) \<Rightarrow> janus_strcmp_const_time secret configured
                    | _ \<Rightarrow> False));
            token_authorized =
              (if janus_auth_is_enabled env
               then (case json_object_get root ''token'' of
                       Some (JSON_STRING token) \<Rightarrow> janus_auth_check_token env token
                     | _ \<Rightarrow> False)
               else False)
        in if \<not> secret_authorized \<and> \<not> token_authorized
           then janus_process_error env request sid transaction_text JANUS_ERROR_UNAUTHORIZED
                  NULL_format st
           else (0, st))"

subsection \<open>Validation of request parameters\<close>

datatype param_flag = JANUS_JSON_PARAM_REQUIRED | JANUS_JSON_PARAM_POSITIVE

type_synonym janus_json_parameter = "string \<times> json_type \<times> param_flag list"

text \<open>The parameter tables of janus.c; \<^verbatim>\<open>JANUS_JSON_BOOL\<close> is \<^verbatim>\<open>JSON_TRUE\<close>.\<close>

definition incoming_request_parameters :: "janus_json_parameter list" where
  "incoming_request_parameters =
     [(''transaction'', T_JSON_STRING, [JANUS_JSON_PARAM_REQUIRED]),
      (''janus'', T_JSON_STRING, [JANUS_JSON_PARAM_REQUIRED]),
      (''id'', T_JSON_INTEGER, [JANUS_JSON_PARAM_POSITIVE])]"

definition attach_parameters :: "janus_json_parameter list" where
  "attach_parameters =
     [(''plugin'', T_JSON_STRING, [JANUS_JSON_PARAM_REQUIRED]),
      (''opaque_id'', T_JSON_STRING, [])]"

definition body_parameters :: "janus_json_parameter list" where
  "body_parameters = [(''body'', T_JSON_OBJECT, [JANUS_JSON_PARAM_REQUIRED])]"

definition jsep_parameters :: "janus_json_parameter list" where
  "jsep_parameters =
     [(''type'', T_JSON_STRING, [JANUS_JSON_PARAM_REQUIRED]),
      (''trickle'', T_JSON_TRUE, []),
      (''sdp'', T_JSON_STRING, [JANUS_JSON_PARAM_REQUIRED])]"

text \<open>Modelled from the spec: \<^verbatim>\<open>janus_json_is_valid\<close> (utils.c) and the macro
  \<^verbatim>\<open>JANUS_VALIDATE_JSON_OBJECT_FORMAT\<close> (utils.h) are not in the source at hand. Following
  the spec's input errors (a missing or an ill-typed element), a required parameter that
  is absent gives \<^verbatim>\<open>MISSING_MANDATORY_ELEMENT\<close>, a parameter that is present with another
  type than the table's (or a negative integer where the table asks for a positive one)
  gives \<^verbatim>\<open>INVALID_ELEMENT_TYPE\<close>; the first parameter at fault decides, and \<open>None\<close>
  stands for an error code of 0.\<close>

definition janus_json_is_valid :: "json \<Rightarrow> json_type \<Rightarrow> param_flag list \<Rightarrow> bool" where
  "janus_json_is_valid val jtype flags =
     (let is_valid =
            (if jtype = T_JSON_TRUE \<or> jtype = T_JSON_FALSE
             then json_typeof val = T_JSON_TRUE \<or> json_typeof val = T_JSON_FALSE
             else json_typeof val = jtype)
      in if \<not> is_valid then False
         else if jtype = T_JSON_INTEGER \<and> JANUS_JSON_PARAM_POSITIVE \<in> set flags
         then 0 \<le> json_integer_value (Some val)
         else True)"

fun JANUS_VALIDATE_JSON_OBJECT_FORMAT ::
  "string \<Rightarrow> string \<Rightarrow> json option \<Rightarrow> janus_json_parameter list \<Rightarrow> (api_error \<times> error_reason) option" where
  "JANUS_VALIDATE_JSON_OBJECT_FORMAT missing_format invalid_format obj [] = None"
| "JANUS_VALIDATE_JSON_OBJECT_FORMAT missing_format invalid_format obj ((name, jtype, flags) # params) =
     (case json_object_get obj name of
        None \<Rightarrow>
          if JANUS_JSON_PARAM_REQUIRED \<in> set flags
          then Some (JANUS_ERROR_MISSING_MANDATORY_ELEMENT, Missing_element missing_format name)
          else JANUS_VALIDATE_JSON_OBJECT_FORMAT missing_format invalid_format obj params
      | Some val \<Rightarrow>
          if \<not> janus_json_is_valid val jtype flags
          then Some (JANUS_ERROR_INVALID_ELEMENT_TYPE,
                     Invalid_element invalid_format name jtype)
          else JANUS_VALIDATE_JSON_OBJECT_FORMAT missing_format invalid_format obj params)"

definition JANUS_VALIDATE_JSON_OBJECT ::
  "json option \<Rightarrow> janus_json_parameter list \<Rightarrow> (api_error \<times> error_reason) option" where
  "JANUS_VALIDATE_JSON_OBJECT obj params =
     JANUS_VALIDATE_JSON_OBJECT_FORMAT ''Missing mandatory element (%s)''
       ''Invalid element type (%s should be %s)'' obj params"

subsection \<open>The handles of a session\<close>

definition janus_session_handles_find :: "janus_session \<Rightarrow> guint64 \<Rightarrow> janus_ice_handle option" where
  "janus_session_handles_find session hid =
     (case ice_handles session of
        None \<Rightarrow> None
      | Some handles \<Rightarrow> g_hash_table_lookup handles hid)"

definition janus_session_handles_insert :: "janus_session \<Rightarrow> janus_ice_handle \<Rightarrow> janus_session" where
  "janus_session_handles_insert session handle =
     session\<lparr>ice_handles :=
       Some (g_hash_table_insert (case ice_handles session of None \<Rightarrow> [] | Some handles \<Rightarrow> handles)
               (handle_id handle) handle)\<rparr>"

text \<open>\<^verbatim>\<open>janus_session_handles_remove\<close>: the handle is destroyed (ice.c) and leaves the map
  whatever \<^verbatim>\<open>janus_ice_handle_destroy\<close> returned.\<close>

definition janus_session_handles_remove ::
  "janus_env \<Rightarrow> janus_session \<Rightarrow> janus_ice_handle \<Rightarrow> janus_state \<Rightarrow> int \<times> janus_session \<times> janus_state" where
  "janus_session_handles_remove env session handle st =
     (ice_handle_destroy_result env (handle_id handle),
      session\<lparr>ice_handles :=
        map_option (\<lambda>handles. g_hash_table_remove handles (handle_id handle)) (ice_handles session)\<rparr>,
      call (Ice_handle_destroy (session_id session) (handle_id handle)) st)"

text \<open>Modelled from the spec: \<^verbatim>\<open>janus_ice_handle_create\<close> and
  \<^verbatim>\<open>janus_ice_handle_attach_plugin\<close> (ice.c) are not in the source at hand. By the spec a
  handle has a nonzero id that is unique within its scope, no plugin before it is
  attached, no flag set and an empty queue of pending trickles, and it is owned by the
  map of its session; attaching invokes the plugin's attach hook (\<^verbatim>\<open>create_session\<close>) and,
  when the hook reports no error, sets \<open>app\<close> and \<open>app_handle\<close> once. The id is drawn
  like a session's; the plugin session is given the address \<open>unat\<close> of the handle id.\<close>

fun random_handle_id :: "janus_session \<Rightarrow> guint64 list \<Rightarrow> (guint64 \<times> guint64 list) option" where
  "random_handle_id session [] = None"
| "random_handle_id session (r # rs) =
     (if r = 0 then random_handle_id session rs
      else if janus_session_handles_find session r \<noteq> None then random_handle_id session rs
      else Some (r, rs))"

definition janus_ice_handle_create ::
  "janus_session \<Rightarrow> string option \<Rightarrow> janus_state \<Rightarrow> (janus_ice_handle option \<times> janus_session \<times> janus_state) option" where
  "janus_ice_handle_create session opaque st =
     (case random_handle_id session (random_supply st) of
        None \<Rightarrow> None
      | Some (hid, supply) \<Rightarrow>
          let handle = \<lparr>handle_id = hid, opaque_id = opaque, app = None, app_handle = None,
                        webrtc_flags = {}, pending_trickles = [], agent = None, stream_id = 0,
                        stream = None, remote_sdp = None\<rparr>
          in Some (Some handle, janus_session_handles_insert session handle,
                   st\<lparr>random_supply := supply\<rparr>))"

definition janus_ice_handle_attach_plugin ::
  "janus_env \<Rightarrow> janus_session \<Rightarrow> janus_ice_handle \<Rightarrow> string \<Rightarrow> janus_state \<Rightarrow> int \<times> janus_ice_handle \<times> janus_state" where
  "janus_ice_handle_attach_plugin env session handle plugin st =
     (let st = call (Plugin_create_session plugin (handle_id handle)) st;
          error = plugin_create_session_result env plugin (handle_id handle)
      in if error \<noteq> 0 then (error, handle, st)
         else (0, handle\<lparr>app := Some plugin, app_handle := Some (unat (handle_id handle))\<rparr>, st))"

definition janus_plugin_find :: "janus_env \<Rightarrow> string option \<Rightarrow> string option" where
  "janus_plugin_find env package =
     (case package of
        None \<Rightarrow> None
      | Some name \<Rightarrow> g_hash_table_lookup (plugins env) name)"

subsection \<open>Replaying the pending trickles\<close>

text \<open>
  The loop of \<^verbatim>\<open>janus_request_ice_handle_answer\<close> over \<^verbatim>\<open>handle->pending_trickles\<close>: the first
  cell is unlinked and processed until the list is empty. The clock is read once for
  every cell that holds a trickle. A candidate handed to \<^verbatim>\<open>janus_ice_trickle_parse\<close> is a
  call \<open>Ice_trickle_parse\<close>.
\<close>

fun pending_trickles_loop ::
  "janus_env \<Rightarrow> guint64 \<Rightarrow> janus_ice_trickle option list \<Rightarrow> janus_state \<Rightarrow> janus_state" where
  "pending_trickles_loop env hid [] st = st"
| "pending_trickles_loop env hid (None # temp) st = pending_trickles_loop env hid temp st"
| "pending_trickles_loop env hid (Some trickle # temp) st =
     (let (now, st) = janus_get_monotonic_time env st in
      if now - received trickle > 45 * G_USEC_PER_SEC
      then pending_trickles_loop env hid temp st
      else
        (case candidate trickle of
           None \<Rightarrow> pending_trickles_loop env hid temp st
         | Some c \<Rightarrow>
             if json_is_object c
             then pending_trickles_loop env hid temp (call (Ice_trickle_parse hid c) st)
             else if json_is_array c
             then pending_trickles_loop env hid temp
                    (st\<lparr>calls := calls st @ map (Ice_trickle_parse hid) (json_array_elements c)\<rparr>)
             else pending_trickles_loop env hid temp st))"

definition janus_request_ice_handle_answer ::
  "janus_env \<Rightarrow> janus_ice_handle \<Rightarrow> janus_state \<Rightarrow> janus_ice_handle \<times> janus_state" where
  "janus_request_ice_handle_answer env handle st =
     (let handle = handle\<lparr>webrtc_flags :=
                     janus_flags_clear (webrtc_flags handle) JANUS_ICE_HANDLE_WEBRTC_PROCESSING_OFFER\<rparr>;
          st = pending_trickles_loop env (handle_id handle) (pending_trickles handle) st;
          handle = handle\<lparr>pending_trickles := []\<rparr>
      in if janus_flags_is_set (webrtc_flags handle) JANUS_ICE_HANDLE_WEBRTC_TRICKLE \<and>
            \<not> janus_flags_is_set (webrtc_flags handle) JANUS_ICE_HANDLE_WEBRTC_ALL_TRICKLES
         then (handle\<lparr>webrtc_flags :=
                  janus_flags_set (webrtc_flags handle) JANUS_ICE_HANDLE_WEBRTC_START\<rparr>, st)
         else (handle, call (Ice_setup_remote_candidates (handle_id handle) (stream_id handle) 1) st))"

subsection \<open>The Janus API: requests that address no session\<close>

definition printf_s :: "string option \<Rightarrow> fmt_arg" where
  "printf_s text = Arg_s (case text of None \<Rightarrow> ''(null)'' | Some t \<Rightarrow> t)"

definition unhandled_request :: "string \<Rightarrow> printf_format" where
  "unhandled_request message_text = Format ''Unhandled request '%s' at this path'' [Arg_s message_text]"

definition janus_request_new ::
  "string \<Rightarrow> nat \<Rightarrow> nat option \<Rightarrow> bool \<Rightarrow> json option \<Rightarrow> janus_request" where
  "janus_request_new t i rid adm msg =
     \<lparr>transport = t, instance_ptr = i, request_id = rid, admin = adm, message = msg\<rparr>"

definition janus_info :: "string option \<Rightarrow> janus_reply" where
  "janus_info transaction_text =
     (janus_create_message ''server_info'' 0 transaction_text)\<lparr>r_extra := Server_info\<rparr>"

text \<open>
  The branch \<^verbatim>\<open>session_id == 0 && handle_id == 0\<close> of \<^verbatim>\<open>janus_process_incoming_request\<close>:
  \<^verbatim>\<open>info\<close>, \<^verbatim>\<open>ping\<close> and \<^verbatim>\<open>create\<close>. \<^verbatim>\<open>janus_session_create\<close> allocates with \<^verbatim>\<open>g_malloc\<close> and never
  returns NULL, so the "Memory error" exit of the code cannot be taken. \<open>None\<close> is a call
  that does not return.
\<close>

text \<open>The id a \<^verbatim>\<open>create\<close> request asks for: \<^verbatim>\<open>session_id = 0; json_t *id = json_object_get(root,
  "id"); if(id != NULL) session_id = json_integer_value(id);\<close>\<close>

definition requested_id :: "json option \<Rightarrow> guint64" where
  "requested_id root =
     (case json_object_get root ''id'' of
        None \<Rightarrow> 0
      | Some v \<Rightarrow> word_of_int (json_integer_value (Some v)))"

definition process_create ::
  "janus_env \<Rightarrow> janus_request \<Rightarrow> string option \<Rightarrow> janus_state \<Rightarrow> (int \<times> janus_state) option" where
  "process_create env request transaction_text st =
     (let (ret, st) = janus_request_check_secret env request 0 transaction_text st in
      if ret \<noteq> 0 then Some (ret, st)
      else
        let root = message request;
            id = json_object_get root ''id'';
            sid = requested_id root
        in if id \<noteq> None \<and> 0 < sid \<and> janus_session_find st sid \<noteq> None
           then Some (janus_process_error env request sid transaction_text
                        JANUS_ERROR_SESSION_CONFLICT (Format ''Session ID already in use'' []) st)
           else
             (case janus_session_create env sid st of
                None \<Rightarrow> None
              | Some (session, st) \<Rightarrow>
                  let sid = session_id session;
                      session = session\<lparr>source :=
                                  Some (janus_request_new (transport request) (instance_ptr request)
                                          None False None)\<rparr>;
                      st = put_session sid session st;
                      st = call (Session_created (transport request) (instance_ptr request) sid) st;
                      st = (if janus_events_is_enabled env
                            then call (Events_notify_session sid ''created'') st
                            else st);
                      reply = (janus_create_message ''success'' 0 transaction_text)
                                \<lparr>r_extra := Data_id sid\<rparr>
                  in Some (janus_process_success env request reply st)))"

definition process_no_session ::
  "janus_env \<Rightarrow> janus_request \<Rightarrow> string option \<Rightarrow> string \<Rightarrow> janus_state \<Rightarrow> (int \<times> janus_state) option" where
  "process_no_session env request transaction_text message_text st =
     (if strcasecmp message_text ''info'' = 0
      then Some (janus_process_success env request (janus_info transaction_text) st)
      else if strcasecmp message_text ''ping'' = 0
      then Some (janus_process_success env request
                   (janus_create_message ''pong'' 0 transaction_text) st)
      else if strcasecmp message_text ''create'' \<noteq> 0
      then Some (janus_process_error env request 0 transaction_text
                   JANUS_ERROR_INVALID_REQUEST_PATH (unhandled_request message_text) st)
      else process_create env request transaction_text st)"

subsection \<open>The Janus API: session-level requests\<close>

text \<open>The branch \<^verbatim>\<open>attach\<close>. The token is only checked against the plugin when the token
  mechanism is enabled, the request has a \<^verbatim>\<open>token\<close> member and that member is a string.\<close>

definition process_attach ::
  "janus_env \<Rightarrow> janus_request \<Rightarrow> guint64 \<Rightarrow> string option \<Rightarrow> string \<Rightarrow> janus_session \<Rightarrow>
   janus_ice_handle option \<Rightarrow> janus_state \<Rightarrow> (int \<times> janus_state) option" where
  "process_attach env request sid transaction_text message_text session handle st =
     (if handle \<noteq> None
      then Some (janus_process_error env request sid transaction_text
                   JANUS_ERROR_INVALID_REQUEST_PATH (unhandled_request message_text) st)
      else
        let root = message request in
        (case JANUS_VALIDATE_JSON_OBJECT root attach_parameters of
           Some (error_code, error_cause) \<Rightarrow>
             Some (janus_process_error_string env request sid transaction_text error_code error_cause st)
         | None \<Rightarrow>
             let plugin_text = json_string_value (json_object_get root ''plugin'') in
             (case janus_plugin_find env plugin_text of
                None \<Rightarrow>
                  Some (janus_process_error env request sid transaction_text
                          JANUS_ERROR_PLUGIN_NOT_FOUND
                          (Format (''No such plugin '%s'' @ [CHR 0x27]) [printf_s plugin_text]) st)
              | Some plugin_t \<Rightarrow>
                  let token = json_object_get root ''token'';
                      refused =
                        (if janus_auth_is_enabled env
                         then (case token of
                                 None \<Rightarrow> False
                               | Some _ \<Rightarrow>
                                   (case json_string_value token of
                                      None \<Rightarrow> False
                                    | Some token_value \<Rightarrow>
                                        \<not> janus_auth_check_plugin env token_value plugin_t))
                         else False)
                  in if refused
                     then Some (janus_process_error env request sid transaction_text
                                  JANUS_ERROR_UNAUTHORIZED_PLUGIN
                                  (Format (''Provided token can't access plugin '%s'' @ [CHR 0x27])
                                     [printf_s plugin_text]) st)
                     else
                       let opaque = json_object_get root ''opaque_id'';
                           opaque_text = (case opaque of None \<Rightarrow> None | Some _ \<Rightarrow> json_string_value opaque)
                       in
                       (case janus_ice_handle_create session opaque_text st of
                          None \<Rightarrow> None
                        | Some (None, session, st) \<Rightarrow>
                            Some (janus_process_error env request sid transaction_text
                                    JANUS_ERROR_UNKNOWN (Format ''Memory error'' [])
                                    (put_session sid session st))
                        | Some (Some handle, session, st) \<Rightarrow>
                            let st = put_session sid session st;
                                hid = handle_id handle;
                                (error, handle, st) =
                                  janus_ice_handle_attach_plugin env session handle plugin_t st
                            in if error \<noteq> 0
                               then
                                 let (removed, session, st) =
                                       janus_session_handles_remove env session handle st;
                                     st = put_session sid session st
                                 in Some (janus_process_error env request sid transaction_text
                                            JANUS_ERROR_PLUGIN_ATTACH
                                            (Format (''Couldn't attach to plugin: error '%d'' @ [CHR 0x27])
                                               [Arg_d error]) st)
                               else
                                 let st = put_session sid (put_handle hid handle session) st;
                                     reply = (janus_create_message ''success'' sid transaction_text)
                                               \<lparr>r_extra := Data_id hid\<rparr>
                                 in Some (janus_process_success env request reply st)))))"

text \<open>The branch \<^verbatim>\<open>destroy\<close>: the session leaves the registry, its transport is told, and
  \<^verbatim>\<open>janus_session_destroy\<close> marks the object, which lives on outside the registry.\<close>

definition process_destroy ::
  "janus_env \<Rightarrow> janus_request \<Rightarrow> guint64 \<Rightarrow> string option \<Rightarrow> string \<Rightarrow> janus_session \<Rightarrow>
   janus_ice_handle option \<Rightarrow> janus_state \<Rightarrow> (int \<times> janus_state) option" where
  "process_destroy env request sid transaction_text message_text session handle st =
     (if handle \<noteq> None
      then Some (janus_process_error env request sid transaction_text
                   JANUS_ERROR_INVALID_REQUEST_PATH (unhandled_request message_text) st)
      else
        let st = st\<lparr>sessions := g_hash_table_remove (sessions st) (session_id session)\<rparr>;
            st = (case source session of
                    None \<Rightarrow> st
                  | Some src \<Rightarrow>
                      call (Session_over (transport src) (instance_ptr src) (session_id session) False) st);
            (session, st) = janus_session_destroy session st;
            st = st\<lparr>unlinked := unlinked st @ [session]\<rparr>;
            (ret, st) = janus_process_success env request
                          (janus_create_message ''success'' sid transaction_text) st;
            st = (if janus_events_is_enabled env
                  then call (Events_notify_session sid ''destroyed'') st
                  else st)
        in Some (ret, st))"

subsection \<open>The Janus API: handle-level requests\<close>

definition process_detach ::
  "janus_env \<Rightarrow> janus_request \<Rightarrow> guint64 \<Rightarrow> string option \<Rightarrow> string \<Rightarrow> janus_session \<Rightarrow>
   janus_ice_handle option \<Rightarrow> janus_state \<Rightarrow> (int \<times> janus_state) option" where
  "process_detach env request sid transaction_text message_text session handle st =
     (case handle of
        None \<Rightarrow>
          Some (janus_process_error env request sid transaction_text
                  JANUS_ERROR_INVALID_REQUEST_PATH (unhandled_request message_text) st)
      | Some handle \<Rightarrow>
          if app handle = None \<or> app_handle handle = None
          then Some (janus_process_error env request sid transaction_text
                       JANUS_ERROR_PLUGIN_DETACH (Format ''No plugin to detach from'' []) st)
          else
            let (error, session, st) = janus_session_handles_remove env session handle st;
                st = put_session sid session st
            in if error \<noteq> 0
               then Some (janus_process_error env request sid transaction_text
                            JANUS_ERROR_PLUGIN_DETACH
                            (Format (''Couldn't detach from plugin: error '%d'' @ [CHR 0x27])
                               [Arg_d error]) st)
               else Some (janus_process_success env request
                            (janus_create_message ''success'' sid transaction_text) st))"

definition process_hangup ::
  "janus_env \<Rightarrow> janus_request \<Rightarrow> guint64 \<Rightarrow> string option \<Rightarrow> string \<Rightarrow> janus_session \<Rightarrow>
   janus_ice_handle option \<Rightarrow> janus_state \<Rightarrow> (int \<times> janus_state) option" where
  "process_hangup env request sid transaction_text message_text session handle st =
     (case handle of
        None \<Rightarrow>
          Some (janus_process_error env request sid transaction_text
                  JANUS_ERROR_INVALID_REQUEST_PATH (unhandled_request message_text) st)
      | Some handle \<Rightarrow>
          if app handle = None \<or> app_handle handle = None
          then Some (janus_process_error env request sid transaction_text
                       JANUS_ERROR_PLUGIN_DETACH (Format ''No plugin attached'' []) st)
          else
            let st = call (Ice_webrtc_hangup (handle_id handle) ''Janus API'') st
            in Some (janus_process_success env request
                       (janus_create_message ''success'' sid transaction_text) st))"

text \<open>Modelled from the spec: \<^verbatim>\<open>janus_ice_trickle_new\<close> (ice.c) is not in the source at hand;
  by the spec a pending trickle holds the transaction, the candidate or array, and the
  monotonic time at which it was received.\<close>

definition janus_ice_trickle_new ::
  "janus_env \<Rightarrow> string option \<Rightarrow> json option \<Rightarrow> janus_state \<Rightarrow> janus_ice_trickle \<times> janus_state" where
  "janus_ice_trickle_new env transaction_text c st =
     (let (now, st) = janus_get_monotonic_time env st
      in (\<lparr>trickle_transaction = transaction_text, candidate = c, received = now\<rparr>, st))"

text \<open>The branch \<^verbatim>\<open>trickle\<close>. The result holds the handle as the code leaves it; the caller
  writes it back to the session's map.\<close>

definition process_trickle ::
  "janus_env \<Rightarrow> janus_request \<Rightarrow> guint64 \<Rightarrow> string option \<Rightarrow> string \<Rightarrow>
   janus_ice_handle option \<Rightarrow> janus_state \<Rightarrow> int \<times> janus_ice_handle option \<times> janus_state" where
  "process_trickle env request sid transaction_text message_text handle st =
     (case handle of
        None \<Rightarrow>
          (let (ret, st) = janus_process_error env request sid transaction_text
                             JANUS_ERROR_INVALID_REQUEST_PATH (unhandled_request message_text) st
           in (ret, None, st))
      | Some handle \<Rightarrow>
          if app handle = None \<or> app_handle handle = None \<or>
             \<not> (case app_handle handle of None \<Rightarrow> False | Some p \<Rightarrow> plugin_session_is_alive env p)
          then (let (ret, st) = janus_process_error env request sid transaction_text
                                  JANUS_ERROR_PLUGIN_MESSAGE
                                  (Format ''No plugin to handle this trickle candidate'' []) st
                in (ret, Some handle, st))
          else
            let root = message request;
                cand = json_object_get root ''candidate'';
                candidates = json_object_get root ''candidates''
            in if cand = None \<and> candidates = None
               then (let (ret, st) = janus_process_error env request sid transaction_text
                                       JANUS_ERROR_MISSING_MANDATORY_ELEMENT
                                       (Format ''Missing mandatory element (candidate|candidates)'' []) st
                     in (ret, Some handle, st))
               else if cand \<noteq> None \<and> candidates \<noteq> None
               then (let (ret, st) = janus_process_error env request sid transaction_text
                                       JANUS_ERROR_INVALID_JSON
                                       (Format ''Can't have both candidate and candidates'' []) st
                     in (ret, Some handle, st))
               else if janus_flags_is_set (webrtc_flags handle) JANUS_ICE_HANDLE_WEBRTC_CLEANING
               then (let (ret, st) = janus_process_error env request sid transaction_text
                                       JANUS_ERROR_WEBRTC_STATE
                                       (Format ''Still cleaning a previous session'' []) st
                     in (ret, Some handle, st))
               else
                 let handle =
                       (if \<not> janus_flags_is_set (webrtc_flags handle) JANUS_ICE_HANDLE_WEBRTC_TRICKLE
                        then handle\<lparr>webrtc_flags :=
                               janus_flags_set (webrtc_flags handle) JANUS_ICE_HANDLE_WEBRTC_TRICKLE\<rparr>
                        else handle);
                     ack = janus_create_message ''ack'' sid transaction_text
                 in if stream handle = None \<or>
                       janus_flags_is_set (webrtc_flags handle) JANUS_ICE_HANDLE_WEBRTC_PROCESSING_OFFER \<or>
                       \<not> janus_flags_is_set (webrtc_flags handle) JANUS_ICE_HANDLE_WEBRTC_GOT_OFFER \<or>
                       \<not> janus_flags_is_set (webrtc_flags handle) JANUS_ICE_HANDLE_WEBRTC_GOT_ANSWER
                    then
                      let (early_trickle, st) =
                            janus_ice_trickle_new env transaction_text
                              (if cand \<noteq> None then cand else candidates) st;
                          handle = handle\<lparr>pending_trickles :=
                                     pending_trickles handle @ [Some early_trickle]\<rparr>;
                          (ret, st) = janus_process_success env request ack st
                      in (ret, Some handle, st)
                    else
                      (case cand of
                         Some c \<Rightarrow>
                           let (error, error_string) = janus_ice_trickle_parse env handle c;
                               st = call (Ice_trickle_parse (handle_id handle) c) st
                           in if error \<noteq> 0
                              then (let (ret, st) = janus_process_error env request sid transaction_text
                                                      (Trickle_error error)
                                                      (Format ''%s'' [Arg_s error_string]) st
                                    in (ret, Some handle, st))
                              else (let (ret, st) = janus_process_success env request ack st
                                    in (ret, Some handle, st))
                       | None \<Rightarrow>
                           (case candidates of
                              Some (JSON_ARRAY cs) \<Rightarrow>
                                let st = st\<lparr>calls := calls st @ map (Ice_trickle_parse (handle_id handle)) cs\<rparr>;
                                    (ret, st) = janus_process_success env request ack st
                                in (ret, Some handle, st)
                            | _ \<Rightarrow>
                                (let (ret, st) = janus_process_error env request sid transaction_text
                                                   JANUS_ERROR_INVALID_ELEMENT_TYPE
                                                   (Format ''candidates is not an array'' []) st
                                 in (ret, Some handle, st)))))"

subsection \<open>The Janus API: \<^verbatim>\<open>message\<close> and its JSEP\<close>

text \<open>
  The wait for \<^verbatim>\<open>JANUS_ICE_HANDLE_WEBRTC_CLEANING\<close> to be cleared by the thread that cleans
  up: the code sleeps 100000 microseconds, gives up once it has waited 3 seconds, and
  reads the flag again otherwise. \<open>still_cleaning env hid k\<close> is what the \<open>k\<close>-th such
  read finds. The result is whether the code gave up.
\<close>

function cleaning_wait :: "janus_env \<Rightarrow> guint64 \<Rightarrow> nat \<Rightarrow> int \<Rightarrow> bool" where
  "cleaning_wait env hid k waited =
     (if waited + 100000 \<ge> 3 * 1000000 then True
      else if still_cleaning env hid k then cleaning_wait env hid (Suc k) (waited + 100000)
      else False)"
  by pat_completeness auto
termination
  by (relation "measure (\<lambda>(env, hid, k, waited). nat (3000000 - waited))") auto

text \<open>What the JSEP part of a \<^verbatim>\<open>message\<close> leaves behind: either the request is over
  (\<^verbatim>\<open>goto jsondone\<close>) with a return value, or the type, the anonymized SDP and the
  renegotiation flag for the plugin; in both cases the handle and the state.\<close>

datatype jsep_result =
    Jsep_over int janus_ice_handle janus_state
  | Jsep_ready string string bool janus_ice_handle janus_state

definition clear_processing_offer :: "janus_ice_handle \<Rightarrow> janus_ice_handle" where
  "clear_processing_offer handle =
     handle\<lparr>webrtc_flags :=
       janus_flags_clear (webrtc_flags handle) JANUS_ICE_HANDLE_WEBRTC_PROCESSING_OFFER\<rparr>"

definition jsep_error ::
  "janus_env \<Rightarrow> janus_request \<Rightarrow> guint64 \<Rightarrow> string option \<Rightarrow> api_error \<Rightarrow> printf_format \<Rightarrow>
   janus_ice_handle \<Rightarrow> janus_state \<Rightarrow> jsep_result" where
  "jsep_error env request sid transaction_text error reason handle st =
     (let (ret, st) = janus_process_error env request sid transaction_text error reason st
      in Jsep_over ret handle st)"

text \<open>A new media session (\<^verbatim>\<open>!READY || ALERT\<close>): an offer sets ICE up locally, an answer
  needs an ICE agent to be there already; then the SDP is processed, and an answer
  replays the pending trickles. \<open>Inl\<close> is an exit through \<^verbatim>\<open>jsondone\<close>; \<open>None\<close> is the
  dereference of a NULL \<^verbatim>\<open>handle->stream\<close>.\<close>

definition jsep_new_session ::
  "janus_env \<Rightarrow> janus_request \<Rightarrow> guint64 \<Rightarrow> string option \<Rightarrow> janus_ice_handle \<Rightarrow> int \<Rightarrow>
   janus_sdp \<Rightarrow> int \<Rightarrow> int \<Rightarrow> int \<Rightarrow> bool \<Rightarrow> string \<Rightarrow> janus_state \<Rightarrow>
   (jsep_result + janus_ice_handle \<times> janus_state) option" where
  "jsep_new_session env request sid transaction_text handle offer parsed_sdp audio video data
     do_trickle jsep_sdp st =
     (let hid = handle_id handle;
          (setup, handle, st) =
            (if offer \<noteq> 0
             then (let (r, h) = janus_ice_setup_local env handle offer audio video data do_trickle
                   in (r, h, call (Ice_setup_local hid offer audio video data do_trickle) st))
             else (0, handle, st))
      in if offer \<noteq> 0 \<and> setup < 0
         then Some (Inl (jsep_error env request sid transaction_text JANUS_ERROR_UNKNOWN
                           (Format ''Error setting ICE locally'' [])
                           (clear_processing_offer handle) st))
         else if offer = 0 \<and> agent handle = None
         then Some (Inl (jsep_error env request sid transaction_text JANUS_ERROR_UNEXPECTED_ANSWER
                           (Format ''Unexpected ANSWER (did we offer?)'' [])
                           (clear_processing_offer handle) st))
         else
           let (processed, handle) = janus_sdp_process env handle parsed_sdp False;
               st = call (Sdp_process hid parsed_sdp False) st
           in if processed < 0
              then Some (Inl (jsep_error env request sid transaction_text JANUS_ERROR_JSEP_INVALID_SDP
                                (Format ''Error processing SDP'' [])
                                (clear_processing_offer handle) st))
              else if offer = 0
              then
                let handle = handle\<lparr>webrtc_flags :=
                               janus_flags_set (webrtc_flags handle) JANUS_ICE_HANDLE_WEBRTC_TRICKLE\<rparr>
                in Some (Inr (janus_request_ice_handle_answer env handle st))
              else
                (case stream handle of
                   None \<Rightarrow> None
                 | Some s \<Rightarrow>
                     Some (Inr (handle\<lparr>stream :=
                                  Some (s\<lparr>do_transport_wide_cc := True,
                                          transport_wide_cc_ext_id :=
                                            janus_rtp_header_extension_get_id env jsep_sdp\<rparr>)\<rparr>, st))))"

text \<open>A renegotiation (\<^verbatim>\<open>READY\<close> and no \<^verbatim>\<open>ALERT\<close>).\<close>

definition jsep_renegotiation ::
  "janus_env \<Rightarrow> janus_request \<Rightarrow> guint64 \<Rightarrow> string option \<Rightarrow> janus_ice_handle \<Rightarrow> int \<Rightarrow>
   janus_sdp \<Rightarrow> janus_state \<Rightarrow> jsep_result + janus_ice_handle \<times> janus_state" where
  "jsep_renegotiation env request sid transaction_text handle offer parsed_sdp st =
     (let hid = handle_id handle;
          (processed, handle) = janus_sdp_process env handle parsed_sdp True;
          st = call (Sdp_process hid parsed_sdp True) st
      in if processed < 0
         then Inl (jsep_error env request sid transaction_text JANUS_ERROR_UNEXPECTED_ANSWER
                     (Format ''Error processing SDP'' [])
                     (clear_processing_offer handle) st)
         else
           let (handle, st) =
                 (if janus_flags_is_set (webrtc_flags handle) JANUS_ICE_HANDLE_WEBRTC_ICE_RESTART
                  then
                    let st = (case stream handle of
                                None \<Rightarrow> st
                              | Some s \<Rightarrow>
                                  call (Nice_agent_set_remote_credentials hid (s_stream_id s)
                                          (ruser s) (rpass s)) st);
                        (handle, st) =
                          (if offer \<noteq> 0 then (handle, call (Ice_restart hid) st)
                           else (handle\<lparr>webrtc_flags :=
                                    janus_flags_clear (webrtc_flags handle)
                                      JANUS_ICE_HANDLE_WEBRTC_ICE_RESTART\<rparr>, st))
                    in if janus_ice_is_full_trickle_enabled env
                       then (handle\<lparr>webrtc_flags :=
                                janus_flags_set (webrtc_flags handle)
                                  JANUS_ICE_HANDLE_WEBRTC_RESEND_TRICKLES\<rparr>, st)
                       else (handle, st)
                  else (handle, st));
               st = (if have_sctp env \<and> offer = 0 \<and>
                        janus_flags_is_set (webrtc_flags handle) JANUS_ICE_HANDLE_WEBRTC_DATA_CHANNELS
                     then (case stream handle of
                             None \<Rightarrow> st
                           | Some s \<Rightarrow>
                               (case component s of
                                  None \<Rightarrow> st
                                | Some c \<Rightarrow>
                                    (case dtls c of
                                       None \<Rightarrow> st
                                     | Some d \<Rightarrow>
                                         if \<not> sctp d then call (Dtls_srtp_create_sctp hid) st else st)))
                     else st)
           in Inr (handle, st))"

text \<open>The block \<^verbatim>\<open>if(jsep != NULL)\<close> of the branch \<^verbatim>\<open>message\<close>.\<close>

definition process_jsep ::
  "janus_env \<Rightarrow> janus_request \<Rightarrow> guint64 \<Rightarrow> string option \<Rightarrow> janus_ice_handle \<Rightarrow> json \<Rightarrow>
   janus_state \<Rightarrow> jsep_result option" where
  "process_jsep env request sid transaction_text handle jsep st =
     (if \<not> json_is_object jsep
      then Some (jsep_error env request sid transaction_text JANUS_ERROR_INVALID_JSON_OBJECT
                   (Format ''Invalid jsep object'' []) handle st)
      else
        (case JANUS_VALIDATE_JSON_OBJECT_FORMAT ''JSEP error: missing mandatory element (%s)''
                ''JSEP error: invalid element type (%s should be %s)'' (Some jsep) jsep_parameters of
           Some (error_code, error_cause) \<Rightarrow>
             (let (ret, st) = janus_process_error_string env request sid transaction_text
                                error_code error_cause st
              in Some (Jsep_over ret handle st))
         | None \<Rightarrow>
             (case (json_string_value (json_object_get (Some jsep) ''type''),
                    json_string_value (json_object_get (Some jsep) ''sdp'')) of
                (Some jsep_type, Some jsep_sdp) \<Rightarrow>
                  let jsep_trickle = json_object_get (Some jsep) ''trickle'';
                      do_trickle = (case jsep_trickle of None \<Rightarrow> True | Some t \<Rightarrow> json_is_true t);
                      cleaning = janus_flags_is_set (webrtc_flags handle) JANUS_ICE_HANDLE_WEBRTC_CLEANING
                  in if cleaning \<and> cleaning_wait env (handle_id handle) 0 0
                     then Some (jsep_error env request sid transaction_text JANUS_ERROR_WEBRTC_STATE
                                  (Format ''Still cleaning a previous session'' []) handle st)
                     else
                       let handle =
                             (if cleaning
                              then handle\<lparr>webrtc_flags :=
                                     janus_flags_clear (webrtc_flags handle)
                                       JANUS_ICE_HANDLE_WEBRTC_CLEANING\<rparr>
                              else handle);
                           is_offer = (strcasecmp jsep_type ''offer'' = 0);
                           is_answer = (strcasecmp jsep_type ''answer'' = 0);
                           offer = (if is_offer then 1 else 0 :: int);
                           flags = webrtc_flags handle;
                           handle =
                             (if is_offer
                              then handle\<lparr>webrtc_flags :=
                                     janus_flags_clear
                                       (janus_flags_set
                                          (janus_flags_set flags JANUS_ICE_HANDLE_WEBRTC_PROCESSING_OFFER)
                                          JANUS_ICE_HANDLE_WEBRTC_GOT_OFFER)
                                       JANUS_ICE_HANDLE_WEBRTC_GOT_ANSWER\<rparr>
                              else if is_answer
                              then handle\<lparr>webrtc_flags :=
                                     janus_flags_set flags JANUS_ICE_HANDLE_WEBRTC_GOT_ANSWER\<rparr>
                              else handle)
                       in if \<not> is_offer \<and> \<not> is_answer
                          then Some (jsep_error env request sid transaction_text
                                       JANUS_ERROR_JSEP_UNKNOWN_TYPE
                                       (Format (''JSEP error: unknown message type '%s'' @ [CHR 0x27])
                                          [Arg_s jsep_type])
                                       (clear_processing_offer handle) st)
                          else
                            (case janus_sdp_preparse env jsep_sdp of
                               (None, error_str) \<Rightarrow>
                                 (let (ret, st) = janus_process_error_string env request sid
                                                    transaction_text JANUS_ERROR_JSEP_INVALID_SDP
                                                    (Cause error_str) st
                                  in Some (Jsep_over ret (clear_processing_offer handle) st))
                             | (Some (parsed_sdp, audio, video, data), error_str) \<Rightarrow>
                                 let st = (if janus_events_is_enabled env
                                           then call (Events_notify_jsep sid (handle_id handle)
                                                        (opaque_id handle) ''remote'' jsep_type jsep_sdp) st
                                           else st);
                                     negotiated =
                                       (if \<not> janus_flags_is_set (webrtc_flags handle)
                                                JANUS_ICE_HANDLE_WEBRTC_READY \<or>
                                           janus_flags_is_set (webrtc_flags handle)
                                             JANUS_ICE_HANDLE_WEBRTC_ALERT
                                        then map_option (map_sum id (\<lambda>(h, st). (False, h, st)))
                                               (jsep_new_session env request sid transaction_text handle
                                                  offer parsed_sdp audio video data do_trickle jsep_sdp st)
                                        else Some (map_sum id (\<lambda>(h, st). (True, h, st))
                                                     (jsep_renegotiation env request sid transaction_text
                                                        handle offer parsed_sdp st)))
                                 in (case negotiated of
                                       None \<Rightarrow> None
                                     | Some (Inl over) \<Rightarrow> Some over
                                     | Some (Inr (renegotiation, handle, st)) \<Rightarrow>
                                         let handle = handle\<lparr>remote_sdp := Some jsep_sdp\<rparr>;
                                             (anonymized, parsed_sdp) = janus_sdp_anonymize env parsed_sdp
                                         in if anonymized < 0
                                            then Some (jsep_error env request sid transaction_text
                                                         JANUS_ERROR_JSEP_INVALID_SDP
                                                         (Format ''JSEP error: invalid SDP'' [])
                                                         (clear_processing_offer handle) st)
                                            else Some (Jsep_ready jsep_type
                                                         (janus_sdp_write env parsed_sdp) renegotiation
                                                         (clear_processing_offer handle) st)))
              | _ \<Rightarrow> None)))"

text \<open>The JSEP object the plugin is given: the type and the anonymized SDP, the SSRCs of
  a simulcasting peer, and \<^verbatim>\<open>update\<close> for a renegotiation.\<close>

definition jsep_to_plugin ::
  "janus_ice_handle \<Rightarrow> (string \<times> string \<times> bool) option \<Rightarrow> json option" where
  "jsep_to_plugin handle jsep =
     (case jsep of
        None \<Rightarrow> None
      | Some (jsep_type, jsep_sdp_stripped, renegotiation) \<Rightarrow>
          Some (JSON_OBJECT
            ([(''type'', JSON_STRING jsep_type), (''sdp'', JSON_STRING jsep_sdp_stripped)] @
             (if janus_flags_is_set (webrtc_flags handle) JANUS_ICE_HANDLE_WEBRTC_HAS_VIDEO
              then (case stream handle of
                      None \<Rightarrow> []
                    | Some s \<Rightarrow>
                        (case video_ssrc_peer s of
                           (ssrc0, ssrc1, ssrc2) \<Rightarrow>
                             if ssrc1 \<noteq> 0
                             then [(''simulcast'', JSON_OBJECT
                                     ([(''ssrc-0'', JSON_INTEGER (uint ssrc0)),
                                       (''ssrc-1'', JSON_INTEGER (uint ssrc1))] @
                                      (if ssrc2 \<noteq> 0
                                       then [(''ssrc-2'', JSON_INTEGER (uint ssrc2))]
                                       else [])))]
                             else []))
              else []) @
             (if renegotiation then [(''update'', JSON_TRUE)] else []))))"

text \<open>The end of the branch \<^verbatim>\<open>message\<close>: the message goes to the plugin of the handle, and
  the plugin's result becomes the reply. \<open>jsep\<close> is the type, the anonymized SDP and the
  renegotiation flag when the request had a JSEP.\<close>

definition message_to_plugin ::
  "janus_env \<Rightarrow> janus_request \<Rightarrow> guint64 \<Rightarrow> string option \<Rightarrow> janus_session \<Rightarrow> janus_ice_handle \<Rightarrow>
   string \<Rightarrow> json option \<Rightarrow> (string \<times> string \<times> bool) option \<Rightarrow> janus_state \<Rightarrow>
   int \<times> janus_ice_handle \<times> janus_state" where
  "message_to_plugin env request sid transaction_text session handle plugin_t body jsep st =
     (if app handle = None \<or> app_handle handle = None \<or>
         \<not> (case app_handle handle of None \<Rightarrow> False | Some p \<Rightarrow> plugin_session_is_alive env p)
      then (let (ret, st) = janus_process_error env request sid transaction_text
                              JANUS_ERROR_PLUGIN_MESSAGE
                              (Format ''No plugin to handle this message'' []) st
            in (ret, clear_processing_offer handle, st))
      else
        let body_jsep = jsep_to_plugin handle jsep;
            result = plugin_handle_message env plugin_t (app_handle handle) body body_jsep;
            st = call (Plugin_handle_message plugin_t (app_handle handle) transaction_text body body_jsep) st
        in (case result of
              None \<Rightarrow>
                (let (ret, st) = janus_process_error env request sid transaction_text
                                   JANUS_ERROR_PLUGIN_MESSAGE
                                   (Format ''Plugin didn't give a result'' []) st
                 in (ret, handle, st))
            | Some result \<Rightarrow>
                if result_type result = JANUS_PLUGIN_OK
                then
                  (case result_content result of
                     None \<Rightarrow>
                       (let (ret, st) = janus_process_error env request sid transaction_text
                                          JANUS_ERROR_PLUGIN_MESSAGE
                                          (Format ''Plugin didn't provide any content for this synchronous response'' []) st
                        in (ret, handle, st))
                   | Some content \<Rightarrow>
                       if \<not> json_is_object content
                       then (let (ret, st) = janus_process_error env request sid transaction_text
                                               JANUS_ERROR_PLUGIN_MESSAGE
                                               (Format ''Plugin returned an invalid JSON response'' []) st
                             in (ret, handle, st))
                       else
                         (let reply = (janus_create_message ''success'' (session_id session) transaction_text)
                                        \<lparr>r_extra := Plugin_data (handle_id handle) plugin_t content\<rparr>;
                              (ret, st) = janus_process_success env request reply st
                          in (ret, handle, st)))
                else if result_type result = JANUS_PLUGIN_OK_WAIT
                then
                  (let reply = janus_create_message ''ack'' sid transaction_text;
                       reply = (case result_text result of
                                  None \<Rightarrow> reply
                                | Some t \<Rightarrow> reply\<lparr>r_extra := Hint t\<rparr>);
                       (ret, st) = janus_process_success env request reply st
                   in (ret, handle, st))
                else
                  (let (ret, st) = janus_process_error_string env request sid transaction_text
                                     JANUS_ERROR_PLUGIN_MESSAGE
                                     (Cause (case result_text result of
                                               None \<Rightarrow> ''Plugin returned a severe (unknown) error''
                                             | Some t \<Rightarrow> t)) st
                   in (ret, handle, st))))"

definition process_message ::
  "janus_env \<Rightarrow> janus_request \<Rightarrow> guint64 \<Rightarrow> string option \<Rightarrow> string \<Rightarrow> janus_session \<Rightarrow>
   janus_ice_handle option \<Rightarrow> janus_state \<Rightarrow> (int \<times> janus_ice_handle option \<times> janus_state) option" where
  "process_message env request sid transaction_text message_text session handle st =
     (case handle of
        None \<Rightarrow>
          (let (ret, st) = janus_process_error env request sid transaction_text
                             JANUS_ERROR_INVALID_REQUEST_PATH (unhandled_request message_text) st
           in Some (ret, None, st))
      | Some handle \<Rightarrow>
          (case app handle of
             None \<Rightarrow>
               (let (ret, st) = janus_process_error env request sid transaction_text
                                  JANUS_ERROR_PLUGIN_MESSAGE
                                  (Format ''No plugin to handle this message'' []) st
                in Some (ret, Some handle, st))
           | Some plugin_t \<Rightarrow>
               if app_handle handle = None
               then (let (ret, st) = janus_process_error env request sid transaction_text
                                       JANUS_ERROR_PLUGIN_MESSAGE
                                       (Format ''No plugin to handle this message'' []) st
                     in Some (ret, Some handle, st))
               else
                 let root = message request in
                 (case JANUS_VALIDATE_JSON_OBJECT root body_parameters of
                    Some (error_code, error_cause) \<Rightarrow>
                      (let (ret, st) = janus_process_error_string env request sid transaction_text
                                         error_code error_cause st
                       in Some (ret, Some handle, st))
                  | None \<Rightarrow>
                      let body = json_object_get root ''body'' in
                      (case json_object_get root ''jsep'' of
                         None \<Rightarrow>
                           (let (ret, handle, st) =
                                  message_to_plugin env request sid transaction_text session handle
                                    plugin_t body None st
                            in Some (ret, Some handle, st))
                       | Some jsep \<Rightarrow>
                           (case process_jsep env request sid transaction_text handle jsep st of
                              None \<Rightarrow> None
                            | Some (Jsep_over ret handle st) \<Rightarrow> Some (ret, Some handle, st)
                            | Some (Jsep_ready jsep_type jsep_sdp_stripped renegotiation handle st) \<Rightarrow>
                                (let (ret, handle, st) =
                                       message_to_plugin env request sid transaction_text session handle
                                         plugin_t body
                                         (Some (jsep_type, jsep_sdp_stripped, renegotiation)) st
                                 in Some (ret, Some handle, st)))))))"

subsection \<open>The Janus API: the request handler\<close>

text \<open>The chain of \<^verbatim>\<open>strcasecmp\<close> tests on the verb, for a request whose session (and
  handle, if it names one) has been found. A handle the branch has written to is written
  back to the map of the session.\<close>

definition write_back ::
  "guint64 \<Rightarrow> guint64 \<Rightarrow> janus_session \<Rightarrow> int \<times> janus_ice_handle option \<times> janus_state \<Rightarrow>
   int \<times> janus_state" where
  "write_back sid hid session r =
     (case r of
        (ret, None, st) \<Rightarrow> (ret, st)
      | (ret, Some handle, st) \<Rightarrow> (ret, put_session sid (put_handle hid handle session) st))"

definition process_verb ::
  "janus_env \<Rightarrow> janus_request \<Rightarrow> guint64 \<Rightarrow> guint64 \<Rightarrow> string option \<Rightarrow> string \<Rightarrow>
   janus_session \<Rightarrow> janus_ice_handle option \<Rightarrow> janus_state \<Rightarrow> (int \<times> janus_state) option" where
  "process_verb env request sid hid transaction_text message_text session handle st =
     (if strcasecmp message_text ''keepalive'' = 0
      then Some (janus_process_success env request
                   (janus_create_message ''ack'' sid transaction_text) st)
      else if strcasecmp message_text ''attach'' = 0
      then process_attach env request sid transaction_text message_text session handle st
      else if strcasecmp message_text ''destroy'' = 0
      then process_destroy env request sid transaction_text message_text session handle st
      else if strcasecmp message_text ''detach'' = 0
      then process_detach env request sid transaction_text message_text session handle st
      else if strcasecmp message_text ''hangup'' = 0
      then process_hangup env request sid transaction_text message_text session handle st
      else if strcasecmp message_text ''message'' = 0
      then map_option (write_back sid hid session)
             (process_message env request sid transaction_text message_text session handle st)
      else if strcasecmp message_text ''trickle'' = 0
      then Some (write_back sid hid session
                   (process_trickle env request sid transaction_text message_text handle st))
      else Some (janus_process_error env request sid transaction_text JANUS_ERROR_UNKNOWN_REQUEST
                   (Format (''Unknown request '%s'' @ [CHR 0x27]) [Arg_s message_text]) st))"

text \<open>
  The start of \<^verbatim>\<open>janus_process_incoming_request\<close> reads the ids:
  \<^verbatim>\<open>json_t *s = json_object_get(root, "session_id");
  if(s && json_is_integer(s)) session_id = json_integer_value(s);\<close>
  and the same for \<^verbatim>\<open>handle_id\<close>; the variables are \<^verbatim>\<open>guint64\<close> and start at 0, the JSON
  integer is signed.
\<close>

definition request_id_member :: "json option \<Rightarrow> string \<Rightarrow> guint64" where
  "request_id_member root key =
     (case json_object_get root key of
        None \<Rightarrow> 0
      | Some v \<Rightarrow>
          if json_is_integer v then word_of_int (json_integer_value (Some v)) else 0)"

text \<open>
  \<^verbatim>\<open>janus_process_incoming_request\<close>. \<open>sid\<close> and \<open>hid\<close> are the variables \<^verbatim>\<open>session_id\<close> and
  \<^verbatim>\<open>handle_id\<close>, \<open>h\<close> is the \<^verbatim>\<open>handle_id\<close> member itself. The result is the return value and
  the state, or \<open>None\<close> for a call that does not return.
\<close>

definition janus_process_incoming_request ::
  "janus_env \<Rightarrow> janus_request option \<Rightarrow> janus_state \<Rightarrow> (int \<times> janus_state) option" where
  "janus_process_incoming_request env req st =
     (case req of
        None \<Rightarrow> Some (- 1, st)
      | Some request \<Rightarrow>
          let root = message request;
              sid = request_id_member root ''session_id'';
              h = json_object_get root ''handle_id'';
              hid = request_id_member root ''handle_id''
          in
          (case JANUS_VALIDATE_JSON_OBJECT root incoming_request_parameters of
             Some (error_code, error_cause) \<Rightarrow>
               Some (janus_process_error_string env request sid None error_code error_cause st)
           | None \<Rightarrow>
               let transaction_text = json_string_value (json_object_get root ''transaction'') in
               (case json_string_value (json_object_get root ''janus'') of
                  None \<Rightarrow> None
                | Some message_text \<Rightarrow>
                    if sid = 0 \<and> hid = 0
                    then process_no_session env request transaction_text message_text st
                    else if sid < 1
                    then Some (janus_process_error env request sid transaction_text
                                 JANUS_ERROR_SESSION_NOT_FOUND NULL_format st)
                    else if h \<noteq> None \<and> hid < 1
                    then Some (janus_process_error env request sid transaction_text
                                 JANUS_ERROR_SESSION_NOT_FOUND NULL_format st)
                    else
                      let (ret, st) = janus_request_check_secret env request sid transaction_text st in
                      if ret \<noteq> 0 then Some (ret, st)
                      else
                        (case janus_session_find st sid of
                           None \<Rightarrow>
                             Some (janus_process_error env request sid transaction_text
                                     JANUS_ERROR_SESSION_NOT_FOUND
                                     (Format ''No such session %lu'' [Arg_u64 sid]) st)
                         | Some session \<Rightarrow>
                             let (now, st) = janus_get_monotonic_time env st;
                                 session = session\<lparr>last_activity := now\<rparr>;
                                 st = put_session sid session st;
                                 handle = (if 0 < hid then janus_session_handles_find session hid
                                           else None)
                             in if 0 < hid \<and> handle = None
                                then Some (janus_process_error env request sid transaction_text
                                             JANUS_ERROR_HANDLE_NOT_FOUND
                                             (Format ''No such handle %lu in session %lu''
                                                [Arg_u64 hid, Arg_u64 sid]) st)
                                else process_verb env request sid hid transaction_text message_text
                                       session handle st))))"

subsection \<open>What the theorems speak about\<close>

text \<open>The replies handed to a transport, oldest first, and the test for an error reply
  with a given code.\<close>

fun reply_of :: "event \<Rightarrow> janus_reply option" where
  "reply_of (Send_message t i rid adm reply) = Some reply"
| "reply_of _ = None"

definition replies :: "janus_state \<Rightarrow> janus_reply list" where
  "replies st = List.map_filter reply_of (calls st)"

definition is_error :: "api_error \<Rightarrow> janus_reply \<Rightarrow> bool" where
  "is_error code reply =
     (r_janus reply = ''error'' \<and>
      (case r_extra reply of Error_object e reason \<Rightarrow> e = code | _ \<Rightarrow> False))"

text \<open>The spec's rule of authorization: the API secret matches, or a valid token is
  presented, or both mechanisms are disabled.\<close>

definition authorized :: "janus_env \<Rightarrow> janus_request \<Rightarrow> bool" where
  "authorized env request =
     ((case api_secret env of
         None \<Rightarrow> False
       | Some configured \<Rightarrow>
           json_object_get (message request) ''apisecret'' = Some (JSON_STRING configured))
      \<or> (janus_auth_is_enabled env \<and>
          (case json_object_get (message request) ''token'' of
             Some (JSON_STRING token) \<Rightarrow> janus_auth_check_token env token
           | _ \<Rightarrow> False))
      \<or> (api_secret env = None \<and> \<not> janus_auth_is_enabled env))"

text \<open>The clock readings of the replay loop: every queued trickle with the time the loop
  reads when it gets to it, the first reading being number \<open>k\<close>.\<close>

fun drain_times :: "janus_env \<Rightarrow> nat \<Rightarrow> janus_ice_trickle option list \<Rightarrow> (janus_ice_trickle \<times> gint64) list" where
  "drain_times env k [] = []"
| "drain_times env k (None # q) = drain_times env k q"
| "drain_times env k (Some trickle # q) =
     (trickle, monotonic_time env k) # drain_times env (Suc k) q"

text \<open>What a queued trickle hands to the ICE stack when it is replayed: the candidate
  itself when it is an object, its elements in order when it is an array, and nothing
  when it is anything else.\<close>

fun fed_candidates :: "janus_ice_trickle \<Rightarrow> json list" where
  "fed_candidates trickle =
     (case candidate trickle of
        Some (JSON_OBJECT members) \<Rightarrow> [JSON_OBJECT members]
      | Some (JSON_ARRAY cs) \<Rightarrow> cs
      | _ \<Rightarrow> [])"

definition too_old :: "janus_ice_trickle \<times> gint64 \<Rightarrow> bool" where
  "too_old entry = (case entry of (trickle, now) \<Rightarrow> now - received trickle > 45 * G_USEC_PER_SEC)"

text \<open>What the replay is to hand to the ICE stack for a queue \<open>q\<close>, the first clock
  reading being number \<open>k\<close>: in the order of the queue, the candidates of the trickles
  that are not older than 45 seconds when the loop gets to them.\<close>

definition replayed :: "janus_env \<Rightarrow> nat \<Rightarrow> janus_ice_trickle option list \<Rightarrow> json list" where
  "replayed env k q =
     concat (map (fed_candidates \<circ> fst) (filter (Not \<circ> too_old) (drain_times env k q)))"

text \<open>The candidates handed to the ICE stack so far, oldest first, each with the id of
  the handle it was handed to.\<close>

fun parse_of :: "event \<Rightarrow> (guint64 \<times> json) option" where
  "parse_of (Ice_trickle_parse hid c) = Some (hid, c)"
| "parse_of _ = None"

definition handed_to_ice :: "janus_state \<Rightarrow> (guint64 \<times> json) list" where
  "handed_to_ice st = List.map_filter parse_of (calls st)"

text \<open>The handle and the state the JSEP part of a \<^verbatim>\<open>message\<close> leaves behind.\<close>

fun jsep_outcome :: "jsep_result \<Rightarrow> janus_ice_handle \<times> janus_state" where
  "jsep_outcome (Jsep_over ret handle st) = (handle, st)"
| "jsep_outcome (Jsep_ready jsep_type jsep_sdp_stripped renegotiation handle st) = (handle, st)"

text \<open>A request that has passed the secret check and found its session has updated the
  activity timer of the session: \<open>touched\<close> is the session, \<open>activity\<close> the state, at the
  point where the verb is looked at.\<close>

definition touched :: "janus_env \<Rightarrow> janus_session \<Rightarrow> janus_state \<Rightarrow> janus_session" where
  "touched env session st = session\<lparr>last_activity := monotonic_time env (clock_reads st)\<rparr>"

definition activity :: "janus_env \<Rightarrow> guint64 \<Rightarrow> janus_session \<Rightarrow> janus_state \<Rightarrow> janus_state" where
  "activity env sid session st =
     put_session sid (touched env session st) (st\<lparr>clock_reads := Suc (clock_reads st)\<rparr>)"

text \<open>
  \<open>addresses st request verb session handle\<close>: the request has a transaction and the
  verb (in any case of letters), its \<^verbatim>\<open>session_id\<close> is nonzero and is the id of \<open>session\<close>
  in the registry of \<open>st\<close>, and either \<open>handle\<close> is the handle of that session that the
  nonzero \<^verbatim>\<open>handle_id\<close> of the request names, or the request has no \<^verbatim>\<open>handle_id\<close>.
\<close>

definition has_verb :: "janus_request \<Rightarrow> string \<Rightarrow> bool" where
  "has_verb request verb =
     (case json_string_value (json_object_get (message request) ''janus'') of
        None \<Rightarrow> False
      | Some message_text \<Rightarrow> strcasecmp message_text verb = 0)"

definition addresses ::
  "janus_state \<Rightarrow> janus_request \<Rightarrow> string \<Rightarrow> janus_session \<Rightarrow> janus_ice_handle option \<Rightarrow> bool" where
  "addresses st request verb session handle =
     (let root = message request;
          sid = request_id_member root ''session_id'';
          hid = request_id_member root ''handle_id''
      in JANUS_VALIDATE_JSON_OBJECT root incoming_request_parameters = None \<and>
         has_verb request verb \<and>
         sid \<noteq> 0 \<and>
         janus_session_find st sid = Some session \<and>
         (case handle of
            None \<Rightarrow> json_object_get root ''handle_id'' = None
          | Some h \<Rightarrow> hid \<noteq> 0 \<and> janus_session_handles_find session hid = Some h))"

text \<open>The tables are keyed by the ids of the objects they hold: a session is found under
  its \<open>session_id\<close>, a handle under its \<open>handle_id\<close>.\<close>

definition handles_ok :: "janus_session \<Rightarrow> bool" where
  "handles_ok session =
     (case ice_handles session of
        None \<Rightarrow> True
      | Some handles \<Rightarrow> list_all (\<lambda>(k, handle). handle_id handle = k) handles)"

definition registry_ok :: "janus_state \<Rightarrow> bool" where
  "registry_ok st =
     list_all (\<lambda>(k, session). session_id session = k \<and> handles_ok session) (sessions st)"

text \<open>The session object as \<^verbatim>\<open>janus_session_destroy\<close> leaves it.\<close>

definition destroyed_session :: "janus_session \<Rightarrow> janus_session" where
  "destroyed_session session =
     (if destroyed session = 0
      then (case ice_handles session of
              None \<Rightarrow> session\<lparr>destroyed := 1\<rparr>
            | Some handles \<Rightarrow> session\<lparr>destroyed := 1, ice_handles := Some []\<rparr>)
      else session)"

text \<open>\<open>carries_answer request sdp\<close>: the request is a well-formed \<^verbatim>\<open>message\<close> (it has a
  \<^verbatim>\<open>body\<close> object) with a well-formed \<^verbatim>\<open>jsep\<close> object whose \<^verbatim>\<open>type\<close> is \<^verbatim>\<open>answer\<close> (in any case
  of letters) and whose \<^verbatim>\<open>sdp\<close> is the string \<open>sdp\<close>.\<close>

definition carries_answer :: "janus_request \<Rightarrow> string \<Rightarrow> bool" where
  "carries_answer request sdp =
     (JANUS_VALIDATE_JSON_OBJECT (message request) body_parameters = None \<and>
      (case json_object_get (message request) ''jsep'' of
         None \<Rightarrow> False
       | Some jsep \<Rightarrow>
           json_is_object jsep \<and>
           JANUS_VALIDATE_JSON_OBJECT_FORMAT ''JSEP error: missing mandatory element (%s)''
             ''JSEP error: invalid element type (%s should be %s)'' (Some jsep) jsep_parameters = None \<and>
           (case json_string_value (json_object_get (Some jsep) ''type'') of
              None \<Rightarrow> False
            | Some jsep_type \<Rightarrow> strcasecmp jsep_type ''answer'' = 0) \<and>
           json_string_value (json_object_get (Some jsep) ''sdp'') = Some sdp))"

subsection \<open>An example server\<close>

text \<open>A server without API secret and without token authentication, with one plugin
  and a transport whose \<^verbatim>\<open>send_message\<close> returns 0; the clock stands at 100 seconds.\<close>

definition example_env :: janus_env where
  "example_env =
     \<lparr>api_secret = None, session_timeout = 60,
      plugins = [(''janus.plugin.video'', ''janus.plugin.video'')],
      janus_auth_is_enabled = False,
      janus_auth_check_token = (\<lambda>token. False),
      janus_auth_check_plugin = (\<lambda>token plugin. False),
      janus_events_is_enabled = False,
      monotonic_time = (\<lambda>k. 100 * G_USEC_PER_SEC),
      send_message_result = (\<lambda>t i reply. 0),
      ice_handle_destroy_result = (\<lambda>hid. 0),
      plugin_create_session_result = (\<lambda>plugin hid. 0),
      plugin_session_is_alive = (\<lambda>p. True),
      plugin_handle_message = (\<lambda>plugin p body jsep. None),
      still_cleaning = (\<lambda>hid k. False),
      janus_sdp_preparse = (\<lambda>sdp. (Some (Parsed_sdp sdp, 1, 0, 0), [])),
      janus_ice_setup_local = (\<lambda>handle offer audio video data trickle. (0, handle)),
      janus_sdp_process = (\<lambda>handle sdp update. (0, handle)),
      janus_ice_trickle_parse = (\<lambda>handle c. (0, [])),
      janus_rtp_header_extension_get_id = (\<lambda>sdp. 0),
      janus_ice_is_full_trickle_enabled = False,
      have_sctp = False,
      janus_sdp_anonymize = (\<lambda>sdp. (0, sdp)),
      janus_sdp_write = (\<lambda>sdp. case sdp of Parsed_sdp text \<Rightarrow> text)\<rparr>"

text \<open>The same server with an API secret, and with token authentication on top, where
  \<^verbatim>\<open>tokenX\<close> is a valid token that may access no plugin.\<close>

definition secret_env :: janus_env where
  "secret_env = example_env\<lparr>api_secret := Some ''janusrocks''\<rparr>"

definition token_env :: janus_env where
  "token_env =
     example_env\<lparr>api_secret := Some ''janusrocks'',
                 janus_auth_is_enabled := True,
                 janus_auth_check_token := (\<lambda>token. token = ''tokenX'')\<rparr>"

text \<open>Session 7, created by an HTTP client and idle since time 0, with handle 9 attached
  to the plugin.\<close>

definition example_handle :: janus_ice_handle where
  "example_handle =
     \<lparr>handle_id = 9, opaque_id = None, app = Some ''janus.plugin.video'', app_handle = Some 9,
      webrtc_flags = {}, pending_trickles = [], agent = None, stream_id = 0, stream = None,
      remote_sdp = None\<rparr>"

definition example_session :: janus_session where
  "example_session =
     \<lparr>session_id = 7,
      source = Some (janus_request_new ''janus.transport.http'' 1 None False None),
      destroyed = 0, timeout = 0, last_activity = 0,
      ice_handles = Some [(9, example_handle)]\<rparr>"

definition example_state :: janus_state where
  "example_state =
     \<lparr>sessions = [(7, example_session)], unlinked = [], calls = [], clock_reads = 0,
      random_supply = [0, 7, 12]\<rparr>"

definition example_request :: "(string \<times> json) list \<Rightarrow> janus_request" where
  "example_request members =
     janus_request_new ''janus.transport.http'' 1 (Some 1) False (Some (JSON_OBJECT members))"

text \<open>The requests of the examples.\<close>

definition keepalive_request :: janus_request where
  "keepalive_request =
     example_request
       [(''janus'', JSON_STRING ''keepalive''), (''transaction'', JSON_STRING ''t1''),
        (''session_id'', JSON_INTEGER 7), (''handle_id'', JSON_INTEGER 9)]"

definition create_request :: janus_request where
  "create_request =
     example_request [(''janus'', JSON_STRING ''create''), (''transaction'', JSON_STRING ''t1'')]"

definition destroy_request :: janus_request where
  "destroy_request =
     example_request
       [(''janus'', JSON_STRING ''destroy''), (''transaction'', JSON_STRING ''t2''),
        (''session_id'', JSON_INTEGER 7)]"

definition create_with_id_request :: "int \<Rightarrow> janus_request" where
  "create_with_id_request i =
     example_request
       [(''janus'', JSON_STRING ''create''), (''transaction'', JSON_STRING ''t3''),
        (''id'', JSON_INTEGER i)]"

definition attach_request :: "(string \<times> json) list \<Rightarrow> janus_request" where
  "attach_request credentials =
     example_request
       ([(''janus'', JSON_STRING ''attach''), (''transaction'', JSON_STRING ''t4''),
         (''session_id'', JSON_INTEGER 7), (''plugin'', JSON_STRING ''janus.plugin.video'')] @
        credentials)"

definition answer_request :: janus_request where
  "answer_request =
     example_request
       [(''janus'', JSON_STRING ''message''), (''transaction'', JSON_STRING ''t5''),
        (''session_id'', JSON_INTEGER 7), (''handle_id'', JSON_INTEGER 9),
        (''body'', JSON_OBJECT []),
        (''jsep'', JSON_OBJECT [(''type'', JSON_STRING ''answer''), (''sdp'', JSON_STRING ''v=0'')])]"

definition trickle_request :: "(string \<times> json) list \<Rightarrow> janus_request" where
  "trickle_request candidates =
     example_request
       ([(''janus'', JSON_STRING ''trickle''), (''transaction'', JSON_STRING ''t6''),
         (''session_id'', JSON_INTEGER 7), (''handle_id'', JSON_INTEGER 9)] @ candidates)"

text \<open>Three queued trickles, received at 54, 55 and 90 seconds: at 100 seconds the first
  is 46 seconds old, the second 45.\<close>

definition example_queue :: "janus_ice_trickle option list" where
  "example_queue =
     [Some \<lparr>trickle_transaction = Some ''t1'',
            candidate = Some (JSON_OBJECT [(''candidate'', JSON_STRING ''a'')]),
            received = 54 * G_USEC_PER_SEC\<rparr>,
      Some \<lparr>trickle_transaction = Some ''t2'',
            candidate = Some (JSON_OBJECT [(''candidate'', JSON_STRING ''b'')]),
            received = 55 * G_USEC_PER_SEC\<rparr>,
      Some \<lparr>trickle_transaction = Some ''t3'',
            candidate = Some (JSON_ARRAY [JSON_OBJECT [(''candidate'', JSON_STRING ''c'')],
                                         JSON_OBJECT [(''completed'', JSON_TRUE)]]),
            received = 90 * G_USEC_PER_SEC\<rparr>]"

text \<open>The handle 9 after the plugin has made an offer: ICE is set up, the answer of the
  client is awaited, and \<open>q\<close> is the queue of the trickles that came before it.\<close>

definition offered_handle :: "janus_ice_trickle option list \<Rightarrow> janus_ice_handle" where
  "offered_handle q =
     example_handle
       \<lparr>webrtc_flags := {JANUS_ICE_HANDLE_WEBRTC_GOT_OFFER},
        pending_trickles := q,
        agent := Some 1,
        stream_id := 1,
        stream := Some \<lparr>s_stream_id = 1, ruser = [], rpass = [], do_transport_wide_cc = False,
                         transport_wide_cc_ext_id = 0, video_ssrc_peer = (0, 0, 0),
                         component = None\<rparr>\<rparr>"

definition offered_state :: "janus_ice_trickle option list \<Rightarrow> janus_state" where
  "offered_state q =
     example_state\<lparr>sessions := [(7, example_session\<lparr>ice_handles := Some [(9, offered_handle q)]\<rparr>)]\<rparr>"

section \<open>Properties\<close>

subsection \<open>Authorization and dispatch\<close>

lemma check_secret_authorized:
  "authorized env request \<Longrightarrow> janus_request_check_secret env request sid txn st = (0, st)"
  unfolding authorized_def janus_request_check_secret_def janus_strcmp_const_time_def
  by (auto simp: Let_def split: option.splits json.splits)

lemma check_secret_unauthorized:
  "\<not> authorized env request \<Longrightarrow>
   janus_request_check_secret env request sid txn st =
     janus_process_error env request sid txn JANUS_ERROR_UNAUTHORIZED NULL_format st"
  unfolding authorized_def janus_request_check_secret_def janus_strcmp_const_time_def
  by (auto simp: Let_def split: option.splits json.splits)

lemma strcasecmp_same: "strcasecmp v a = 0 \<Longrightarrow> strcasecmp v b = strcasecmp a b"
  by (simp add: strcasecmp_def split: if_splits)

lemma handles_find_touched [simp]:
  "janus_session_handles_find (session\<lparr>last_activity := t\<rparr>) hid =
   janus_session_handles_find session hid"
  by (simp add: janus_session_handles_find_def)

lemma request_id_member_absent:
  "json_object_get root key = None \<Longrightarrow> request_id_member root key = 0"
  by (simp add: request_id_member_def)

text \<open>An authorized request that addresses a session (and a handle of it, if it names
  one) gets to the chain of tests on its verb, with the activity timer updated.\<close>

lemma dispatch:
  assumes "addresses st request verb session handle" and "authorized env request"
  shows "\<exists>message_text.
           json_string_value (json_object_get (message request) ''janus'') = Some message_text \<and>
           strcasecmp message_text verb = 0 \<and>
           janus_process_incoming_request env (Some request) st =
           process_verb env request (request_id_member (message request) ''session_id'')
             (request_id_member (message request) ''handle_id'')
             (json_string_value (json_object_get (message request) ''transaction'')) message_text
             (touched env session st) handle
             (activity env (request_id_member (message request) ''session_id'') session st)"
proof -
  let ?root = "message request"
  let ?sid = "request_id_member ?root ''session_id''"
  let ?hid = "request_id_member ?root ''handle_id''"
  from assms(1) obtain message_text where
    v: "JANUS_VALIDATE_JSON_OBJECT ?root incoming_request_parameters = None"
    and m: "json_string_value (json_object_get ?root ''janus'') = Some message_text"
    and c: "strcasecmp message_text verb = 0"
    and sid: "?sid \<noteq> 0"
    and s: "janus_session_find st ?sid = Some session"
    and h: "case handle of None \<Rightarrow> json_object_get ?root ''handle_id'' = None
            | Some h \<Rightarrow> ?hid \<noteq> 0 \<and> janus_session_handles_find session ?hid = Some h"
    by (auto simp: addresses_def has_verb_def Let_def split: option.splits)
  have sec: "janus_request_check_secret env request ?sid txn st = (0, st)" for txn
    by (rule check_secret_authorized [OF assms(2)])
  have "janus_process_incoming_request env (Some request) st =
        process_verb env request ?sid ?hid
          (json_string_value (json_object_get ?root ''transaction'')) message_text
          (touched env session st) handle (activity env ?sid session st)"
  proof (cases handle)
    case None
    with h have "json_object_get ?root ''handle_id'' = None" by simp
    moreover from this have "?hid = 0" by (rule request_id_member_absent)
    ultimately show ?thesis using v m sid s None
      by (simp add: janus_process_incoming_request_def Let_def sec word_less_1
          janus_get_monotonic_time_def touched_def activity_def)
  next
    case (Some hd)
    with h have "?hid \<noteq> 0" "janus_session_handles_find session ?hid = Some hd" by simp_all
    then show ?thesis using v m sid s Some
      by (simp add: janus_process_incoming_request_def Let_def sec word_less_1 word_gt_0
          janus_get_monotonic_time_def touched_def activity_def)
  qed
  with m c show ?thesis by blast
qed

subsection \<open>The timeout watchdog\<close>

text \<open>What the loop body does with a session that is idle for the timeout or longer, not
  destroyed and not latched: it sets the latch and nothing else. The session stays in
  the registry with its handles, and no call is made.\<close>

lemma check_session_idle_unlatched:
  assumes "g_hash_table_lookup (sessions st) k = Some session"
    and "destroyed session = 0" and "timeout session = 0"
    and "monotonic_time env (clock_reads st) - last_activity session
           \<ge> uint (session_timeout env) * G_USEC_PER_SEC"
  shows "check_session env k st =
           st\<lparr>clock_reads := Suc (clock_reads st),
              sessions := write_through k (session\<lparr>timeout := 1\<rparr>) (sessions st)\<rparr>"
  using assms
  by (simp add: check_session_def janus_get_monotonic_time_def
      g_atomic_int_compare_and_exchange_def put_session_def)

text \<open>What it does with such a session once the latch is set: the session leaves the
  registry.\<close>

lemma sessions_call [simp]: "sessions (call e st) = sessions st"
  by (simp add: call_def)

lemma sessions_handles_clear [simp]:
  "sessions (snd (janus_session_handles_clear session st)) = sessions st"
  by (simp add: janus_session_handles_clear_def split: option.splits)

lemma sessions_session_destroy [simp]:
  "sessions (snd (janus_session_destroy session st)) = sessions st"
  by (simp add: janus_session_destroy_def g_atomic_int_compare_and_exchange_def Let_def)

lemma check_session_idle_latched:
  assumes "g_hash_table_lookup (sessions st) k = Some session"
    and "destroyed session = 0" and "timeout session = 1"
    and "monotonic_time env (clock_reads st) - last_activity session
           \<ge> uint (session_timeout env) * G_USEC_PER_SEC"
  shows "sessions (check_session env k st) = g_hash_table_remove (sessions st) k"
  using assms
  by (simp add: check_session_def janus_get_monotonic_time_def
      g_atomic_int_compare_and_exchange_def Let_def split_beta
      split: option.splits)

text \<open>
  Claim C1. The claim: a session that the watchdog finds idle for the timeout or longer,
  not destroyed and with the timeout latch not set, has the latch set and, in the same
  tick, its handles cleared, its transport notified and itself removed from the
  registry. The code does not do that: on the example server (timeout 60 s, clock at
  100 s) session 7, idle since time 0, only gets its latch set by the first tick; it is
  still in the registry, with handle 9, and no call has been made. The second tick does
  the rest.
\<close>

theorem janus_check_sessions_first_tick_only_latches:
  "janus_check_sessions example_env example_state =
     example_state\<lparr>sessions := [(7, example_session\<lparr>timeout := 1\<rparr>)], clock_reads := 1\<rparr> \<and>
   janus_check_sessions example_env (janus_check_sessions example_env example_state) =
     example_state
       \<lparr>sessions := [],
        unlinked := [example_session\<lparr>timeout := 1, destroyed := 1, ice_handles := Some []\<rparr>],
        calls := [Ice_handle_destroy 7 9,
                  Send_message ''janus.transport.http'' 1 None False
                    (janus_create_message ''timeout'' 7 None),
                  Session_over ''janus.transport.http'' 1 7 True],
        clock_reads := 2\<rparr>"
  by (simp add: janus_check_sessions_def check_session_def example_env_def example_state_def
      example_session_def example_handle_def janus_request_new_def
      g_hash_table_lookup_def g_hash_table_insert_def g_hash_table_remove_def
      janus_get_monotonic_time_def G_USEC_PER_SEC_def g_atomic_int_compare_and_exchange_def
      janus_session_handles_clear_def janus_session_destroy_def call_def
      janus_create_message_def put_session_def write_through_def)

subsection \<open>Evaluating the examples\<close>

lemmas example_defs =
  example_env_def secret_env_def token_env_def example_handle_def example_session_def
  example_state_def example_request_def janus_request_new_def G_USEC_PER_SEC_def

lemmas request_defs =
  addresses_def has_verb_def authorized_def request_id_member_def requested_id_def JANUS_VALIDATE_JSON_OBJECT_def
  incoming_request_parameters_def janus_json_is_valid_def strcasecmp_def tolower_def
  janus_session_find_def janus_session_handles_find_def g_hash_table_lookup_def

lemmas reply_defs =
  janus_process_success_def janus_process_error_def janus_process_error_string_def
  janus_create_message_def call_def is_error_def replies_def List.map_filter_def g_vsnprintf_def

lemmas state_defs =
  activity_def touched_def put_session_def put_handle_def write_through_def

text \<open>The reason of an error reply is the printed format, cut to the 511 characters that
  fit the buffer.\<close>

lemma g_vsnprintf_length: "length (g_vsnprintf 512 format ap) \<le> 511"
  by (simp add: g_vsnprintf_def)

lemma unknown_session_example:
  "map_option (replies \<circ> snd)
     (janus_process_incoming_request example_env
        (Some (example_request
           [(''janus'', JSON_STRING ''keepalive''), (''transaction'', JSON_STRING ''t1''),
            (''session_id'', JSON_INTEGER 5)]))
        example_state) =
   Some [(janus_create_message ''error'' 5 (Some ''t1''))
           \<lparr>r_extra := Error_object JANUS_ERROR_SESSION_NOT_FOUND (Cause ''No such session 5'')\<rparr>]"
  by (simp add: example_defs request_defs reply_defs janus_process_incoming_request_def
      janus_request_check_secret_def Let_def word_less_1 word_gt_0 decimal.simps)

lemma unhandled_request_example:
  "map_option (replies \<circ> snd)
     (janus_process_incoming_request example_env
        (Some (example_request
           [(''janus'', JSON_STRING ''bogus''), (''transaction'', JSON_STRING ''t1'')]))
        example_state) =
   Some [(janus_create_message ''error'' 0 (Some ''t1''))
           \<lparr>r_extra := Error_object JANUS_ERROR_INVALID_REQUEST_PATH
                         (Cause ''Unhandled request 'bogus' at this path'')\<rparr>]"
  by (simp add: example_defs request_defs reply_defs janus_process_incoming_request_def
      process_no_session_def unhandled_request_def Let_def word_less_1 word_gt_0)

subsection \<open>Keepalive\<close>

lemma verb_keepalive:
  "strcasecmp message_text ''keepalive'' = 0 \<Longrightarrow>
   process_verb env request sid hid txn message_text session handle st =
     Some (janus_process_success env request (janus_create_message ''ack'' sid txn) st)"
  by (simp add: process_verb_def)

text \<open>
  Claim C2, as amended. The claim has the \<^verbatim>\<open>INVALID_REQUEST_PATH\<close> error as the reply to a
  \<^verbatim>\<open>keepalive\<close> that names a valid session and a valid handle of it. The \<^verbatim>\<open>keepalive\<close> branch
  of the code comes first in the chain of verbs and does not look at the handle: for an
  authorized request the reply is the \<^verbatim>\<open>ack\<close> of the session, sent after the activity timer
  of the session has been updated, and nothing else changes.
\<close>

theorem keepalive_with_handle_is_acked:
  assumes "addresses st request ''keepalive'' session (Some handle)"
    and "authorized env request"
  shows "janus_process_incoming_request env (Some request) st =
           Some (janus_process_success env request
                   (janus_create_message ''ack'' (request_id_member (message request) ''session_id'')
                      (json_string_value (json_object_get (message request) ''transaction'')))
                   (activity env (request_id_member (message request) ''session_id'') session st))"
  using dispatch [OF assms] by (auto simp: verb_keepalive)

theorem keepalive_with_handle_is_acked_witness:
  "addresses example_state keepalive_request ''keepalive'' example_session (Some example_handle) \<and>
   authorized example_env keepalive_request \<and>
   janus_process_incoming_request example_env (Some keepalive_request) example_state =
     Some (0, example_state
                \<lparr>sessions := [(7, example_session\<lparr>last_activity := 100000000\<rparr>)],
                 calls := [Send_message ''janus.transport.http'' 1 (Some 1) False
                             (janus_create_message ''ack'' 7 (Some ''t1''))],
                 clock_reads := 1\<rparr>)"
proof -
  have a: "addresses example_state keepalive_request ''keepalive'' example_session (Some example_handle)"
    by (simp add: keepalive_request_def example_defs request_defs)
  have b: "authorized example_env keepalive_request"
    by (simp add: keepalive_request_def example_defs request_defs)
  show ?thesis
    using a b keepalive_with_handle_is_acked [OF a b]
    by (simp add: keepalive_request_def example_defs request_id_member_def reply_defs state_defs)
qed

text \<open>The claim as it stands fails on the example server: the \<^verbatim>\<open>keepalive\<close> for session 7
  and its handle 9 gets one reply, the \<^verbatim>\<open>ack\<close>, which is no error.\<close>

theorem keepalive_with_handle_counterexample:
  "addresses example_state keepalive_request ''keepalive'' example_session (Some example_handle) \<and>
   map_option (replies \<circ> snd)
     (janus_process_incoming_request example_env (Some keepalive_request) example_state) =
     Some [janus_create_message ''ack'' 7 (Some ''t1'')] \<and>
   \<not> is_error JANUS_ERROR_INVALID_REQUEST_PATH (janus_create_message ''ack'' 7 (Some ''t1''))"
  by (simp add: keepalive_request_def example_defs request_defs reply_defs state_defs
      janus_process_incoming_request_def process_verb_def janus_request_check_secret_def
      janus_get_monotonic_time_def Let_def word_less_1 word_gt_0)

subsection \<open>The replay of pending trickles\<close>

lemma replayed_simps:
  "replayed env k [] = []"
  "replayed env k (None # q) = replayed env k q"
  "replayed env k (Some t # q) =
     (if monotonic_time env k - received t > 45 * G_USEC_PER_SEC then []
      else fed_candidates t) @ replayed env (Suc k) q"
  by (simp_all add: replayed_def too_old_def)

text \<open>The loop hands the ICE stack what \<open>replayed\<close> says, and makes no other call.\<close>

lemma pending_trickles_loop_calls:
  "calls (pending_trickles_loop env hid q st) =
     calls st @ map (Ice_trickle_parse hid) (replayed env (clock_reads st) q)"
proof (induction env hid q st rule: pending_trickles_loop.induct)
  case (1 env hid st)
  show ?case by (simp add: replayed_simps)
next
  case (2 env hid temp st)
  then show ?case by (simp add: replayed_simps)
next
  case (3 env hid trickle temp st)
  let ?now = "monotonic_time env (clock_reads st)"
  let ?st = "st\<lparr>clock_reads := Suc (clock_reads st)\<rparr>"
  have t: "janus_get_monotonic_time env st = (?now, ?st)"
    by (simp add: janus_get_monotonic_time_def)
  show ?case
  proof (cases "?now - received trickle > 45 * G_USEC_PER_SEC")
    case True
    with "3.IH"(1) [OF t [symmetric] refl True] t show ?thesis
      by (simp add: replayed_simps)
  next
    case young: False
    show ?thesis
    proof (cases "candidate trickle")
      case None
      with "3.IH"(2) [OF t [symmetric] refl young None] t young show ?thesis
        by (simp add: replayed_simps)
    next
      case (Some c)
      show ?thesis
      proof (cases "json_is_object c")
        case True
        with "3.IH"(3) [OF t [symmetric] refl young Some True] t young Some show ?thesis
          by (cases c) (simp_all add: replayed_simps call_def)
      next
        case no_object: False
        show ?thesis
        proof (cases "json_is_array c")
          case True
          with "3.IH"(4) [OF t [symmetric] refl young Some no_object True] t young Some no_object
          show ?thesis
            by (cases c) (simp_all add: replayed_simps)
        next
          case False
          with "3.IH"(5) [OF t [symmetric] refl young Some no_object False] t young Some no_object
          show ?thesis
            by (cases c) (simp_all add: replayed_simps)
        qed
      qed
    qed
  qed
qed

text \<open>The \<^verbatim>\<open>trickle\<close> verb queues at the end (\<^verbatim>\<open>g_list_append\<close>); what is queued later is
  replayed later.\<close>

lemma drain_times_append:
  "drain_times env k (q @ q') =
     drain_times env k q @ drain_times env (k + length (filter (\<lambda>cell. cell \<noteq> None) q)) q'"
proof (induction q arbitrary: k)
  case Nil
  show ?case by simp
next
  case (Cons cell q)
  then show ?case by (cases cell) simp_all
qed

lemma replayed_append:
  "replayed env k (q @ q') =
     replayed env k q @ replayed env (k + length (filter (\<lambda>cell. cell \<noteq> None) q)) q'"
  by (simp add: replayed_def drain_times_append)

lemma replayed_example:
  "replayed example_env 0 example_queue =
     [JSON_OBJECT [(''candidate'', JSON_STRING ''b'')],
      JSON_OBJECT [(''candidate'', JSON_STRING ''c'')],
      JSON_OBJECT [(''completed'', JSON_TRUE)]]"
  by (simp add: replayed_def example_queue_def example_env_def too_old_def G_USEC_PER_SEC_def)

text \<open>\<^verbatim>\<open>janus_request_ice_handle_answer\<close> empties the queue, and the calls it makes to
  \<^verbatim>\<open>janus_ice_trickle_parse\<close> are what \<open>replayed\<close> says; the only other call is the start
  of the connectivity checks when the handle does not wait for more trickles.\<close>

lemma ice_handle_answer_replays:
  "pending_trickles (fst (janus_request_ice_handle_answer env handle st)) = [] \<and>
   calls (snd (janus_request_ice_handle_answer env handle st)) =
     calls st @
     map (Ice_trickle_parse (handle_id handle))
       (replayed env (clock_reads st) (pending_trickles handle)) @
     (if janus_flags_is_set (webrtc_flags handle) JANUS_ICE_HANDLE_WEBRTC_TRICKLE \<and>
         \<not> janus_flags_is_set (webrtc_flags handle) JANUS_ICE_HANDLE_WEBRTC_ALL_TRICKLES
      then []
      else [Ice_setup_remote_candidates (handle_id handle) (stream_id handle) 1])"
  by (simp add: janus_request_ice_handle_answer_def Let_def pending_trickles_loop_calls
      janus_flags_is_set_def janus_flags_clear_def janus_flags_set_def call_def)

subsection \<open>The secret check\<close>

text \<open>The check sends the \<^verbatim>\<open>UNAUTHORIZED\<close> error exactly when the request is not
  authorized, but what it returns then is what the transport returned for that reply:
  with a transport that returns 0 the caller cannot tell the two cases apart.\<close>

lemma check_secret_returns_0_iff:
  "fst (janus_request_check_secret env request sid txn st) = 0 \<longleftrightarrow>
     authorized env request \<or>
     send_message_result env (transport request) (instance_ptr request)
       ((janus_create_message ''error'' sid txn)
          \<lparr>r_extra := Error_object JANUS_ERROR_UNAUTHORIZED Api_error_string\<rparr>) = 0"
  by (cases "authorized env request")
    (simp_all add: check_secret_authorized check_secret_unauthorized janus_process_error_def
      janus_process_error_string_def Let_def)

text \<open>
  Claim C4. The claim: a request is authorized if and only if the API secret matches, or
  a valid token is presented, or both mechanisms are disabled; in every other case the
  reply is the \<^verbatim>\<open>UNAUTHORIZED\<close> error and the verb is not processed. The code sends the error
  in every other case, but goes on: on the server with the API secret \<^verbatim>\<open>janusrocks\<close>, a
  \<^verbatim>\<open>create\<close> without \<^verbatim>\<open>apisecret\<close> is answered with \<^verbatim>\<open>UNAUTHORIZED\<close> and then creates session 12
  and answers \<^verbatim>\<open>success\<close>.
\<close>

theorem unauthorized_create_proceeds:
  "\<not> authorized secret_env create_request \<and>
   janus_process_incoming_request secret_env (Some create_request) example_state =
     Some (0, example_state
       \<lparr>sessions := [(7, example_session),
                     (12, \<lparr>session_id = 12,
                           source = Some (janus_request_new ''janus.transport.http'' 1 None False None),
                           destroyed = 0, timeout = 0, last_activity = 100 * G_USEC_PER_SEC,
                           ice_handles = None\<rparr>)],
        calls := [Send_message ''janus.transport.http'' 1 (Some 1) False
                    ((janus_create_message ''error'' 0 (Some ''t1''))
                       \<lparr>r_extra := Error_object JANUS_ERROR_UNAUTHORIZED Api_error_string\<rparr>),
                  Session_created ''janus.transport.http'' 1 12,
                  Send_message ''janus.transport.http'' 1 (Some 1) False
                    ((janus_create_message ''success'' 0 (Some ''t1''))\<lparr>r_extra := Data_id 12\<rparr>)],
        clock_reads := 1,
        random_supply := []\<rparr>)"
  by (simp add: create_request_def example_defs request_defs reply_defs state_defs
      janus_process_incoming_request_def process_no_session_def process_create_def
      janus_request_check_secret_def janus_session_create_def g_hash_table_insert_def
      janus_get_monotonic_time_def Let_def word_less_1 word_gt_0)

subsection \<open>The tables and the state after a request\<close>

lemma registry_ok_find:
  "registry_ok st \<Longrightarrow> janus_session_find st sid = Some session \<Longrightarrow>
   session_id session = sid \<and> handles_ok session"
  by (auto simp: registry_ok_def janus_session_find_def g_hash_table_lookup_def list_all_iff
      dest!: map_of_SomeD)

lemma handles_ok_find:
  "handles_ok session \<Longrightarrow> janus_session_handles_find session hid = Some handle \<Longrightarrow>
   handle_id handle = hid"
  by (auto simp: handles_ok_def janus_session_handles_find_def g_hash_table_lookup_def list_all_iff
      split: option.splits dest!: map_of_SomeD)

lemma map_of_write_through:
  "map_of (write_through k v table) k' =
     (if k' = k then map_option (\<lambda>old. v) (map_of table k) else map_of table k')"
  by (induction table) (auto simp: write_through_def)

lemma find_activity:
  assumes "janus_session_find st sid = Some session"
  shows "janus_session_find (activity env sid session st) k =
           (if k = sid then Some (touched env session st) else janus_session_find st k)"
  using assms
  by (simp add: activity_def put_session_def janus_session_find_def g_hash_table_lookup_def
      map_of_write_through)

lemma activity_frame [simp]:
  "calls (activity env sid session st) = calls st"
  "unlinked (activity env sid session st) = unlinked st"
  "random_supply (activity env sid session st) = random_supply st"
  "clock_reads (activity env sid session st) = Suc (clock_reads st)"
  by (simp_all add: activity_def put_session_def)

subsection \<open>The chain of verbs\<close>

lemma verbs_differ:
  "strcasecmp ''attach'' ''keepalive'' \<noteq> 0"
  "strcasecmp ''destroy'' ''keepalive'' \<noteq> 0" "strcasecmp ''destroy'' ''attach'' \<noteq> 0"
  "strcasecmp ''detach'' ''keepalive'' \<noteq> 0" "strcasecmp ''detach'' ''attach'' \<noteq> 0"
  "strcasecmp ''detach'' ''destroy'' \<noteq> 0"
  "strcasecmp ''hangup'' ''keepalive'' \<noteq> 0" "strcasecmp ''hangup'' ''attach'' \<noteq> 0"
  "strcasecmp ''hangup'' ''destroy'' \<noteq> 0" "strcasecmp ''hangup'' ''detach'' \<noteq> 0"
  "strcasecmp ''message'' ''keepalive'' \<noteq> 0" "strcasecmp ''message'' ''attach'' \<noteq> 0"
  "strcasecmp ''message'' ''destroy'' \<noteq> 0" "strcasecmp ''message'' ''detach'' \<noteq> 0"
  "strcasecmp ''message'' ''hangup'' \<noteq> 0"
  "strcasecmp ''trickle'' ''keepalive'' \<noteq> 0" "strcasecmp ''trickle'' ''attach'' \<noteq> 0"
  "strcasecmp ''trickle'' ''destroy'' \<noteq> 0" "strcasecmp ''trickle'' ''detach'' \<noteq> 0"
  "strcasecmp ''trickle'' ''hangup'' \<noteq> 0" "strcasecmp ''trickle'' ''message'' \<noteq> 0"
  "strcasecmp ''create'' ''info'' \<noteq> 0" "strcasecmp ''create'' ''ping'' \<noteq> 0"
  "strcasecmp ''answer'' ''offer'' \<noteq> 0"
  by (simp_all add: strcasecmp_def tolower_def)

lemma verb_attach:
  "strcasecmp message_text ''attach'' = 0 \<Longrightarrow>
   process_verb env request sid hid txn message_text session handle st =
     process_attach env request sid txn message_text session handle st"
  by (simp add: process_verb_def strcasecmp_same [of message_text "''attach''"] verbs_differ)

lemma verb_destroy:
  "strcasecmp message_text ''destroy'' = 0 \<Longrightarrow>
   process_verb env request sid hid txn message_text session handle st =
     process_destroy env request sid txn message_text session handle st"
  by (simp add: process_verb_def strcasecmp_same [of message_text "''destroy''"] verbs_differ)

lemma verb_message:
  "strcasecmp message_text ''message'' = 0 \<Longrightarrow>
   process_verb env request sid hid txn message_text session handle st =
     map_option (write_back sid hid session)
       (process_message env request sid txn message_text session handle st)"
  by (simp add: process_verb_def strcasecmp_same [of message_text "''message''"] verbs_differ)

lemma verb_trickle:
  "strcasecmp message_text ''trickle'' = 0 \<Longrightarrow>
   process_verb env request sid hid txn message_text session handle st =
     Some (write_back sid hid session (process_trickle env request sid txn message_text handle st))"
  by (simp add: process_verb_def strcasecmp_same [of message_text "''trickle''"] verbs_differ)

subsection \<open>Destroying a session\<close>

text \<open>\<^verbatim>\<open>janus_session_destroy\<close> sets the flag when it is 0 and leaves it alone otherwise.\<close>

lemma session_destroy_flag:
  "destroyed (fst (janus_session_destroy session st)) =
     (if destroyed session = 0 then 1 else destroyed session)"
  by (simp add: janus_session_destroy_def g_atomic_int_compare_and_exchange_def Let_def
      janus_session_handles_clear_def split: option.splits)

lemma session_destroy_id [simp]:
  "session_id (fst (janus_session_destroy session st)) = session_id session"
  by (simp add: janus_session_destroy_def g_atomic_int_compare_and_exchange_def Let_def
      janus_session_handles_clear_def split: option.splits)

lemma replies_call_send [simp]:
  "replies (call (Send_message t i rid adm reply) st) = replies st @ [reply]"
  by (simp add: replies_def call_def List.map_filter_def)

lemma replies_call_other [simp]:
  "reply_of e = None \<Longrightarrow> replies (call e st) = replies st"
  by (simp add: replies_def call_def List.map_filter_def)

lemma replies_cong: "calls st = calls st' \<Longrightarrow> replies st = replies st'"
  by (simp add: replies_def)

lemma replies_handles_clear [simp]:
  "replies (snd (janus_session_handles_clear session st)) = replies st"
  by (simp add: janus_session_handles_clear_def replies_def List.map_filter_def comp_def
      split: option.splits prod.splits)

lemma replies_session_destroy [simp]:
  "replies (snd (janus_session_destroy session st)) = replies st"
  by (simp add: janus_session_destroy_def g_atomic_int_compare_and_exchange_def Let_def)

lemma unlinked_call [simp]: "unlinked (call e st) = unlinked st"
  by (simp add: call_def)

lemma unlinked_handles_clear [simp]:
  "unlinked (snd (janus_session_handles_clear session st)) = unlinked st"
  by (simp add: janus_session_handles_clear_def split: option.splits)

lemma unlinked_session_destroy [simp]:
  "unlinked (snd (janus_session_destroy session st)) = unlinked st"
  by (simp add: janus_session_destroy_def g_atomic_int_compare_and_exchange_def Let_def)

lemma replies_updates [simp]:
  "replies (st\<lparr>sessions := a\<rparr>) = replies st"
  "replies (st\<lparr>unlinked := b\<rparr>) = replies st"
  "replies (st\<lparr>clock_reads := c\<rparr>) = replies st"
  "replies (st\<lparr>random_supply := d\<rparr>) = replies st"
  by (simp_all add: replies_def)

lemma replies_activity [simp]: "replies (activity env sid session st) = replies st"
  by (simp add: replies_def)

lemma process_success_result:
  "janus_process_success env request reply st =
     (send_message_result env (transport request) (instance_ptr request) reply,
      call (Send_message (transport request) (instance_ptr request) (request_id request)
              (admin request) reply) st)"
  by (simp add: janus_process_success_def)

lemma session_destroy_object:
  "fst (janus_session_destroy session st) = destroyed_session session"
  by (auto simp: janus_session_destroy_def g_atomic_int_compare_and_exchange_def Let_def
      janus_session_handles_clear_def destroyed_session_def split: option.splits)

lemma process_destroy_result:
  assumes "session_id session = sid"
  shows "\<exists>ret st1.
           process_destroy env request sid txn message_text session None st = Some (ret, st1) \<and>
           replies st1 = replies st @ [janus_create_message ''success'' sid txn] \<and>
           janus_session_find st1 sid = None \<and>
           unlinked st1 = unlinked st @ [destroyed_session session]"
  using assms
  by (simp add: process_destroy_def Let_def split_beta process_success_result
      session_destroy_object janus_session_find_def g_hash_table_lookup_def
      g_hash_table_remove_def delete_conv split: option.splits)

lemma not_found_result:
  assumes "JANUS_VALIDATE_JSON_OBJECT (message request) incoming_request_parameters = None"
    and "json_string_value (json_object_get (message request) ''janus'') = Some message_text"
    and "request_id_member (message request) ''session_id'' = sid" and "sid \<noteq> 0"
    and "authorized env request"
    and "janus_session_find st sid = None"
  shows "\<exists>ret reason.
           janus_process_incoming_request env (Some request) st =
             Some (ret, call (Send_message (transport request) (instance_ptr request)
                                (request_id request) (admin request)
                                ((janus_create_message ''error'' sid
                                    (json_string_value (json_object_get (message request) ''transaction'')))
                                   \<lparr>r_extra := Error_object JANUS_ERROR_SESSION_NOT_FOUND reason\<rparr>)) st)"
  using assms
  by (auto simp: janus_process_incoming_request_def Let_def word_less_1 check_secret_authorized
      janus_process_error_def janus_process_error_string_def)


lemma validated_has_verb:
  "JANUS_VALIDATE_JSON_OBJECT (message request) incoming_request_parameters = None \<Longrightarrow>
   \<exists>message_text. json_string_value (json_object_get (message request) ''janus'') = Some message_text"
  by (cases "json_object_get (message request) ''janus''"; cases "json_object_get (message request) ''transaction''")
    (auto simp: JANUS_VALIDATE_JSON_OBJECT_def incoming_request_parameters_def janus_json_is_valid_def
      Let_def split: if_splits option.splits elim: json_typeof.elims)

text \<open>
  Claim C5. An authorized \<^verbatim>\<open>destroy\<close> request for a session of the registry (naming no
  handle) is answered with \<^verbatim>\<open>success\<close>, and the session is no longer found in the registry
  afterwards; the session object, which lives on outside the registry, has its
  \<open>destroyed\<close> flag set. Any authorized request for the same session id that follows, a
  second \<^verbatim>\<open>destroy\<close> in particular, is answered with the \<^verbatim>\<open>SESSION_NOT_FOUND\<close> error and
  leaves the registry as it is. \<^verbatim>\<open>janus_session_destroy\<close> never resets the flag: the flag is
  nonzero afterwards, and a nonzero flag keeps its value.
\<close>

theorem double_destroy:
  assumes "registry_ok st"
    and "addresses st request ''destroy'' session None"
    and "authorized env request"
    and "JANUS_VALIDATE_JSON_OBJECT (message request2) incoming_request_parameters = None"
    and "request_id_member (message request2) ''session_id'' =
         request_id_member (message request) ''session_id''"
    and "authorized env request2"
  shows "\<exists>ret st1.
           janus_process_incoming_request env (Some request) st = Some (ret, st1) \<and>
           replies st1 = replies st @
             [janus_create_message ''success'' (request_id_member (message request) ''session_id'')
                (json_string_value (json_object_get (message request) ''transaction''))] \<and>
           janus_session_find st1 (request_id_member (message request) ''session_id'') = None \<and>
           unlinked st1 = unlinked st @ [destroyed_session (touched env session st)] \<and>
           destroyed (destroyed_session (touched env session st)) \<noteq> 0 \<and>
           (\<exists>ret2 st2 reply2.
              janus_process_incoming_request env (Some request2) st1 = Some (ret2, st2) \<and>
              replies st2 = replies st1 @ [reply2] \<and>
              is_error JANUS_ERROR_SESSION_NOT_FOUND reply2 \<and>
              sessions st2 = sessions st1) \<and>
           (\<forall>s st'. destroyed (fst (janus_session_destroy s st')) \<noteq> 0 \<and>
                    (destroyed s \<noteq> 0 \<longrightarrow>
                       destroyed (fst (janus_session_destroy s st')) = destroyed s))"
proof -
  let ?sid = "request_id_member (message request) ''session_id''"
  let ?txn = "json_string_value (json_object_get (message request) ''transaction'')"
  from assms(2) have found: "janus_session_find st ?sid = Some session" and sid: "?sid \<noteq> 0"
    by (simp_all add: addresses_def Let_def)
  from registry_ok_find [OF assms(1) found] have id: "session_id (touched env session st) = ?sid"
    by (simp add: touched_def)
  from dispatch [OF assms(2,3)] obtain message_text where
    d: "strcasecmp message_text ''destroy'' = 0"
       "janus_process_incoming_request env (Some request) st =
          process_destroy env request ?sid ?txn message_text (touched env session st) None
            (activity env ?sid session st)"
    by (auto simp: verb_destroy)
  from process_destroy_result [OF id, of env request ?txn message_text "activity env ?sid session st"]
  obtain ret st1 where
    r: "process_destroy env request ?sid ?txn message_text (touched env session st) None
          (activity env ?sid session st) = Some (ret, st1)"
       "replies st1 = replies st @ [janus_create_message ''success'' ?sid ?txn]"
       "janus_session_find st1 ?sid = None"
       "unlinked st1 = unlinked st @ [destroyed_session (touched env session st)]"
    by auto
  from validated_has_verb [OF assms(4)] obtain verb2 where
    v2: "json_string_value (json_object_get (message request2) ''janus'') = Some verb2" ..
  from not_found_result [OF assms(4) v2 assms(5) sid assms(6) r(3)]
  obtain ret2 reason where
    second: "janus_process_incoming_request env (Some request2) st1 =
       Some (ret2, call (Send_message (transport request2) (instance_ptr request2)
                           (request_id request2) (admin request2)
                           ((janus_create_message ''error'' ?sid
                               (json_string_value (json_object_get (message request2) ''transaction'')))
                              \<lparr>r_extra := Error_object JANUS_ERROR_SESSION_NOT_FOUND reason\<rparr>)) st1)"
    by blast
  have flag: "destroyed (destroyed_session s) \<noteq> 0" for s
    by (simp add: destroyed_session_def split: option.splits)
  have mono: "destroyed s \<noteq> 0 \<Longrightarrow> destroyed (destroyed_session s) = destroyed s" for s
    by (simp add: destroyed_session_def)
  have err: "is_error JANUS_ERROR_SESSION_NOT_FOUND
               ((janus_create_message ''error'' ?sid txn2)
                  \<lparr>r_extra := Error_object JANUS_ERROR_SESSION_NOT_FOUND reason\<rparr>)" for txn2
    by (simp add: is_error_def janus_create_message_def)
  show ?thesis
    using d(2) r second flag mono err by (simp add: session_destroy_object)
qed

theorem double_destroy_witness:
  "registry_ok example_state \<and>
   addresses example_state destroy_request ''destroy'' example_session None \<and>
   authorized example_env destroy_request \<and>
   (\<exists>ret st1.
      janus_process_incoming_request example_env (Some destroy_request) example_state = Some (ret, st1) \<and>
      replies st1 = [janus_create_message ''success'' 7 (Some ''t2'')] \<and>
      janus_session_find st1 7 = None \<and>
      (\<exists>ret2 st2 reply2.
         janus_process_incoming_request example_env (Some destroy_request) st1 = Some (ret2, st2) \<and>
         replies st2 = replies st1 @ [reply2] \<and>
         is_error JANUS_ERROR_SESSION_NOT_FOUND reply2))"
proof -
  have ok: "registry_ok example_state"
    by (simp add: registry_ok_def handles_ok_def example_defs)
  have a: "addresses example_state destroy_request ''destroy'' example_session None"
    by (simp add: destroy_request_def example_defs request_defs)
  have b: "authorized example_env destroy_request"
    by (simp add: destroy_request_def example_defs request_defs)
  have v: "JANUS_VALIDATE_JSON_OBJECT (message destroy_request) incoming_request_parameters = None"
    by (simp add: destroy_request_def example_defs request_defs)
  have sid: "request_id_member (message destroy_request) ''session_id'' = 7"
    by (simp add: destroy_request_def example_defs request_defs)
  have txn: "json_string_value (json_object_get (message destroy_request) ''transaction'') = Some ''t2''"
    by (simp add: destroy_request_def example_defs)
  have none: "replies example_state = []"
    by (simp add: replies_def example_defs List.map_filter_def)
  from double_destroy [OF ok a b v refl b] show ?thesis
    using ok a b unfolding sid txn none by auto
qed

subsection \<open>Creating a session\<close>

lemma random_session_id_Some:
  "random_session_id table rs = Some (r, rest) \<Longrightarrow> r \<noteq> 0 \<and> g_hash_table_lookup table r = None"
  by (induction rs) (auto split: if_splits)

lemma random_session_id_finds:
  "\<exists>r \<in> set rs. r \<noteq> 0 \<and> g_hash_table_lookup table r = None \<Longrightarrow>
   random_session_id table rs \<noteq> None"
  by (induction rs) auto

lemma has_verbD:
  "has_verb request verb \<Longrightarrow>
   \<exists>message_text. json_string_value (json_object_get (message request) ''janus'') = Some message_text \<and>
      strcasecmp message_text verb = 0"
  by (auto simp: has_verb_def split: option.splits)

lemma create_dispatch:
  assumes "JANUS_VALIDATE_JSON_OBJECT (message request) incoming_request_parameters = None"
    and "has_verb request ''create''"
    and "request_id_member (message request) ''session_id'' = 0"
    and "request_id_member (message request) ''handle_id'' = 0"
  shows "janus_process_incoming_request env (Some request) st =
           process_create env request
             (json_string_value (json_object_get (message request) ''transaction'')) st"
proof -
  from has_verbD [OF assms(2)] obtain message_text where
    m: "json_string_value (json_object_get (message request) ''janus'') = Some message_text"
    and c: "strcasecmp message_text ''create'' = 0" by blast
  show ?thesis using assms(1,3,4) m c
    by (simp add: janus_process_incoming_request_def Let_def process_no_session_def
        strcasecmp_same [of message_text "''create''"] verbs_differ)
qed

lemma requested_id_present:
  "requested_id root \<noteq> 0 \<Longrightarrow> json_object_get root ''id'' \<noteq> None"
  by (auto simp: requested_id_def split: option.splits)

text \<open>The session a create request makes, and the state it leaves.\<close>

lemma process_create_new:
  assumes "authorized env request"
    and "sid \<noteq> 0" and "janus_session_find st sid = None"
    and "requested_id (message request) = (if chosen then sid else 0)"
    and "chosen \<or> random_session_id (sessions st) (random_supply st) = Some (sid, rest)"
  shows "\<exists>ret st' session.
           process_create env request txn st = Some (ret, st') \<and>
           janus_session_find st' sid = Some session \<and>
           session_id session = sid \<and>
           replies st' = replies st @ [(janus_create_message ''success'' 0 txn)\<lparr>r_extra := Data_id sid\<rparr>]"
proof (cases chosen)
  case True
  with assms show ?thesis
    by (simp add: process_create_def check_secret_authorized Let_def word_gt_0
        janus_session_create_def janus_get_monotonic_time_def put_session_def
        janus_session_find_def g_hash_table_lookup_def g_hash_table_insert_def
        map_of_write_through update_conv process_success_result split_beta)
next
  case False
  with assms show ?thesis
    by (simp add: process_create_def check_secret_authorized Let_def word_gt_0
        janus_session_create_def janus_get_monotonic_time_def put_session_def
        janus_session_find_def g_hash_table_lookup_def g_hash_table_insert_def
        map_of_write_through update_conv process_success_result split_beta)
qed

lemma process_create_conflict:
  assumes "authorized env request"
    and "requested_id (message request) \<noteq> 0"
    and "janus_session_find st (requested_id (message request)) \<noteq> None"
  shows "process_create env request txn st =
           Some (janus_process_error env request (requested_id (message request)) txn
                   JANUS_ERROR_SESSION_CONFLICT (Format ''Session ID already in use'' []) st)"
  using assms requested_id_present [OF assms(2)]
  by (simp add: process_create_def check_secret_authorized Let_def word_gt_0)

text \<open>
  Claim C6. For an authorized \<^verbatim>\<open>create\<close> request (one that names no session and no handle):
  \<^item> if the request asks for a nonzero id that is in the registry, the reply is the
    \<^verbatim>\<open>SESSION_CONFLICT\<close> error and the registry is left as it is;
  \<^item> if it asks for a nonzero id that is not in the registry, the request returns, a
    session with that id is in the registry afterwards and the reply is \<^verbatim>\<open>success\<close> with
    that id as \<^verbatim>\<open>data.id\<close>;
  \<^item> if it asks for no id (or for 0) and the random numbers to come hold one that is
    nonzero and not in the registry, the draw ends with such a number \<open>sid\<close>, the request
    returns, a session with the id \<open>sid\<close> is in the registry afterwards and the reply is
    \<^verbatim>\<open>success\<close> with \<open>sid\<close> as \<^verbatim>\<open>data.id\<close>.
\<close>

theorem create_request_creates_or_conflicts:
  assumes "JANUS_VALIDATE_JSON_OBJECT (message request) incoming_request_parameters = None"
    and "has_verb request ''create''"
    and "request_id_member (message request) ''session_id'' = 0"
    and "request_id_member (message request) ''handle_id'' = 0"
    and "authorized env request"
  shows "(requested_id (message request) \<noteq> 0 \<and>
          janus_session_find st (requested_id (message request)) \<noteq> None \<longrightarrow>
            (\<exists>ret st' reply.
               janus_process_incoming_request env (Some request) st = Some (ret, st') \<and>
               replies st' = replies st @ [reply] \<and>
               is_error JANUS_ERROR_SESSION_CONFLICT reply \<and>
               sessions st' = sessions st)) \<and>
         (requested_id (message request) \<noteq> 0 \<and>
          janus_session_find st (requested_id (message request)) = None \<longrightarrow>
            (\<exists>ret st' session.
               janus_process_incoming_request env (Some request) st = Some (ret, st') \<and>
               janus_session_find st' (requested_id (message request)) = Some session \<and>
               session_id session = requested_id (message request) \<and>
               replies st' = replies st @
                 [(janus_create_message ''success'' 0
                     (json_string_value (json_object_get (message request) ''transaction'')))
                    \<lparr>r_extra := Data_id (requested_id (message request))\<rparr>])) \<and>
         (requested_id (message request) = 0 \<and>
          (\<exists>r \<in> set (random_supply st). r \<noteq> 0 \<and> janus_session_find st r = None) \<longrightarrow>
            (\<exists>sid rest ret st' session.
               random_session_id (sessions st) (random_supply st) = Some (sid, rest) \<and>
               sid \<noteq> 0 \<and> janus_session_find st sid = None \<and>
               janus_process_incoming_request env (Some request) st = Some (ret, st') \<and>
               janus_session_find st' sid = Some session \<and>
               session_id session = sid \<and>
               replies st' = replies st @
                 [(janus_create_message ''success'' 0
                     (json_string_value (json_object_get (message request) ''transaction'')))
                    \<lparr>r_extra := Data_id sid\<rparr>]))"
proof -
  let ?txn = "json_string_value (json_object_get (message request) ''transaction'')"
  let ?rid = "requested_id (message request)"
  note d = create_dispatch [OF assms(1-4), of env st]
  have conflict: "\<exists>ret st' reply.
      janus_process_incoming_request env (Some request) st = Some (ret, st') \<and>
      replies st' = replies st @ [reply] \<and> is_error JANUS_ERROR_SESSION_CONFLICT reply \<and>
      sessions st' = sessions st"
    if "?rid \<noteq> 0" "janus_session_find st ?rid \<noteq> None"
    using process_create_conflict [OF assms(5) that, of ?txn] d
    by (simp add: janus_process_error_def janus_process_error_string_def Let_def is_error_def
        janus_create_message_def)
  have chosen: "\<exists>ret st' session.
      janus_process_incoming_request env (Some request) st = Some (ret, st') \<and>
      janus_session_find st' ?rid = Some session \<and> session_id session = ?rid \<and>
      replies st' = replies st @ [(janus_create_message ''success'' 0 ?txn)\<lparr>r_extra := Data_id ?rid\<rparr>]"
    if "?rid \<noteq> 0" "janus_session_find st ?rid = None"
    using process_create_new [OF assms(5) that, of True _ ?txn] d by simp
  have random: "\<exists>sid rest ret st' session.
      random_session_id (sessions st) (random_supply st) = Some (sid, rest) \<and>
      sid \<noteq> 0 \<and> janus_session_find st sid = None \<and>
      janus_process_incoming_request env (Some request) st = Some (ret, st') \<and>
      janus_session_find st' sid = Some session \<and> session_id session = sid \<and>
      replies st' = replies st @ [(janus_create_message ''success'' 0 ?txn)\<lparr>r_extra := Data_id sid\<rparr>]"
    if "?rid = 0" "\<exists>r \<in> set (random_supply st). r \<noteq> 0 \<and> janus_session_find st r = None"
  proof -
    from that(2) have "random_session_id (sessions st) (random_supply st) \<noteq> None"
      by (intro random_session_id_finds) (simp add: janus_session_find_def)
    then obtain sid rest where
      r: "random_session_id (sessions st) (random_supply st) = Some (sid, rest)" by auto
    from random_session_id_Some [OF r] have fresh: "sid \<noteq> 0" "janus_session_find st sid = None"
      by (simp_all add: janus_session_find_def)
    from process_create_new [OF assms(5) fresh, of False rest ?txn] that(1) r d fresh
    show ?thesis by simp
  qed
  from conflict chosen random show ?thesis by blast
qed

theorem create_request_creates_or_conflicts_witness:
  "JANUS_VALIDATE_JSON_OBJECT (message create_request) incoming_request_parameters = None \<and>
   has_verb create_request ''create'' \<and>
   request_id_member (message create_request) ''session_id'' = 0 \<and>
   request_id_member (message create_request) ''handle_id'' = 0 \<and>
   authorized example_env create_request \<and>
   requested_id (message create_request) = 0 \<and>
   (\<exists>r \<in> set (random_supply example_state). r \<noteq> 0 \<and> janus_session_find example_state r = None) \<and>
   (\<exists>ret st' session.
      janus_process_incoming_request example_env (Some create_request) example_state =
        Some (ret, st') \<and>
      janus_session_find st' 12 = Some session \<and> session_id session = 12 \<and>
      replies st' = [(janus_create_message ''success'' 0 (Some ''t1''))\<lparr>r_extra := Data_id 12\<rparr>])"
proof -
  let ?r = "create_request"
  have v: "JANUS_VALIDATE_JSON_OBJECT (message ?r) incoming_request_parameters = None"
    and c: "has_verb ?r ''create''"
    and s: "request_id_member (message ?r) ''session_id'' = 0"
    and h: "request_id_member (message ?r) ''handle_id'' = 0"
    and a: "authorized example_env ?r"
    and i: "requested_id (message ?r) = 0"
    and u: "\<exists>r \<in> set (random_supply example_state). r \<noteq> 0 \<and> janus_session_find example_state r = None"
    and t: "json_string_value (json_object_get (message ?r) ''transaction'') = Some ''t1''"
    by (simp_all add: create_request_def example_defs request_defs)
  have none: "replies example_state = []"
    by (simp add: replies_def example_defs List.map_filter_def)
  have draw: "random_session_id (sessions example_state) (random_supply example_state) = Some (12, [])"
    by (simp add: example_defs g_hash_table_lookup_def)
  from create_request_creates_or_conflicts [OF v c s h a, of example_state] i u
  have "\<exists>sid rest ret st' session.
      random_session_id (sessions example_state) (random_supply example_state) = Some (sid, rest) \<and>
      sid \<noteq> 0 \<and> janus_session_find example_state sid = None \<and>
      janus_process_incoming_request example_env (Some ?r) example_state = Some (ret, st') \<and>
      janus_session_find st' sid = Some session \<and> session_id session = sid \<and>
      replies st' = replies example_state @
        [(janus_create_message ''success'' 0
            (json_string_value (json_object_get (message ?r) ''transaction'')))\<lparr>r_extra := Data_id sid\<rparr>]"
    by blast
  then have "\<exists>ret st' session.
      janus_process_incoming_request example_env (Some ?r) example_state = Some (ret, st') \<and>
      janus_session_find st' 12 = Some session \<and> session_id session = 12 \<and>
      replies st' = [(janus_create_message ''success'' 0 (Some ''t1''))\<lparr>r_extra := Data_id 12\<rparr>]"
    unfolding draw none t by auto
  with v c s h a i u show ?thesis by simp
qed

lemma create_example_random:
  "janus_process_incoming_request example_env (Some create_request) example_state =
     Some (0, example_state
       \<lparr>sessions := [(7, example_session),
                     (12, \<lparr>session_id = 12,
                           source = Some (janus_request_new ''janus.transport.http'' 1 None False None),
                           destroyed = 0, timeout = 0, last_activity = 100 * G_USEC_PER_SEC,
                           ice_handles = None\<rparr>)],
        calls := [Session_created ''janus.transport.http'' 1 12,
                  Send_message ''janus.transport.http'' 1 (Some 1) False
                    ((janus_create_message ''success'' 0 (Some ''t1''))\<lparr>r_extra := Data_id 12\<rparr>)],
        clock_reads := 1,
        random_supply := []\<rparr>)"
  by (simp add: create_request_def example_defs request_defs reply_defs state_defs
      janus_process_incoming_request_def process_no_session_def process_create_def
      janus_request_check_secret_def janus_session_create_def g_hash_table_insert_def
      janus_get_monotonic_time_def Let_def word_less_1 word_gt_0)

subsection \<open>Attaching to a plugin\<close>

lemma handles_insert_find:
  "janus_session_handles_find (janus_session_handles_insert session handle) hid =
     (if hid = handle_id handle then Some handle else janus_session_handles_find session hid)"
  by (auto simp: janus_session_handles_find_def janus_session_handles_insert_def
      g_hash_table_lookup_def g_hash_table_insert_def update_conv split: option.splits)

lemma random_handle_id_Some:
  "random_handle_id session rs = Some (r, rest) \<Longrightarrow>
   r \<noteq> 0 \<and> janus_session_handles_find session r = None"
  by (induction rs) (auto split: if_splits)

lemma random_handle_id_finds:
  "\<exists>r \<in> set rs. r \<noteq> 0 \<and> janus_session_handles_find session r = None \<Longrightarrow>
   random_handle_id session rs \<noteq> None"
  by (induction rs) auto

lemma process_attach_refused:
  assumes "JANUS_VALIDATE_JSON_OBJECT (message request) attach_parameters = None"
    and "janus_plugin_find env (json_string_value (json_object_get (message request) ''plugin'')) = Some plugin_t"
    and "janus_auth_is_enabled env"
    and "json_object_get (message request) ''token'' = Some (JSON_STRING token)"
    and "\<not> janus_auth_check_plugin env token plugin_t"
  shows "process_attach env request sid txn message_text session None st =
           Some (janus_process_error env request sid txn JANUS_ERROR_UNAUTHORIZED_PLUGIN
                   (Format (''Provided token can't access plugin '%s'' @ [CHR 0x27])
                      [printf_s (json_string_value (json_object_get (message request) ''plugin''))]) st)"
  using assms by (simp add: process_attach_def Let_def)

text \<open>
  Claim C7. With token authentication enabled, an authorized \<^verbatim>\<open>attach\<close> request (naming a
  session of the registry, no handle, and a plugin that exists) whose \<^verbatim>\<open>token\<close> may not
  access the plugin is answered with the \<^verbatim>\<open>UNAUTHORIZED_PLUGIN\<close> error. That reply is the only
  call the request makes, so the plugin's attach hook does not run, and the session is
  in the registry with the handles it had.
\<close>

theorem attach_refused_for_token:
  assumes "addresses st request ''attach'' session None"
    and "authorized env request"
    and "JANUS_VALIDATE_JSON_OBJECT (message request) attach_parameters = None"
    and "janus_plugin_find env (json_string_value (json_object_get (message request) ''plugin'')) = Some plugin_t"
    and "janus_auth_is_enabled env"
    and "json_object_get (message request) ''token'' = Some (JSON_STRING token)"
    and "\<not> janus_auth_check_plugin env token plugin_t"
  shows "\<exists>ret st' reply.
           janus_process_incoming_request env (Some request) st = Some (ret, st') \<and>
           calls st' = calls st @ [Send_message (transport request) (instance_ptr request)
                                     (request_id request) (admin request) reply] \<and>
           is_error JANUS_ERROR_UNAUTHORIZED_PLUGIN reply \<and>
           janus_session_find st' (request_id_member (message request) ''session_id'') =
             Some (touched env session st) \<and>
           ice_handles (touched env session st) = ice_handles session"
proof -
  let ?sid = "request_id_member (message request) ''session_id''"
  let ?txn = "json_string_value (json_object_get (message request) ''transaction'')"
  from assms(1) have found: "janus_session_find st ?sid = Some session"
    by (simp add: addresses_def Let_def)
  from dispatch [OF assms(1,2)] obtain message_text where
    "janus_process_incoming_request env (Some request) st =
       process_attach env request ?sid ?txn message_text (touched env session st) None
         (activity env ?sid session st)"
    by (auto simp: verb_attach)
  with process_attach_refused [OF assms(3-7), of ?sid ?txn message_text "touched env session st"
      "activity env ?sid session st"]
  show ?thesis
    using find_activity [OF found, of env ?sid]
    by (simp add: janus_process_error_def janus_process_error_string_def Let_def call_def
        is_error_def janus_create_message_def janus_session_find_def touched_def)
qed

theorem attach_refused_for_token_witness:
  "addresses example_state (attach_request [(''token'', JSON_STRING ''tokenX'')]) ''attach'' example_session None \<and>
   authorized token_env (attach_request [(''token'', JSON_STRING ''tokenX'')]) \<and>
   janus_auth_is_enabled token_env \<and>
   \<not> janus_auth_check_plugin token_env ''tokenX'' ''janus.plugin.video'' \<and>
   (\<exists>ret st' reply.
      janus_process_incoming_request token_env (Some (attach_request [(''token'', JSON_STRING ''tokenX'')]))
        example_state = Some (ret, st') \<and>
      calls st' = [Send_message ''janus.transport.http'' 1 (Some 1) False reply] \<and>
      is_error JANUS_ERROR_UNAUTHORIZED_PLUGIN reply \<and>
      map_option ice_handles (janus_session_find st' 7) = Some (Some [(9, example_handle)]))"
proof -
  let ?r = "attach_request [(''token'', JSON_STRING ''tokenX'')]"
  have a: "addresses example_state ?r ''attach'' example_session None"
    and b: "authorized token_env ?r"
    and v: "JANUS_VALIDATE_JSON_OBJECT (message ?r) attach_parameters = None"
    and p: "janus_plugin_find token_env (json_string_value (json_object_get (message ?r) ''plugin''))
              = Some ''janus.plugin.video''"
    and e: "janus_auth_is_enabled token_env"
    and t: "json_object_get (message ?r) ''token'' = Some (JSON_STRING ''tokenX'')"
    and n: "\<not> janus_auth_check_plugin token_env ''tokenX'' ''janus.plugin.video''"
    by (simp_all add: attach_request_def example_defs request_defs attach_parameters_def
        janus_plugin_find_def)
  have sid: "request_id_member (message ?r) ''session_id'' = 7"
    by (simp add: attach_request_def example_defs request_defs)
  have c: "calls example_state = []" "request_id ?r = Some 1" "transport ?r = ''janus.transport.http''"
    "instance_ptr ?r = 1" "admin ?r = False"
    "ice_handles example_session = Some [(9, example_handle)]"
    by (simp_all add: attach_request_def example_defs)
  from attach_refused_for_token [OF a b v p e t n] show ?thesis
    using a b e n unfolding sid c by auto
qed


lemma random_handle_id_touched [simp]:
  "random_handle_id (session\<lparr>last_activity := t\<rparr>) rs = random_handle_id session rs"
  by (induction rs) auto

lemma calls_updates [simp]:
  "calls (st\<lparr>sessions := a\<rparr>) = calls st"
  "calls (st\<lparr>unlinked := b\<rparr>) = calls st"
  "calls (st\<lparr>clock_reads := c\<rparr>) = calls st"
  "calls (st\<lparr>random_supply := d\<rparr>) = calls st"
  by simp_all

lemma calls_put_session [simp]: "calls (put_session sid session st) = calls st"
  by (simp add: put_session_def)

lemma calls_call [simp]: "calls (call e st) = calls st @ [e]"
  by (simp add: call_def)

lemma find_put_session:
  "janus_session_find (put_session sid session st) k =
     (if k = sid then map_option (\<lambda>old. session) (janus_session_find st k)
      else janus_session_find st k)"
  by (simp add: put_session_def janus_session_find_def g_hash_table_lookup_def map_of_write_through)

lemma find_call [simp]: "janus_session_find (call e st) k = janus_session_find st k"
  by (simp add: janus_session_find_def)

lemma find_random_supply [simp]:
  "janus_session_find (st\<lparr>random_supply := d\<rparr>) k = janus_session_find st k"
  by (simp add: janus_session_find_def)

lemma handles_find_put_handle:
  "janus_session_handles_find (put_handle hid handle session) k =
     (if k = hid then map_option (\<lambda>old. handle) (janus_session_handles_find session k)
      else janus_session_handles_find session k)"
  by (cases "ice_handles session")
    (simp_all add: put_handle_def janus_session_handles_find_def g_hash_table_lookup_def
      map_of_write_through)

lemma session_id_put_handle [simp]:
  "session_id (put_handle hid handle session) = session_id session"
  by (simp add: put_handle_def)

lemma session_id_handles_insert [simp]:
  "session_id (janus_session_handles_insert session handle) = session_id session"
  by (simp add: janus_session_handles_insert_def)

lemma session_id_handles_remove [simp]:
  "session_id (fst (snd (janus_session_handles_remove env session handle st))) = session_id session"
  by (simp add: janus_session_handles_remove_def)

lemma process_attach_proceeds:
  assumes "JANUS_VALIDATE_JSON_OBJECT (message request) attach_parameters = None"
    and "janus_plugin_find env (json_string_value (json_object_get (message request) ''plugin'')) = Some plugin_t"
    and "json_object_get (message request) ''token'' = None"
    and "random_handle_id session (random_supply st) = Some (hid, rest)"
    and "janus_session_find st sid = Some session"
  shows "\<exists>ret st' reply.
           process_attach env request sid txn message_text session None st = Some (ret, st') \<and>
           calls st' = calls st @
             Plugin_create_session plugin_t hid #
             (if plugin_create_session_result env plugin_t hid = 0 then []
              else [Ice_handle_destroy (session_id session) hid]) @
             [Send_message (transport request) (instance_ptr request) (request_id request)
                (admin request) reply] \<and>
           (if plugin_create_session_result env plugin_t hid = 0
            then reply = (janus_create_message ''success'' sid txn)\<lparr>r_extra := Data_id hid\<rparr> \<and>
                 (\<exists>session' handle.
                    janus_session_find st' sid = Some session' \<and>
                    janus_session_handles_find session' hid = Some handle \<and>
                    handle_id handle = hid \<and> app handle = Some plugin_t)
            else is_error JANUS_ERROR_PLUGIN_ATTACH reply)"
  using assms
  by (simp add: process_attach_def Let_def janus_ice_handle_create_def
      janus_ice_handle_attach_plugin_def janus_session_handles_remove_def split_beta
      process_success_result janus_process_error_def janus_process_error_string_def
      find_put_session handles_find_put_handle handles_insert_find
      is_error_def janus_create_message_def)


text \<open>
  Claim C10. An authorized \<^verbatim>\<open>attach\<close> request without a \<^verbatim>\<open>token\<close> member (one authorized by
  the API secret, say) is not checked against the plugin's access list, whether token
  authentication is enabled or not and whatever \<^verbatim>\<open>janus_auth_check_plugin\<close> would say: the
  handle is created under the id drawn, the attach hook of the plugin runs, and when
  the hook reports no error the reply is \<^verbatim>\<open>success\<close> with the id of the handle, which is
  in the map of the session, attached to the plugin. (When the hook reports an error the
  handle is removed again and the reply is \<^verbatim>\<open>PLUGIN_ATTACH\<close>.) The draw comes to an id as
  soon as the supply holds a nonzero number that is no handle of the session
  (\<open>random_handle_id_finds\<close>).
\<close>

theorem attach_without_token_skips_acl:
  assumes "addresses st request ''attach'' session None"
    and "authorized env request"
    and "JANUS_VALIDATE_JSON_OBJECT (message request) attach_parameters = None"
    and "janus_plugin_find env (json_string_value (json_object_get (message request) ''plugin'')) = Some plugin_t"
    and "json_object_get (message request) ''token'' = None"
    and "random_handle_id session (random_supply st) = Some (hid, rest)"
  shows "\<exists>ret st' reply.
           janus_process_incoming_request env (Some request) st = Some (ret, st') \<and>
           calls st' = calls st @
             Plugin_create_session plugin_t hid #
             (if plugin_create_session_result env plugin_t hid = 0 then []
              else [Ice_handle_destroy (session_id session) hid]) @
             [Send_message (transport request) (instance_ptr request) (request_id request)
                (admin request) reply] \<and>
           (if plugin_create_session_result env plugin_t hid = 0
            then reply = (janus_create_message ''success''
                            (request_id_member (message request) ''session_id'')
                            (json_string_value (json_object_get (message request) ''transaction'')))
                           \<lparr>r_extra := Data_id hid\<rparr> \<and>
                 (\<exists>session' handle.
                    janus_session_find st' (request_id_member (message request) ''session_id'') =
                      Some session' \<and>
                    janus_session_handles_find session' hid = Some handle \<and>
                    handle_id handle = hid \<and> app handle = Some plugin_t)
            else is_error JANUS_ERROR_PLUGIN_ATTACH reply)"
proof -
  let ?sid = "request_id_member (message request) ''session_id''"
  let ?txn = "json_string_value (json_object_get (message request) ''transaction'')"
  from assms(1) have found: "janus_session_find st ?sid = Some session"
    by (simp add: addresses_def Let_def)
  have id: "session_id (touched env session st) = session_id session"
    by (simp add: touched_def)
  have f: "janus_session_find (activity env ?sid session st) ?sid = Some (touched env session st)"
    using find_activity [OF found, of env ?sid] by simp
  have r: "random_handle_id (touched env session st) (random_supply (activity env ?sid session st)) =
             Some (hid, rest)"
    using assms(6) by (simp add: touched_def)
  from dispatch [OF assms(1,2)] obtain message_text where
    "janus_process_incoming_request env (Some request) st =
       process_attach env request ?sid ?txn message_text (touched env session st) None
         (activity env ?sid session st)"
    by (auto simp: verb_attach)
  with process_attach_proceeds [OF assms(3,4,5) r f, of ?txn message_text]
  show ?thesis unfolding id activity_frame by simp
qed

theorem attach_without_token_skips_acl_witness:
  "addresses example_state (attach_request [(''apisecret'', JSON_STRING ''janusrocks'')]) ''attach''
     example_session None \<and>
   authorized token_env (attach_request [(''apisecret'', JSON_STRING ''janusrocks'')]) \<and>
   janus_auth_is_enabled token_env \<and>
   \<not> janus_auth_check_plugin token_env ''tokenX'' ''janus.plugin.video'' \<and>
   json_object_get (message (attach_request [(''apisecret'', JSON_STRING ''janusrocks'')])) ''token'' = None \<and>
   random_handle_id example_session (random_supply example_state) = Some (7, [12]) \<and>
   (\<exists>ret st' session' handle.
      janus_process_incoming_request token_env
        (Some (attach_request [(''apisecret'', JSON_STRING ''janusrocks'')])) example_state =
        Some (ret, st') \<and>
      calls st' = [Plugin_create_session ''janus.plugin.video'' 7,
                   Send_message ''janus.transport.http'' 1 (Some 1) False
                     ((janus_create_message ''success'' 7 (Some ''t4''))\<lparr>r_extra := Data_id 7\<rparr>)] \<and>
      janus_session_find st' 7 = Some session' \<and>
      janus_session_handles_find session' 7 = Some handle \<and>
      app handle = Some ''janus.plugin.video'')"
proof -
  let ?r = "attach_request [(''apisecret'', JSON_STRING ''janusrocks'')]"
  have a: "addresses example_state ?r ''attach'' example_session None"
    and b: "authorized token_env ?r"
    and v: "JANUS_VALIDATE_JSON_OBJECT (message ?r) attach_parameters = None"
    and p: "janus_plugin_find token_env (json_string_value (json_object_get (message ?r) ''plugin''))
              = Some ''janus.plugin.video''"
    and e: "janus_auth_is_enabled token_env"
    and t: "json_object_get (message ?r) ''token'' = None"
    and n: "\<not> janus_auth_check_plugin token_env ''tokenX'' ''janus.plugin.video''"
    and rnd: "random_handle_id example_session (random_supply example_state) = Some (7, [12])"
    by (simp_all add: attach_request_def example_defs request_defs attach_parameters_def
        janus_plugin_find_def)
  have c: "request_id_member (message ?r) ''session_id'' = 7"
    "json_string_value (json_object_get (message ?r) ''transaction'') = Some ''t4''"
    "calls example_state = []" "request_id ?r = Some 1" "transport ?r = ''janus.transport.http''"
    "instance_ptr ?r = 1" "admin ?r = False"
    "plugin_create_session_result token_env ''janus.plugin.video'' 7 = 0"
    by (simp_all add: attach_request_def example_defs request_defs)
  from attach_without_token_skips_acl [OF a b v p t rnd] show ?thesis
    using a b e n t rnd unfolding c by auto
qed

subsection \<open>Trickle requests\<close>

lemma process_trickle_both:
  assumes "app handle = Some plugin_t" and "app_handle handle = Some p"
    and "plugin_session_is_alive env p"
    and "json_object_get (message request) ''candidate'' \<noteq> None"
    and "json_object_get (message request) ''candidates'' \<noteq> None"
  shows "process_trickle env request sid txn message_text (Some handle) st =
           (fst (janus_process_error env request sid txn JANUS_ERROR_INVALID_JSON
                   (Format ''Can't have both candidate and candidates'' []) st),
            Some handle,
            snd (janus_process_error env request sid txn JANUS_ERROR_INVALID_JSON
                   (Format ''Can't have both candidate and candidates'' []) st))"
  using assms by (auto simp: process_trickle_def Let_def split_beta)

lemma process_trickle_neither:
  assumes "app handle = Some plugin_t" and "app_handle handle = Some p"
    and "plugin_session_is_alive env p"
    and "json_object_get (message request) ''candidate'' = None"
    and "json_object_get (message request) ''candidates'' = None"
  shows "process_trickle env request sid txn message_text (Some handle) st =
           (fst (janus_process_error env request sid txn JANUS_ERROR_MISSING_MANDATORY_ELEMENT
                   (Format ''Missing mandatory element (candidate|candidates)'' []) st),
            Some handle,
            snd (janus_process_error env request sid txn JANUS_ERROR_MISSING_MANDATORY_ELEMENT
                   (Format ''Missing mandatory element (candidate|candidates)'' []) st))"
  using assms by (auto simp: process_trickle_def Let_def split_beta)

text \<open>A handle that a request found and did not change is found unchanged afterwards.\<close>

lemma write_back_error:
  assumes "janus_session_find st sid = Some session"
    and "janus_session_handles_find session hid = Some handle"
  shows "\<exists>ret st' reply.
           write_back sid hid (touched env session st)
             (fst (janus_process_error env request sid txn code reason (activity env sid session st)),
              Some handle,
              snd (janus_process_error env request sid txn code reason (activity env sid session st)))
             = (ret, st') \<and>
           calls st' = calls st @ [Send_message (transport request) (instance_ptr request)
                                     (request_id request) (admin request) reply] \<and>
           is_error code reply \<and>
           (\<exists>session'. janus_session_find st' sid = Some session' \<and>
                       janus_session_handles_find session' hid = Some handle)"
proof -
  have f: "janus_session_find (activity env sid session st) sid = Some (touched env session st)"
    using find_activity [OF assms(1), of env sid] by simp
  show ?thesis
    using f assms(2)
    by (simp add: write_back_def janus_process_error_def janus_process_error_string_def Let_def
        find_put_session handles_find_put_handle is_error_def janus_create_message_def touched_def)
qed

text \<open>
  Claim C9. An authorized \<^verbatim>\<open>trickle\<close> request for a handle of the session that is attached
  to a plugin whose session is alive is answered with the \<^verbatim>\<open>INVALID_JSON\<close> error when it has
  both a \<^verbatim>\<open>candidate\<close> and a \<^verbatim>\<open>candidates\<close> member, and with the
  \<^verbatim>\<open>MISSING_MANDATORY_ELEMENT\<close> error when it has neither. In both cases the reply is the
  only call the request makes (nothing is handed to the ICE stack), and the handle is
  found afterwards as it was (nothing is queued).
\<close>

theorem trickle_both_or_neither:
  assumes "addresses st request ''trickle'' session (Some handle)"
    and "authorized env request"
    and "app handle = Some plugin_t" and "app_handle handle = Some p"
    and "plugin_session_is_alive env p"
  shows "(json_object_get (message request) ''candidate'' \<noteq> None \<and>
          json_object_get (message request) ''candidates'' \<noteq> None \<longrightarrow>
            (\<exists>ret st' reply.
               janus_process_incoming_request env (Some request) st = Some (ret, st') \<and>
               calls st' = calls st @ [Send_message (transport request) (instance_ptr request)
                                         (request_id request) (admin request) reply] \<and>
               is_error JANUS_ERROR_INVALID_JSON reply \<and>
               (\<exists>session'.
                  janus_session_find st' (request_id_member (message request) ''session_id'') =
                    Some session' \<and>
                  janus_session_handles_find session'
                    (request_id_member (message request) ''handle_id'') = Some handle))) \<and>
         (json_object_get (message request) ''candidate'' = None \<and>
          json_object_get (message request) ''candidates'' = None \<longrightarrow>
            (\<exists>ret st' reply.
               janus_process_incoming_request env (Some request) st = Some (ret, st') \<and>
               calls st' = calls st @ [Send_message (transport request) (instance_ptr request)
                                         (request_id request) (admin request) reply] \<and>
               is_error JANUS_ERROR_MISSING_MANDATORY_ELEMENT reply \<and>
               (\<exists>session'.
                  janus_session_find st' (request_id_member (message request) ''session_id'') =
                    Some session' \<and>
                  janus_session_handles_find session'
                    (request_id_member (message request) ''handle_id'') = Some handle)))"
proof -
  let ?sid = "request_id_member (message request) ''session_id''"
  let ?hid = "request_id_member (message request) ''handle_id''"
  let ?txn = "json_string_value (json_object_get (message request) ''transaction'')"
  from assms(1) have found: "janus_session_find st ?sid = Some session"
    and hfound: "janus_session_handles_find session ?hid = Some handle"
    by (simp_all add: addresses_def Let_def)
  from dispatch [OF assms(1,2)] obtain message_text where
    d: "janus_process_incoming_request env (Some request) st =
       Some (write_back ?sid ?hid (touched env session st)
               (process_trickle env request ?sid ?txn message_text (Some handle)
                  (activity env ?sid session st)))"
    by (auto simp: verb_trickle)
  note w = write_back_error [OF found hfound, of env request ?txn]
  show ?thesis
  proof (intro conjI impI)
    assume "json_object_get (message request) ''candidate'' \<noteq> None \<and>
            json_object_get (message request) ''candidates'' \<noteq> None"
    then have "process_trickle env request ?sid ?txn message_text (Some handle) (activity env ?sid session st) =
        (fst (janus_process_error env request ?sid ?txn JANUS_ERROR_INVALID_JSON
                (Format ''Can't have both candidate and candidates'' []) (activity env ?sid session st)),
         Some handle,
         snd (janus_process_error env request ?sid ?txn JANUS_ERROR_INVALID_JSON
                (Format ''Can't have both candidate and candidates'' []) (activity env ?sid session st)))"
      using process_trickle_both [OF assms(3,4,5)] by simp
    with d w [of JANUS_ERROR_INVALID_JSON "Format ''Can't have both candidate and candidates'' []"]
    show "\<exists>ret st' reply.
               janus_process_incoming_request env (Some request) st = Some (ret, st') \<and>
               calls st' = calls st @ [Send_message (transport request) (instance_ptr request)
                                         (request_id request) (admin request) reply] \<and>
               is_error JANUS_ERROR_INVALID_JSON reply \<and>
               (\<exists>session'. janus_session_find st' ?sid = Some session' \<and>
                  janus_session_handles_find session' ?hid = Some handle)"
      by simp
  next
    assume "json_object_get (message request) ''candidate'' = None \<and>
            json_object_get (message request) ''candidates'' = None"
    then have "process_trickle env request ?sid ?txn message_text (Some handle) (activity env ?sid session st) =
        (fst (janus_process_error env request ?sid ?txn JANUS_ERROR_MISSING_MANDATORY_ELEMENT
                (Format ''Missing mandatory element (candidate|candidates)'' []) (activity env ?sid session st)),
         Some handle,
         snd (janus_process_error env request ?sid ?txn JANUS_ERROR_MISSING_MANDATORY_ELEMENT
                (Format ''Missing mandatory element (candidate|candidates)'' []) (activity env ?sid session st)))"
      using process_trickle_neither [OF assms(3,4,5)] by simp
    with d w [of JANUS_ERROR_MISSING_MANDATORY_ELEMENT
        "Format ''Missing mandatory element (candidate|candidates)'' []"]
    show "\<exists>ret st' reply.
               janus_process_incoming_request env (Some request) st = Some (ret, st') \<and>
               calls st' = calls st @ [Send_message (transport request) (instance_ptr request)
                                         (request_id request) (admin request) reply] \<and>
               is_error JANUS_ERROR_MISSING_MANDATORY_ELEMENT reply \<and>
               (\<exists>session'. janus_session_find st' ?sid = Some session' \<and>
                  janus_session_handles_find session' ?hid = Some handle)"
      by simp
  qed
qed


theorem trickle_both_or_neither_witness:
  "addresses example_state
     (trickle_request [(''candidate'', JSON_OBJECT []), (''candidates'', JSON_ARRAY [])])
     ''trickle'' example_session (Some example_handle) \<and>
   authorized example_env
     (trickle_request [(''candidate'', JSON_OBJECT []), (''candidates'', JSON_ARRAY [])]) \<and>
   plugin_session_is_alive example_env 9 \<and>
   (\<exists>ret st' reply session'.
      janus_process_incoming_request example_env
        (Some (trickle_request [(''candidate'', JSON_OBJECT []), (''candidates'', JSON_ARRAY [])]))
        example_state = Some (ret, st') \<and>
      calls st' = [Send_message ''janus.transport.http'' 1 (Some 1) False reply] \<and>
      is_error JANUS_ERROR_INVALID_JSON reply \<and>
      janus_session_find st' 7 = Some session' \<and>
      janus_session_handles_find session' 9 = Some example_handle)"
proof -
  let ?r = "trickle_request [(''candidate'', JSON_OBJECT []), (''candidates'', JSON_ARRAY [])]"
  have a: "addresses example_state ?r ''trickle'' example_session (Some example_handle)"
    and b: "authorized example_env ?r"
    and p: "app example_handle = Some ''janus.plugin.video''" "app_handle example_handle = Some 9"
    and l: "plugin_session_is_alive example_env 9"
    and both: "json_object_get (message ?r) ''candidate'' \<noteq> None \<and>
               json_object_get (message ?r) ''candidates'' \<noteq> None"
    by (simp_all add: trickle_request_def example_defs request_defs)
  have c: "request_id_member (message ?r) ''session_id'' = 7"
    "request_id_member (message ?r) ''handle_id'' = 9"
    "calls example_state = []" "request_id ?r = Some 1" "transport ?r = ''janus.transport.http''"
    "instance_ptr ?r = 1" "admin ?r = False"
    by (simp_all add: trickle_request_def example_defs request_defs)
  from trickle_both_or_neither [OF a b p l] both show ?thesis
    using a b l unfolding c by auto
qed

lemma trickle_neither_example:
  "map_option (replies \<circ> snd)
     (janus_process_incoming_request example_env (Some (trickle_request [])) example_state) =
   Some [(janus_create_message ''error'' 7 (Some ''t6''))
           \<lparr>r_extra := Error_object JANUS_ERROR_MISSING_MANDATORY_ELEMENT
                         (Cause ''Missing mandatory element (candidate|candidates)'')\<rparr>]"
  by (simp add: trickle_request_def example_defs request_defs reply_defs state_defs
      janus_process_incoming_request_def process_verb_def process_trickle_def write_back_def
      janus_request_check_secret_def janus_get_monotonic_time_def Let_def word_less_1 word_gt_0)

subsection \<open>An answer without an offer\<close>

lemma process_jsep_unexpected_answer:
  assumes "json_is_object jsep"
    and "JANUS_VALIDATE_JSON_OBJECT_FORMAT ''JSEP error: missing mandatory element (%s)''
           ''JSEP error: invalid element type (%s should be %s)'' (Some jsep) jsep_parameters = None"
    and "json_string_value (json_object_get (Some jsep) ''type'') = Some jsep_type"
    and "strcasecmp jsep_type ''answer'' = 0"
    and "json_string_value (json_object_get (Some jsep) ''sdp'') = Some jsep_sdp"
    and "\<not> janus_flags_is_set (webrtc_flags handle) JANUS_ICE_HANDLE_WEBRTC_CLEANING"
    and "janus_sdp_preparse env jsep_sdp = (Some (parsed_sdp, audio, video, data), error_str)"
    and "\<not> janus_flags_is_set (webrtc_flags handle) JANUS_ICE_HANDLE_WEBRTC_READY \<or>
         janus_flags_is_set (webrtc_flags handle) JANUS_ICE_HANDLE_WEBRTC_ALERT"
    and "agent handle = None"
  shows "process_jsep env request sid txn handle jsep st =
           Some (jsep_error env request sid txn JANUS_ERROR_UNEXPECTED_ANSWER
                   (Format ''Unexpected ANSWER (did we offer?)'' [])
                   (handle\<lparr>webrtc_flags :=
                      insert JANUS_ICE_HANDLE_WEBRTC_GOT_ANSWER (webrtc_flags handle)
                        - {JANUS_ICE_HANDLE_WEBRTC_PROCESSING_OFFER}\<rparr>)
                   (if janus_events_is_enabled env
                    then call (Events_notify_jsep sid (handle_id handle) (opaque_id handle)
                                 ''remote'' jsep_type jsep_sdp) st
                    else st))"
proof -
  have no_offer: "strcasecmp jsep_type ''offer'' \<noteq> 0"
    using strcasecmp_same [OF assms(4), of "''offer''"] verbs_differ by simp
  have flags:
    "janus_flags_is_set (janus_flags_set (webrtc_flags handle) JANUS_ICE_HANDLE_WEBRTC_GOT_ANSWER)
       JANUS_ICE_HANDLE_WEBRTC_READY =
     janus_flags_is_set (webrtc_flags handle) JANUS_ICE_HANDLE_WEBRTC_READY"
    "janus_flags_is_set (janus_flags_set (webrtc_flags handle) JANUS_ICE_HANDLE_WEBRTC_GOT_ANSWER)
       JANUS_ICE_HANDLE_WEBRTC_ALERT =
     janus_flags_is_set (webrtc_flags handle) JANUS_ICE_HANDLE_WEBRTC_ALERT"
    by (simp_all add: janus_flags_is_set_def janus_flags_set_def)
  have new: "jsep_new_session env request sid txn
               (handle\<lparr>webrtc_flags :=
                  janus_flags_set (webrtc_flags handle) JANUS_ICE_HANDLE_WEBRTC_GOT_ANSWER\<rparr>)
               0 parsed_sdp audio video data do_trickle jsep_sdp st' =
             Some (Inl (jsep_error env request sid txn JANUS_ERROR_UNEXPECTED_ANSWER
                          (Format ''Unexpected ANSWER (did we offer?)'' [])
                          (handle\<lparr>webrtc_flags :=
                             insert JANUS_ICE_HANDLE_WEBRTC_GOT_ANSWER (webrtc_flags handle)
                               - {JANUS_ICE_HANDLE_WEBRTC_PROCESSING_OFFER}\<rparr>) st'))"
    for do_trickle st'
    using assms(9)
    by (simp add: jsep_new_session_def Let_def clear_processing_offer_def janus_flags_clear_def
        janus_flags_set_def)
  show ?thesis
    using assms(1-3,5-8) assms(4) no_offer
    by (simp add: process_jsep_def Let_def flags new)
qed


lemma carries_answerD:
  "carries_answer request sdp \<Longrightarrow>
   JANUS_VALIDATE_JSON_OBJECT (message request) body_parameters = None \<and>
   (\<exists>jsep jsep_type.
      json_object_get (message request) ''jsep'' = Some jsep \<and>
      json_is_object jsep \<and>
      JANUS_VALIDATE_JSON_OBJECT_FORMAT ''JSEP error: missing mandatory element (%s)''
        ''JSEP error: invalid element type (%s should be %s)'' (Some jsep) jsep_parameters = None \<and>
      json_string_value (json_object_get (Some jsep) ''type'') = Some jsep_type \<and>
      strcasecmp jsep_type ''answer'' = 0 \<and>
      json_string_value (json_object_get (Some jsep) ''sdp'') = Some sdp)"
  by (auto simp: carries_answer_def split: option.splits)

text \<open>
  Claim C8. An authorized \<^verbatim>\<open>message\<close> request for a handle attached to a plugin, carrying a
  well-formed JSEP of type \<^verbatim>\<open>answer\<close> whose SDP the pre-parser accepts, on a handle that is
  not cleaning up, has no media session (\<^verbatim>\<open>READY\<close> is not set, or \<^verbatim>\<open>ALERT\<close> is) and has no
  ICE agent, is answered with the \<^verbatim>\<open>UNEXPECTED_ANSWER\<close> error. Besides the reply the only
  call is the notification of the event handlers, when they are enabled: neither
  \<^verbatim>\<open>janus_ice_setup_local\<close> nor \<^verbatim>\<open>janus_sdp_process\<close> is called.
\<close>

theorem unexpected_answer:
  assumes "addresses st request ''message'' session (Some handle)"
    and "authorized env request"
    and "app handle = Some plugin_t" and "app_handle handle = Some p"
    and "carries_answer request sdp"
    and "\<not> janus_flags_is_set (webrtc_flags handle) JANUS_ICE_HANDLE_WEBRTC_CLEANING"
    and "janus_sdp_preparse env sdp = (Some (parsed_sdp, audio, video, data), error_str)"
    and "\<not> janus_flags_is_set (webrtc_flags handle) JANUS_ICE_HANDLE_WEBRTC_READY \<or>
         janus_flags_is_set (webrtc_flags handle) JANUS_ICE_HANDLE_WEBRTC_ALERT"
    and "agent handle = None"
  shows "\<exists>ret st' reply jsep_type.
           janus_process_incoming_request env (Some request) st = Some (ret, st') \<and>
           calls st' = calls st @
             (if janus_events_is_enabled env
              then [Events_notify_jsep (request_id_member (message request) ''session_id'')
                      (handle_id handle) (opaque_id handle) ''remote'' jsep_type sdp]
              else []) @
             [Send_message (transport request) (instance_ptr request) (request_id request)
                (admin request) reply] \<and>
           is_error JANUS_ERROR_UNEXPECTED_ANSWER reply"
proof -
  let ?sid = "request_id_member (message request) ''session_id''"
  let ?txn = "json_string_value (json_object_get (message request) ''transaction'')"
  let ?hid = "request_id_member (message request) ''handle_id''"
  from carries_answerD [OF assms(5)] obtain jsep jsep_type where
    body: "JANUS_VALIDATE_JSON_OBJECT (message request) body_parameters = None"
    and j: "json_object_get (message request) ''jsep'' = Some jsep"
    and jo: "json_is_object jsep"
    and jv: "JANUS_VALIDATE_JSON_OBJECT_FORMAT ''JSEP error: missing mandatory element (%s)''
        ''JSEP error: invalid element type (%s should be %s)'' (Some jsep) jsep_parameters = None"
    and jt: "json_string_value (json_object_get (Some jsep) ''type'') = Some jsep_type"
    and ja: "strcasecmp jsep_type ''answer'' = 0"
    and js: "json_string_value (json_object_get (Some jsep) ''sdp'') = Some sdp"
    by blast
  from dispatch [OF assms(1,2)] obtain message_text where
    d: "janus_process_incoming_request env (Some request) st =
       map_option (write_back ?sid ?hid (touched env session st))
         (process_message env request ?sid ?txn message_text (touched env session st) (Some handle)
            (activity env ?sid session st))"
    by (auto simp: verb_message)
  note pj = process_jsep_unexpected_answer [OF jo jv jt ja js assms(6,7,8,9),
      of request ?sid ?txn "activity env ?sid session st"]
  have "process_message env request ?sid ?txn message_text (touched env session st) (Some handle)
          (activity env ?sid session st) =
        (case jsep_error env request ?sid ?txn JANUS_ERROR_UNEXPECTED_ANSWER
                (Format ''Unexpected ANSWER (did we offer?)'' [])
                (handle\<lparr>webrtc_flags :=
                   insert JANUS_ICE_HANDLE_WEBRTC_GOT_ANSWER (webrtc_flags handle)
                     - {JANUS_ICE_HANDLE_WEBRTC_PROCESSING_OFFER}\<rparr>)
                (if janus_events_is_enabled env
                 then call (Events_notify_jsep ?sid (handle_id handle) (opaque_id handle)
                              ''remote'' jsep_type sdp) (activity env ?sid session st)
                 else activity env ?sid session st) of
           Jsep_over ret handle st \<Rightarrow> Some (ret, Some handle, st)
         | Jsep_ready jsep_type jsep_sdp_stripped renegotiation handle st \<Rightarrow> None)"
    using assms(3,4) body j pj
    by (simp add: process_message_def Let_def jsep_error_def split_beta)
  with d show ?thesis
    by (simp add: jsep_error_def janus_process_error_def janus_process_error_string_def Let_def
        write_back_def is_error_def janus_create_message_def)
qed

theorem unexpected_answer_witness:
  "addresses example_state answer_request ''message'' example_session (Some example_handle) \<and>
   authorized example_env answer_request \<and>
   carries_answer answer_request ''v=0'' \<and>
   agent example_handle = None \<and>
   \<not> janus_flags_is_set (webrtc_flags example_handle) JANUS_ICE_HANDLE_WEBRTC_READY \<and>
   (\<exists>ret st' reply.
      janus_process_incoming_request example_env (Some answer_request) example_state = Some (ret, st') \<and>
      calls st' = [Send_message ''janus.transport.http'' 1 (Some 1) False reply] \<and>
      is_error JANUS_ERROR_UNEXPECTED_ANSWER reply)"
proof -
  have a: "addresses example_state answer_request ''message'' example_session (Some example_handle)"
    and b: "authorized example_env answer_request"
    and p: "app example_handle = Some ''janus.plugin.video''" "app_handle example_handle = Some 9"
    and c: "carries_answer answer_request ''v=0''"
    and n: "\<not> janus_flags_is_set (webrtc_flags example_handle) JANUS_ICE_HANDLE_WEBRTC_CLEANING"
    and s: "janus_sdp_preparse example_env ''v=0'' = (Some (Parsed_sdp ''v=0'', 1, 0, 0), [])"
    and r: "\<not> janus_flags_is_set (webrtc_flags example_handle) JANUS_ICE_HANDLE_WEBRTC_READY"
    and g: "agent example_handle = None"
    by (simp_all add: answer_request_def example_defs request_defs carries_answer_def
        body_parameters_def jsep_parameters_def janus_flags_is_set_def)
  have e: "calls example_state = []" "request_id answer_request = Some 1"
    "transport answer_request = ''janus.transport.http''"
    "instance_ptr answer_request = 1" "admin answer_request = False"
    "janus_events_is_enabled example_env = False"
    by (simp_all add: answer_request_def example_defs)
  from r have r': "\<not> janus_flags_is_set (webrtc_flags example_handle) JANUS_ICE_HANDLE_WEBRTC_READY \<or>
      janus_flags_is_set (webrtc_flags example_handle) JANUS_ICE_HANDLE_WEBRTC_ALERT" by simp
  from unexpected_answer [OF a b p c n s r' g] show ?thesis
    using a b c g r unfolding e by auto
qed

subsection \<open>Queued trickles and the answer\<close>

text \<open>What leaves the candidates handed to the ICE stack, the registry and the clock as
  they are.\<close>

lemma handed_call [simp]:
  "handed_to_ice (call e st) =
     handed_to_ice st @ (case parse_of e of None \<Rightarrow> [] | Some x \<Rightarrow> [x])"
  by (simp add: handed_to_ice_def call_def List.map_filter_def split: option.splits)

lemma handed_cong: "calls st = calls st' \<Longrightarrow> handed_to_ice st = handed_to_ice st'"
  by (simp add: handed_to_ice_def)

lemma handed_updates [simp]:
  "handed_to_ice (st\<lparr>sessions := s\<rparr>) = handed_to_ice st"
  "handed_to_ice (st\<lparr>clock_reads := k\<rparr>) = handed_to_ice st"
  "handed_to_ice (st\<lparr>random_supply := r\<rparr>) = handed_to_ice st"
  "handed_to_ice (put_session sid session st) = handed_to_ice st"
  "handed_to_ice (activity env sid session st) = handed_to_ice st"
  by (simp_all add: handed_to_ice_def put_session_def activity_def)

lemma handed_send [simp]:
  "handed_to_ice (snd (janus_process_success env request reply st)) = handed_to_ice st"
  "handed_to_ice (snd (janus_process_error_string env request sid txn code reason st)) = handed_to_ice st"
  "handed_to_ice (snd (janus_process_error env request sid txn code format st)) = handed_to_ice st"
  by (simp_all add: janus_process_success_def janus_process_error_string_def
      janus_process_error_def Let_def)

lemma sessions_send [simp]:
  "sessions (snd (janus_process_success env request reply st)) = sessions st"
  "sessions (snd (janus_process_error_string env request sid txn code reason st)) = sessions st"
  "sessions (snd (janus_process_error env request sid txn code format st)) = sessions st"
  by (simp_all add: janus_process_success_def janus_process_error_string_def
      janus_process_error_def Let_def)

lemma clock_send [simp]:
  "clock_reads (snd (janus_process_success env request reply st)) = clock_reads st"
  "clock_reads (snd (janus_process_error_string env request sid txn code reason st)) = clock_reads st"
  "clock_reads (snd (janus_process_error env request sid txn code format st)) = clock_reads st"
  "clock_reads (call e st) = clock_reads st"
  "clock_reads (put_session k session st) = clock_reads st"
  by (simp_all add: janus_process_success_def janus_process_error_string_def
      janus_process_error_def Let_def call_def put_session_def)

lemma sessions_loop [simp]:
  "sessions (pending_trickles_loop env hid q st) = sessions st"
  by (induction env hid q st rule: pending_trickles_loop.induct)
     (simp_all add: janus_get_monotonic_time_def Let_def split: option.splits)

lemma clock_loop:
  "clock_reads (pending_trickles_loop env hid q st) =
     clock_reads st + length (filter (\<lambda>cell. cell \<noteq> None) q)"
  by (induction env hid q st rule: pending_trickles_loop.induct)
     (simp_all add: janus_get_monotonic_time_def Let_def split: option.splits)

lemma ice_handle_answer_handed:
  "pending_trickles (fst (janus_request_ice_handle_answer env handle st)) = [] \<and>
   sessions (snd (janus_request_ice_handle_answer env handle st)) = sessions st \<and>
   handed_to_ice (snd (janus_request_ice_handle_answer env handle st)) =
     handed_to_ice st @
     map (Pair (handle_id handle)) (replayed env (clock_reads st) (pending_trickles handle))"
proof -
  have "handed_to_ice (snd (janus_request_ice_handle_answer env handle st)) =
     handed_to_ice st @
     map (Pair (handle_id handle)) (replayed env (clock_reads st) (pending_trickles handle))"
    unfolding handed_to_ice_def
    using ice_handle_answer_replays [of env handle st]
    by (simp add: List.map_filter_def comp_def)
  moreover have "sessions (snd (janus_request_ice_handle_answer env handle st)) = sessions st"
    by (simp add: janus_request_ice_handle_answer_def Let_def)
  ultimately show ?thesis using ice_handle_answer_replays [of env handle st] by simp
qed


lemma message_to_plugin_frame:
  "pending_trickles (fst (snd (message_to_plugin env request sid txn session handle plugin_t body jsep st))) =
     pending_trickles handle \<and>
   handed_to_ice (snd (snd (message_to_plugin env request sid txn session handle plugin_t body jsep st))) =
     handed_to_ice st \<and>
   sessions (snd (snd (message_to_plugin env request sid txn session handle plugin_t body jsep st))) =
     sessions st"
  by (simp add: message_to_plugin_def Let_def split_beta clear_processing_offer_def
      split: option.splits)

text \<open>A \<^verbatim>\<open>trickle\<close> that comes before the handle is ready for it is acknowledged and queued
  at the end of the queue (\<^verbatim>\<open>g_list_append\<close>), whatever the type of its candidate.\<close>

lemma process_trickle_queued:
  assumes "app handle = Some plugin_t" and "app_handle handle = Some p"
    and "plugin_session_is_alive env p"
    and "(json_object_get (message request) ''candidate'' = None) \<noteq>
         (json_object_get (message request) ''candidates'' = None)"
    and "\<not> janus_flags_is_set (webrtc_flags handle) JANUS_ICE_HANDLE_WEBRTC_CLEANING"
    and "stream handle = None \<or>
         janus_flags_is_set (webrtc_flags handle) JANUS_ICE_HANDLE_WEBRTC_PROCESSING_OFFER \<or>
         \<not> janus_flags_is_set (webrtc_flags handle) JANUS_ICE_HANDLE_WEBRTC_GOT_OFFER \<or>
         \<not> janus_flags_is_set (webrtc_flags handle) JANUS_ICE_HANDLE_WEBRTC_GOT_ANSWER"
  shows "process_trickle env request sid txn message_text (Some handle) st =
           (send_message_result env (transport request) (instance_ptr request)
              (janus_create_message ''ack'' sid txn),
            Some (handle\<lparr>webrtc_flags :=
                           insert JANUS_ICE_HANDLE_WEBRTC_TRICKLE (webrtc_flags handle),
                         pending_trickles := pending_trickles handle @
                           [Some (fst (janus_ice_trickle_new env txn
                                    (if json_object_get (message request) ''candidate'' \<noteq> None
                                     then json_object_get (message request) ''candidate''
                                     else json_object_get (message request) ''candidates'') st))]\<rparr>),
            call (Send_message (transport request) (instance_ptr request) (request_id request)
                    (admin request) (janus_create_message ''ack'' sid txn))
              (snd (janus_ice_trickle_new env txn
                      (if json_object_get (message request) ''candidate'' \<noteq> None
                       then json_object_get (message request) ''candidate''
                       else json_object_get (message request) ''candidates'') st)))"
proof -
  from assms(4) consider
      (single) c where "json_object_get (message request) ''candidate'' = Some c"
               "json_object_get (message request) ''candidates'' = None"
    | (many) c where "json_object_get (message request) ''candidate'' = None"
             "json_object_get (message request) ''candidates'' = Some c"
    by auto
  then show ?thesis
  proof cases
    case single
    show ?thesis
    proof (cases "JANUS_ICE_HANDLE_WEBRTC_TRICKLE \<in> webrtc_flags handle")
      case True
      then have "insert JANUS_ICE_HANDLE_WEBRTC_TRICKLE (webrtc_flags handle) = webrtc_flags handle"
        by auto
      with True assms(1,2,3,5,6) single show ?thesis
        by (simp add: process_trickle_def Let_def split_beta janus_flags_is_set_def
            janus_flags_set_def janus_process_success_def)
    next
      case False
      with assms(1,2,3,5,6) single show ?thesis
        by (simp add: process_trickle_def Let_def split_beta janus_flags_is_set_def
            janus_flags_set_def janus_process_success_def)
    qed
  next
    case many
    show ?thesis
    proof (cases "JANUS_ICE_HANDLE_WEBRTC_TRICKLE \<in> webrtc_flags handle")
      case True
      then have "insert JANUS_ICE_HANDLE_WEBRTC_TRICKLE (webrtc_flags handle) = webrtc_flags handle"
        by auto
      with True assms(1,2,3,5,6) many show ?thesis
        by (simp add: process_trickle_def Let_def split_beta janus_flags_is_set_def
            janus_flags_set_def janus_process_success_def)
    next
      case False
      with assms(1,2,3,5,6) many show ?thesis
        by (simp add: process_trickle_def Let_def split_beta janus_flags_is_set_def
            janus_flags_set_def janus_process_success_def)
    qed
  qed
qed

text \<open>An answer for a new media session on a handle that has an ICE agent replays the
  queue, once the SDP has been processed.\<close>

lemma process_jsep_answer:
  assumes "json_is_object jsep"
    and "JANUS_VALIDATE_JSON_OBJECT_FORMAT ''JSEP error: missing mandatory element (%s)''
           ''JSEP error: invalid element type (%s should be %s)'' (Some jsep) jsep_parameters = None"
    and "json_string_value (json_object_get (Some jsep) ''type'') = Some jsep_type"
    and "strcasecmp jsep_type ''answer'' = 0"
    and "json_string_value (json_object_get (Some jsep) ''sdp'') = Some jsep_sdp"
    and "\<not> janus_flags_is_set (webrtc_flags handle) JANUS_ICE_HANDLE_WEBRTC_CLEANING"
    and "janus_sdp_preparse env jsep_sdp = (Some (parsed_sdp, audio, video, data), error_str)"
    and "\<not> janus_flags_is_set (webrtc_flags handle) JANUS_ICE_HANDLE_WEBRTC_READY \<or>
         janus_flags_is_set (webrtc_flags handle) JANUS_ICE_HANDLE_WEBRTC_ALERT"
    and "agent handle \<noteq> None"
    and "\<forall>h. 0 \<le> fst (janus_sdp_process env h parsed_sdp False) \<and>
             pending_trickles (snd (janus_sdp_process env h parsed_sdp False)) = pending_trickles h \<and>
             handle_id (snd (janus_sdp_process env h parsed_sdp False)) = handle_id h"
  shows "\<exists>r. process_jsep env request sid txn handle jsep st = Some r \<and>
           pending_trickles (fst (jsep_outcome r)) = [] \<and>
           sessions (snd (jsep_outcome r)) = sessions st \<and>
           handed_to_ice (snd (jsep_outcome r)) =
             handed_to_ice st @
             map (Pair (handle_id handle))
               (replayed env (clock_reads st) (pending_trickles handle))"
proof -
  let ?h1 = "handle\<lparr>webrtc_flags :=
               janus_flags_set (webrtc_flags handle) JANUS_ICE_HANDLE_WEBRTC_GOT_ANSWER\<rparr>"
  let ?st1 = "if janus_events_is_enabled env
              then call (Events_notify_jsep sid (handle_id handle) (opaque_id handle)
                           ''remote'' jsep_type jsep_sdp) st
              else st"
  let ?h2 = "snd (janus_sdp_process env ?h1 parsed_sdp False)"
  let ?h3 = "?h2\<lparr>webrtc_flags :=
               janus_flags_set (webrtc_flags ?h2) JANUS_ICE_HANDLE_WEBRTC_TRICKLE\<rparr>"
  let ?st2 = "call (Sdp_process (handle_id handle) parsed_sdp False) ?st1"
  let ?a = "janus_request_ice_handle_answer env ?h3 ?st2"
  have no_offer: "strcasecmp jsep_type ''offer'' \<noteq> 0"
    using strcasecmp_same [OF assms(4), of "''offer''"] verbs_differ by simp
  have flags:
    "janus_flags_is_set (janus_flags_set (webrtc_flags handle) JANUS_ICE_HANDLE_WEBRTC_GOT_ANSWER)
       JANUS_ICE_HANDLE_WEBRTC_READY =
     janus_flags_is_set (webrtc_flags handle) JANUS_ICE_HANDLE_WEBRTC_READY"
    "janus_flags_is_set (janus_flags_set (webrtc_flags handle) JANUS_ICE_HANDLE_WEBRTC_GOT_ANSWER)
       JANUS_ICE_HANDLE_WEBRTC_ALERT =
     janus_flags_is_set (webrtc_flags handle) JANUS_ICE_HANDLE_WEBRTC_ALERT"
    by (simp_all add: janus_flags_is_set_def janus_flags_set_def)
  from assms(10) have ok: "\<not> fst (janus_sdp_process env ?h1 parsed_sdp False) < 0"
    by (simp add: not_less)
  have new: "jsep_new_session env request sid txn ?h1 0 parsed_sdp audio video data do_trickle
               jsep_sdp st' =
             Some (Inr (janus_request_ice_handle_answer env ?h3
                          (call (Sdp_process (handle_id handle) parsed_sdp False) st')))"
    for do_trickle st'
    using assms(9) ok
    by (simp add: jsep_new_session_def Let_def split_beta)
  have q: "pending_trickles ?h3 = pending_trickles handle" "handle_id ?h3 = handle_id handle"
    using assms(10) by simp_all
  have st2: "handed_to_ice ?st2 = handed_to_ice st" "clock_reads ?st2 = clock_reads st"
    "sessions ?st2 = sessions st"
    by simp_all
  from ice_handle_answer_handed [of env ?h3 ?st2]
  have a: "pending_trickles (fst ?a) = []" "sessions (snd ?a) = sessions st"
    "handed_to_ice (snd ?a) =
       handed_to_ice st @
       map (Pair (handle_id handle)) (replayed env (clock_reads st) (pending_trickles handle))"
    unfolding q st2 by simp_all
  have "process_jsep env request sid txn handle jsep st =
          (if fst (janus_sdp_anonymize env parsed_sdp) < 0
           then Some (jsep_error env request sid txn JANUS_ERROR_JSEP_INVALID_SDP
                        (Format ''JSEP error: invalid SDP'' [])
                        (clear_processing_offer ((fst ?a)\<lparr>remote_sdp := Some jsep_sdp\<rparr>)) (snd ?a))
           else Some (Jsep_ready jsep_type
                        (janus_sdp_write env (snd (janus_sdp_anonymize env parsed_sdp))) False
                        (clear_processing_offer ((fst ?a)\<lparr>remote_sdp := Some jsep_sdp\<rparr>)) (snd ?a)))"
  proof (cases "janus_events_is_enabled env")
    case True
    with assms(1-3,5-8) assms(4) no_offer show ?thesis
      by (simp add: process_jsep_def Let_def flags new split_beta)
  next
    case False
    with assms(1-3,5-8) assms(4) no_offer show ?thesis
      by (simp add: process_jsep_def Let_def flags new split_beta)
  qed
  with a show ?thesis
    by (simp add: jsep_error_def split_beta clear_processing_offer_def)
qed

lemma process_message_answer:
  assumes "app handle = Some plugin_t" and "app_handle handle = Some p"
    and "carries_answer request sdp"
    and "\<not> janus_flags_is_set (webrtc_flags handle) JANUS_ICE_HANDLE_WEBRTC_CLEANING"
    and "janus_sdp_preparse env sdp = (Some (parsed_sdp, audio, video, data), error_str)"
    and "\<not> janus_flags_is_set (webrtc_flags handle) JANUS_ICE_HANDLE_WEBRTC_READY \<or>
         janus_flags_is_set (webrtc_flags handle) JANUS_ICE_HANDLE_WEBRTC_ALERT"
    and "agent handle \<noteq> None"
    and "\<forall>h. 0 \<le> fst (janus_sdp_process env h parsed_sdp False) \<and>
             pending_trickles (snd (janus_sdp_process env h parsed_sdp False)) = pending_trickles h \<and>
             handle_id (snd (janus_sdp_process env h parsed_sdp False)) = handle_id h"
  shows "\<exists>ret handle' st'.
           process_message env request sid txn message_text session (Some handle) st =
             Some (ret, Some handle', st') \<and>
           pending_trickles handle' = [] \<and>
           sessions st' = sessions st \<and>
           handed_to_ice st' =
             handed_to_ice st @
             map (Pair (handle_id handle))
               (replayed env (clock_reads st) (pending_trickles handle))"
proof -
  from carries_answerD [OF assms(3)] obtain jsep jsep_type where
    body: "JANUS_VALIDATE_JSON_OBJECT (message request) body_parameters = None"
    and j: "json_object_get (message request) ''jsep'' = Some jsep"
    and jo: "json_is_object jsep"
    and jv: "JANUS_VALIDATE_JSON_OBJECT_FORMAT ''JSEP error: missing mandatory element (%s)''
        ''JSEP error: invalid element type (%s should be %s)'' (Some jsep) jsep_parameters = None"
    and jt: "json_string_value (json_object_get (Some jsep) ''type'') = Some jsep_type"
    and ja: "strcasecmp jsep_type ''answer'' = 0"
    and js: "json_string_value (json_object_get (Some jsep) ''sdp'') = Some sdp"
    by blast
  from process_jsep_answer [OF jo jv jt ja js assms(4-8), of request sid txn st]
  obtain r where
    r: "process_jsep env request sid txn handle jsep st = Some r"
    and o: "pending_trickles (fst (jsep_outcome r)) = []"
      "sessions (snd (jsep_outcome r)) = sessions st"
      "handed_to_ice (snd (jsep_outcome r)) =
         handed_to_ice st @
         map (Pair (handle_id handle)) (replayed env (clock_reads st) (pending_trickles handle))"
    by blast
  show ?thesis
  proof (cases r)
    case (Jsep_over ret h' st')
    with r o assms(1,2) body j show ?thesis
      by (simp add: process_message_def Let_def)
  next
    case (Jsep_ready t s b h' st')
    note f = message_to_plugin_frame [of env request sid txn session h' plugin_t
        "json_object_get (message request) ''body''" "Some (t, s, b)" st']
    from r Jsep_ready assms(1,2) body j
    have "process_message env request sid txn message_text session (Some handle) st =
            Some (fst (message_to_plugin env request sid txn session h' plugin_t
                         (json_object_get (message request) ''body'') (Some (t, s, b)) st'),
                  Some (fst (snd (message_to_plugin env request sid txn session h' plugin_t
                         (json_object_get (message request) ''body'') (Some (t, s, b)) st'))),
                  snd (snd (message_to_plugin env request sid txn session h' plugin_t
                         (json_object_get (message request) ''body'') (Some (t, s, b)) st')))"
      by (simp add: process_message_def Let_def split_beta)
    with f o Jsep_ready show ?thesis by simp
  qed
qed

lemma trickle_new_frame [simp]:
  "sessions (snd (janus_ice_trickle_new env txn c st)) = sessions st"
  "calls (snd (janus_ice_trickle_new env txn c st)) = calls st"
  "clock_reads (snd (janus_ice_trickle_new env txn c st)) = Suc (clock_reads st)"
  by (simp_all add: janus_ice_trickle_new_def janus_get_monotonic_time_def)

lemma find_trickle_new [simp]:
  "janus_session_find (snd (janus_ice_trickle_new env txn c st)) k = janus_session_find st k"
  by (simp add: janus_session_find_def)

lemma find_sessions_cong:
  "sessions st = sessions st' \<Longrightarrow> janus_session_find st k = janus_session_find st' k"
  by (simp add: janus_session_find_def)

lemma replayed_example_queue:
  "replayed example_env k
     (example_queue @
      [Some (fst (janus_ice_trickle_new example_env txn (Some c) st))]) =
   [JSON_OBJECT [(''candidate'', JSON_STRING ''b'')],
    JSON_OBJECT [(''candidate'', JSON_STRING ''c'')],
    JSON_OBJECT [(''completed'', JSON_TRUE)]] @
   fed_candidates \<lparr>trickle_transaction = txn, candidate = Some c, received = 100 * G_USEC_PER_SEC\<rparr>"
  by (simp add: replayed_def example_queue_def example_env_def too_old_def G_USEC_PER_SEC_def
      janus_ice_trickle_new_def janus_get_monotonic_time_def)

text \<open>
  Claim C3, amended. A \<^verbatim>\<open>trickle\<close> request that arrives while the handle cannot take
  candidates yet (no stream, or the offer still being processed, or offer or answer still
  missing) is acknowledged and queued behind the trickles already waiting, and hands
  nothing to the ICE stack. When the answer of the handle is then received and
  processed (a \<^verbatim>\<open>message\<close> with a JSEP of type \<^verbatim>\<open>answer\<close> for a new media session, on a
  handle that has an ICE agent, whose SDP is accepted), the request returns, the queue is
  empty afterwards, and what has been handed to the ICE stack is, in the order of the
  queue (first queued, first replayed, the new trickle last): for every queued trickle
  that is at most 45 seconds old when the loop gets to it, the queued candidate if it is
  a JSON object, or the elements of the queued array in their order; a trickle older
  than 45 seconds hands nothing to the ICE stack, and neither does a younger one whose
  candidate is neither an object nor an array (the \<^verbatim>\<open>trickle\<close> verb queues the member
  without looking at its type).
\<close>

theorem queued_trickles_replayed_by_answer:
  assumes "addresses st trickle ''trickle'' session (Some handle)"
    and "authorized env trickle"
    and "app handle = Some plugin_t" and "app_handle handle = Some p"
    and "plugin_session_is_alive env p"
    and "(json_object_get (message trickle) ''candidate'' = None) \<noteq>
         (json_object_get (message trickle) ''candidates'' = None)"
    and "\<not> janus_flags_is_set (webrtc_flags handle) JANUS_ICE_HANDLE_WEBRTC_CLEANING"
    and "stream handle = None \<or>
         janus_flags_is_set (webrtc_flags handle) JANUS_ICE_HANDLE_WEBRTC_PROCESSING_OFFER \<or>
         \<not> janus_flags_is_set (webrtc_flags handle) JANUS_ICE_HANDLE_WEBRTC_GOT_OFFER \<or>
         \<not> janus_flags_is_set (webrtc_flags handle) JANUS_ICE_HANDLE_WEBRTC_GOT_ANSWER"
    and "JANUS_VALIDATE_JSON_OBJECT (message answer) incoming_request_parameters = None"
    and "has_verb answer ''message''"
    and "request_id_member (message answer) ''session_id'' =
         request_id_member (message trickle) ''session_id''"
    and "request_id_member (message answer) ''handle_id'' =
         request_id_member (message trickle) ''handle_id''"
    and "authorized env answer"
    and "carries_answer answer sdp"
    and "janus_sdp_preparse env sdp = (Some (parsed_sdp, audio, video, data), error_str)"
    and "\<not> janus_flags_is_set (webrtc_flags handle) JANUS_ICE_HANDLE_WEBRTC_READY \<or>
         janus_flags_is_set (webrtc_flags handle) JANUS_ICE_HANDLE_WEBRTC_ALERT"
    and "agent handle \<noteq> None"
    and "\<forall>h. 0 \<le> fst (janus_sdp_process env h parsed_sdp False) \<and>
             pending_trickles (snd (janus_sdp_process env h parsed_sdp False)) = pending_trickles h \<and>
             handle_id (snd (janus_sdp_process env h parsed_sdp False)) = handle_id h"
  shows "\<exists>ret st1 ret' st2 session' handle'.
           janus_process_incoming_request env (Some trickle) st = Some (ret, st1) \<and>
           replies st1 = replies st @
             [janus_create_message ''ack'' (request_id_member (message trickle) ''session_id'')
                (json_string_value (json_object_get (message trickle) ''transaction''))] \<and>
           handed_to_ice st1 = handed_to_ice st \<and>
           janus_process_incoming_request env (Some answer) st1 = Some (ret', st2) \<and>
           handed_to_ice st2 =
             handed_to_ice st @
             map (Pair (handle_id handle))
               (replayed env (Suc (clock_reads st1))
                  (pending_trickles handle @
                   [Some (fst (janus_ice_trickle_new env
                            (json_string_value (json_object_get (message trickle) ''transaction''))
                            (if json_object_get (message trickle) ''candidate'' \<noteq> None
                             then json_object_get (message trickle) ''candidate''
                             else json_object_get (message trickle) ''candidates'')
                            (activity env (request_id_member (message trickle) ''session_id'')
                               session st)))])) \<and>
           janus_session_find st2 (request_id_member (message trickle) ''session_id'') =
             Some session' \<and>
           janus_session_handles_find session'
             (request_id_member (message trickle) ''handle_id'') = Some handle' \<and>
           pending_trickles handle' = []"
proof -
  let ?sid = "request_id_member (message trickle) ''session_id''"
  let ?hid = "request_id_member (message trickle) ''handle_id''"
  let ?txn = "json_string_value (json_object_get (message trickle) ''transaction'')"
  let ?txn' = "json_string_value (json_object_get (message answer) ''transaction'')"
  let ?payload = "if json_object_get (message trickle) ''candidate'' \<noteq> None
                  then json_object_get (message trickle) ''candidate''
                  else json_object_get (message trickle) ''candidates''"
  let ?act = "activity env ?sid session st"
  let ?new = "janus_ice_trickle_new env ?txn ?payload ?act"
  let ?ack = "janus_create_message ''ack'' ?sid ?txn"
  let ?handle1 = "handle\<lparr>webrtc_flags :=
                           insert JANUS_ICE_HANDLE_WEBRTC_TRICKLE (webrtc_flags handle),
                         pending_trickles := pending_trickles handle @ [Some (fst ?new)]\<rparr>"
  let ?session1 = "put_handle ?hid ?handle1 (touched env session st)"
  let ?st1 = "put_session ?sid ?session1
                (call (Send_message (transport trickle) (instance_ptr trickle) (request_id trickle)
                         (admin trickle) ?ack) (snd ?new))"
  from assms(1) have found: "janus_session_find st ?sid = Some session"
    and hfound: "janus_session_handles_find session ?hid = Some handle"
    and ids: "?sid \<noteq> 0" "?hid \<noteq> 0"
    by (simp_all add: addresses_def Let_def)
  from dispatch [OF assms(1,2)] obtain message_text where
    "janus_process_incoming_request env (Some trickle) st =
       Some (write_back ?sid ?hid (touched env session st)
               (process_trickle env trickle ?sid ?txn message_text (Some handle) ?act))"
    by (auto simp: verb_trickle)
  then have first: "janus_process_incoming_request env (Some trickle) st =
      Some (send_message_result env (transport trickle) (instance_ptr trickle) ?ack, ?st1)"
    unfolding process_trickle_queued [OF assms(3-8)] by (simp add: write_back_def)
  have r1: "replies ?st1 = replies st @ [?ack]"
    by (simp add: replies_def List.map_filter_def)
  have h1: "handed_to_ice ?st1 = handed_to_ice st"
    by (simp add: handed_to_ice_def List.map_filter_def)
  have f: "janus_session_find ?act ?sid = Some (touched env session st)"
    using find_activity [OF found, of env ?sid] by simp
  have f1: "janus_session_find ?st1 ?sid = Some ?session1"
    using f by (simp add: find_put_session)
  have hf1: "janus_session_handles_find ?session1 ?hid = Some ?handle1"
    using hfound by (simp add: handles_find_put_handle touched_def)
  have a: "addresses ?st1 answer ''message'' ?session1 (Some ?handle1)"
    using assms(9-12) ids f1 hf1 by (simp add: addresses_def Let_def)
  let ?touched1 = "touched env ?session1 ?st1"
  let ?act1 = "activity env ?sid ?session1 ?st1"
  from dispatch [OF a assms(13)] obtain message_text' where
    second: "janus_process_incoming_request env (Some answer) ?st1 =
       map_option (write_back ?sid ?hid ?touched1)
         (process_message env answer ?sid ?txn' message_text' ?touched1 (Some ?handle1) ?act1)"
    by (auto simp: verb_message assms(11,12))
  have p1: "app ?handle1 = Some plugin_t" "app_handle ?handle1 = Some p"
    "\<not> janus_flags_is_set (webrtc_flags ?handle1) JANUS_ICE_HANDLE_WEBRTC_CLEANING"
    "\<not> janus_flags_is_set (webrtc_flags ?handle1) JANUS_ICE_HANDLE_WEBRTC_READY \<or>
       janus_flags_is_set (webrtc_flags ?handle1) JANUS_ICE_HANDLE_WEBRTC_ALERT"
    "agent ?handle1 \<noteq> None"
    using assms(3,4,7,16,17) by (simp_all add: janus_flags_is_set_def)
  from process_message_answer [OF p1(1,2) assms(14) p1(3) assms(15) p1(4,5) assms(18),
      of ?sid ?txn' message_text' ?touched1 ?act1]
  obtain ret' handle' st' where
    m: "process_message env answer ?sid ?txn' message_text' ?touched1 (Some ?handle1) ?act1 =
          Some (ret', Some handle', st')"
    and e: "pending_trickles handle' = []"
    and s: "sessions st' = sessions ?act1"
    and h: "handed_to_ice st' =
              handed_to_ice ?act1 @
              map (Pair (handle_id ?handle1))
                (replayed env (clock_reads ?act1) (pending_trickles ?handle1))"
    by blast
  let ?st2 = "put_session ?sid (put_handle ?hid handle' ?touched1) st'"
  from second m have second': "janus_process_incoming_request env (Some answer) ?st1 = Some (ret', ?st2)"
    by (simp add: write_back_def)
  have f2: "janus_session_find ?act1 ?sid = Some ?touched1"
    using find_activity [OF f1, of env ?sid] by simp
  have f3: "janus_session_find ?st2 ?sid = Some (put_handle ?hid handle' ?touched1)"
    using f2 by (simp add: find_put_session find_sessions_cong [OF s])
  have hf3: "janus_session_handles_find (put_handle ?hid handle' ?touched1) ?hid = Some handle'"
    using hf1 by (simp add: handles_find_put_handle touched_def)
  have h2: "handed_to_ice ?st2 =
      handed_to_ice st @
      map (Pair (handle_id handle))
        (replayed env (Suc (clock_reads ?st1)) (pending_trickles handle @ [Some (fst ?new)]))"
    using h h1 by simp
  from first r1 h1 second' h2 f3 hf3 e show ?thesis by blast
qed

theorem queued_trickles_replayed_by_answer_witness:
  "addresses (offered_state example_queue)
     (trickle_request [(''candidate'', JSON_OBJECT [(''candidate'', JSON_STRING ''d'')])])
     ''trickle'' (example_session\<lparr>ice_handles := Some [(9, offered_handle example_queue)]\<rparr>)
     (Some (offered_handle example_queue)) \<and>
   authorized example_env
     (trickle_request [(''candidate'', JSON_OBJECT [(''candidate'', JSON_STRING ''d'')])]) \<and>
   plugin_session_is_alive example_env 9 \<and>
   \<not> janus_flags_is_set (webrtc_flags (offered_handle example_queue))
       JANUS_ICE_HANDLE_WEBRTC_GOT_ANSWER \<and>
   has_verb answer_request ''message'' \<and>
   authorized example_env answer_request \<and>
   carries_answer answer_request ''v=0'' \<and>
   agent (offered_handle example_queue) \<noteq> None \<and>
   (\<exists>ret st1 ret' st2 session' handle'.
      janus_process_incoming_request example_env
        (Some (trickle_request [(''candidate'', JSON_OBJECT [(''candidate'', JSON_STRING ''d'')])]))
        (offered_state example_queue) = Some (ret, st1) \<and>
      replies st1 = [janus_create_message ''ack'' 7 (Some ''t6'')] \<and>
      handed_to_ice st1 = [] \<and>
      janus_process_incoming_request example_env (Some answer_request) st1 = Some (ret', st2) \<and>
      handed_to_ice st2 =
        [(9, JSON_OBJECT [(''candidate'', JSON_STRING ''b'')]),
         (9, JSON_OBJECT [(''candidate'', JSON_STRING ''c'')]),
         (9, JSON_OBJECT [(''completed'', JSON_TRUE)]),
         (9, JSON_OBJECT [(''candidate'', JSON_STRING ''d'')])] \<and>
      janus_session_find st2 7 = Some session' \<and>
      janus_session_handles_find session' 9 = Some handle' \<and>
      pending_trickles handle' = [])"
proof -
  let ?t = "trickle_request [(''candidate'', JSON_OBJECT [(''candidate'', JSON_STRING ''d'')])]"
  let ?h = "offered_handle example_queue"
  let ?s = "example_session\<lparr>ice_handles := Some [(9, ?h)]\<rparr>"
  let ?st = "offered_state example_queue"
  have a: "addresses ?st ?t ''trickle'' ?s (Some ?h)"
    and b: "authorized example_env ?t"
    and p: "app ?h = Some ''janus.plugin.video''" "app_handle ?h = Some 9"
    and l: "plugin_session_is_alive example_env 9"
    and one: "(json_object_get (message ?t) ''candidate'' = None) \<noteq>
              (json_object_get (message ?t) ''candidates'' = None)"
    and n: "\<not> janus_flags_is_set (webrtc_flags ?h) JANUS_ICE_HANDLE_WEBRTC_CLEANING"
    and g: "\<not> janus_flags_is_set (webrtc_flags ?h) JANUS_ICE_HANDLE_WEBRTC_GOT_ANSWER"
    by (simp_all add: trickle_request_def offered_state_def offered_handle_def example_defs
        request_defs janus_flags_is_set_def)
  have v: "JANUS_VALIDATE_JSON_OBJECT (message answer_request) incoming_request_parameters = None"
    and m: "has_verb answer_request ''message''"
    and i: "request_id_member (message answer_request) ''session_id'' =
            request_id_member (message ?t) ''session_id''"
       "request_id_member (message answer_request) ''handle_id'' =
            request_id_member (message ?t) ''handle_id''"
    and b': "authorized example_env answer_request"
    and c: "carries_answer answer_request ''v=0''"
    and s: "janus_sdp_preparse example_env ''v=0'' = (Some (Parsed_sdp ''v=0'', 1, 0, 0), [])"
    and r: "\<not> janus_flags_is_set (webrtc_flags ?h) JANUS_ICE_HANDLE_WEBRTC_READY"
    and ag: "agent ?h \<noteq> None"
    and sp: "\<forall>h. 0 \<le> fst (janus_sdp_process example_env h (Parsed_sdp ''v=0'') False) \<and>
             pending_trickles (snd (janus_sdp_process example_env h (Parsed_sdp ''v=0'') False)) =
               pending_trickles h \<and>
             handle_id (snd (janus_sdp_process example_env h (Parsed_sdp ''v=0'') False)) = handle_id h"
    by (simp_all add: answer_request_def trickle_request_def offered_handle_def example_defs
        request_defs carries_answer_def body_parameters_def jsep_parameters_def
        janus_flags_is_set_def)
  from g have w: "stream ?h = None \<or>
         janus_flags_is_set (webrtc_flags ?h) JANUS_ICE_HANDLE_WEBRTC_PROCESSING_OFFER \<or>
         \<not> janus_flags_is_set (webrtc_flags ?h) JANUS_ICE_HANDLE_WEBRTC_GOT_OFFER \<or>
         \<not> janus_flags_is_set (webrtc_flags ?h) JANUS_ICE_HANDLE_WEBRTC_GOT_ANSWER" by simp
  from r have r': "\<not> janus_flags_is_set (webrtc_flags ?h) JANUS_ICE_HANDLE_WEBRTC_READY \<or>
      janus_flags_is_set (webrtc_flags ?h) JANUS_ICE_HANDLE_WEBRTC_ALERT" by simp
  have e: "request_id_member (message ?t) ''session_id'' = 7"
    "request_id_member (message ?t) ''handle_id'' = 9"
    "json_string_value (json_object_get (message ?t) ''transaction'') = Some ''t6''"
    "json_object_get (message ?t) ''candidate'' =
       Some (JSON_OBJECT [(''candidate'', JSON_STRING ''d'')])"
    "replies ?st = []" "handed_to_ice ?st = []" "handle_id ?h = 9" "pending_trickles ?h = example_queue"
    by (simp_all add: trickle_request_def offered_state_def offered_handle_def example_defs
        request_defs replies_def handed_to_ice_def List.map_filter_def)
  from queued_trickles_replayed_by_answer [OF a b p l one n w v m i b' c s r' ag sp]
  have "\<exists>ret st1 ret' st2 session' handle'.
      janus_process_incoming_request example_env (Some ?t) ?st = Some (ret, st1) \<and>
      replies st1 = [janus_create_message ''ack'' 7 (Some ''t6'')] \<and>
      handed_to_ice st1 = [] \<and>
      janus_process_incoming_request example_env (Some answer_request) st1 = Some (ret', st2) \<and>
      handed_to_ice st2 =
        [(9, JSON_OBJECT [(''candidate'', JSON_STRING ''b'')]),
         (9, JSON_OBJECT [(''candidate'', JSON_STRING ''c'')]),
         (9, JSON_OBJECT [(''completed'', JSON_TRUE)]),
         (9, JSON_OBJECT [(''candidate'', JSON_STRING ''d'')])] \<and>
      janus_session_find st2 7 = Some session' \<and>
      janus_session_handles_find session' 9 = Some handle' \<and>
      pending_trickles handle' = []"
    unfolding e by (simp add: replayed_example_queue)
  with a b l g m b' c ag show ?thesis by simp
qed

text \<open>A young trickle is not always fed: \<^verbatim>\<open>{"janus": "trickle", "candidate": "x"}\<close> is
  acknowledged and queued, and the answer that follows at once empties the queue without
  handing anything to the ICE stack.\<close>

lemmas trickle_defs =
  janus_process_incoming_request_def process_verb_def process_trickle_def write_back_def
  janus_request_check_secret_def janus_get_monotonic_time_def janus_ice_trickle_new_def
  janus_flags_is_set_def janus_flags_set_def janus_flags_clear_def
  trickle_request_def offered_state_def offered_handle_def

lemma queued_string_first:
  "map_option (\<lambda>(ret, st1).
       (replies st1,
        map_option (\<lambda>session. map_option pending_trickles (janus_session_handles_find session 9))
          (janus_session_find st1 7)))
     (janus_process_incoming_request example_env
        (Some (trickle_request [(''candidate'', JSON_STRING ''x'')])) (offered_state [])) =
   Some ([janus_create_message ''ack'' 7 (Some ''t6'')],
         Some (Some [Some \<lparr>trickle_transaction = Some ''t6'',
                            candidate = Some (JSON_STRING ''x''),
                            received = 100 * G_USEC_PER_SEC\<rparr>]))"
  by (simp add: trickle_defs example_defs request_defs reply_defs state_defs Let_def
      word_less_1 word_gt_0)

lemmas message_defs =
  process_message_def process_jsep_def jsep_new_session_def janus_request_ice_handle_answer_def
  message_to_plugin_def jsep_to_plugin_def clear_processing_offer_def jsep_error_def
  body_parameters_def jsep_parameters_def answer_request_def

theorem queued_string_candidate_counterexample:
  "Option.bind
     (janus_process_incoming_request example_env
        (Some (trickle_request [(''candidate'', JSON_STRING ''x'')])) (offered_state []))
     (\<lambda>(ret, st1).
        map_option (\<lambda>(ret', st2).
            (replies st1,
             map_option (\<lambda>session. map_option pending_trickles (janus_session_handles_find session 9))
               (janus_session_find st1 7),
             handed_to_ice st2,
             map_option (\<lambda>session. map_option pending_trickles (janus_session_handles_find session 9))
               (janus_session_find st2 7)))
          (janus_process_incoming_request example_env (Some answer_request) st1)) =
   Some ([janus_create_message ''ack'' 7 (Some ''t6'')],
         Some (Some [Some \<lparr>trickle_transaction = Some ''t6'',
                            candidate = Some (JSON_STRING ''x''),
                            received = 100 * G_USEC_PER_SEC\<rparr>]),
         [],
         Some (Some [])) \<and>
   \<not> too_old (\<lparr>trickle_transaction = Some ''t6'', candidate = Some (JSON_STRING ''x''),
                  received = 100 * G_USEC_PER_SEC\<rparr>,
                 monotonic_time example_env 3)"
  by (simp add: trickle_defs message_defs example_defs request_defs reply_defs state_defs Let_def
      word_less_1 word_gt_0 handed_to_ice_def too_old_def)

end
